theory Spec2Isabelle
  imports Main "HOL-Library.Sublist" "HOL-Library.Monad_Syntax"
begin

section \<open>Strings and the JavaScript string primitives the code uses\<close>

text \<open>
  A JavaScript string is modelled as a \<^typ>\<open>string\<close> that holds the bytes of the UTF-8
  encoding of its text, which is well formed: an ASCII character is one byte, a
  character outside ASCII is a sequence of two to four bytes of value 128 or more (so
  the symbols of the posted messages are byte sequences below). A byte sequence that
  encodes a character occurs in the bytes of a text only where that character occurs in
  the text, so a search for a character or for a text is a search for its bytes.

  None of the regular expressions of the code has the flag \<open>u\<close>. \<open>\d\<close> is
  \<open>0\<close>-\<open>9\<close> and \<open>\w\<close> is an ASCII letter, a digit or the underscore.
  \<open>\s\<close>, and likewise \<open>trim\<close>, takes the white space and the line terminators of
  the language: tab, line feed, vertical tab, form feed, carriage return and space, and
  outside ASCII the characters U+00A0, U+1680, U+2000 to U+200A, U+2028, U+2029, U+202F,
  U+205F, U+3000 and U+FEFF, which \<open>whitespace\<close> lists as their encodings.
  \<open>space_at s\<close> is the number of bytes of the whitespace character that \<open>s\<close> starts
  with, and 0 when \<open>s\<close> starts with none.
\<close>

definition whitespace :: "string list" where
  "whitespace =
     map (\<lambda>c. [c]) [CHR 0x09, CHR 0x0A, CHR 0x0B, CHR 0x0C, CHR 0x0D, CHR 0x20] @
     [[CHR 0xC2, CHR 0xA0], [CHR 0xE1, CHR 0x9A, CHR 0x80]] @
     map (\<lambda>c. [CHR 0xE2, CHR 0x80, c])
       [CHR 0x80, CHR 0x81, CHR 0x82, CHR 0x83, CHR 0x84, CHR 0x85, CHR 0x86, CHR 0x87,
        CHR 0x88, CHR 0x89, CHR 0x8A, CHR 0xA8, CHR 0xA9, CHR 0xAF] @
     [[CHR 0xE2, CHR 0x81, CHR 0x9F], [CHR 0xE3, CHR 0x80, CHR 0x80],
      [CHR 0xEF, CHR 0xBB, CHR 0xBF]]"

definition space_at :: "string \<Rightarrow> nat" where
  "space_at s = (case find (\<lambda>u. prefix u s) whitespace of None \<Rightarrow> 0 | Some u \<Rightarrow> length u)"

definition space_end :: "string \<Rightarrow> nat" where
  "space_end s = (case find (\<lambda>u. suffix u s) whitespace of None \<Rightarrow> 0 | Some u \<Rightarrow> length u)"

definition isDigit :: "char \<Rightarrow> bool" where
  "isDigit c \<longleftrightarrow> c \<in> set ''0123456789''"

definition isWord :: "char \<Rightarrow> bool" where
  "isWord c \<longleftrightarrow>
     c \<in> set ''abcdefghijklmnopqrstuvwxyzABCDEFGHIJKLMNOPQRSTUVWXYZ0123456789_''"

text \<open>
  \<open>s.toUpperCase()\<close>, at its call sites in \<open>validateScheduleTime\<close>, where the result
  is matched against a pattern of digits, a colon and the letters of \<open>AM\<close> and \<open>PM\<close>
  or compared with \<open>PM\<close>. The letters \<open>a\<close>-\<open>z\<close> are mapped and every other byte is
  kept. The language also maps characters outside ASCII, but none of them to a text
  made of digits, colons and the letters A, M and P, so the match and the comparison
  come out the same.
\<close>

definition toUpperChar :: "char \<Rightarrow> char" where
  "toUpperChar c =
     (case map_of (zip ''abcdefghijklmnopqrstuvwxyz'' ''ABCDEFGHIJKLMNOPQRSTUVWXYZ'') c of
        Some u \<Rightarrow> u
      | None \<Rightarrow> c)"

definition toUpperCase :: "string \<Rightarrow> string" where
  "toUpperCase s = map toUpperChar s"

text \<open>
  What is left of \<open>s\<close> after the whitespace it starts with (\<open>dropSpaces\<close>) and after
  the whitespace it ends with (\<open>dropSpacesEnd\<close>).
\<close>

function dropSpaces :: "string \<Rightarrow> string" where
  "dropSpaces s = (if space_at s = 0 then s else dropSpaces (drop (space_at s) s))"
  by pat_completeness auto
termination
proof (relation "measure length")
  fix s :: string
  assume "space_at s \<noteq> 0"
  then have "s \<noteq> []"
    by (cases s) (auto simp: space_at_def find_Some_iff split: option.splits)
  with \<open>space_at s \<noteq> 0\<close> show "(drop (space_at s) s, s) \<in> measure length" by simp
qed simp

function dropSpacesEnd :: "string \<Rightarrow> string" where
  "dropSpacesEnd s =
     (if space_end s = 0 then s else dropSpacesEnd (take (length s - space_end s) s))"
  by pat_completeness auto
termination
proof (relation "measure length")
  fix s :: string
  assume "space_end s \<noteq> 0"
  then have "s \<noteq> []"
    by (cases s) (auto simp: space_end_def find_Some_iff split: option.splits)
  with \<open>space_end s \<noteq> 0\<close> show "(take (length s - space_end s) s, s) \<in> measure length"
    by simp
qed simp

declare dropSpaces.simps [simp del]
declare dropSpacesEnd.simps [simp del]

text \<open>\<open>s.trim()\<close>: whitespace is removed at both ends.\<close>

definition trim :: "string \<Rightarrow> string" where
  "trim s = dropSpacesEnd (dropSpaces s)"

text \<open>
  \<open>s.split(/\s+/)\<close>. The first argument is the piece read so far. A run of
  whitespace ends the piece, also an empty one: leading whitespace gives a first piece
  that is empty, trailing whitespace a last piece that is empty, and the empty string
  splits into one empty piece.
\<close>

function split_ws_from :: "string \<Rightarrow> string \<Rightarrow> string list" where
  "split_ws_from cur [] = [cur]"
| "split_ws_from cur (c # cs) =
     (if space_at (c # cs) = 0 then split_ws_from (cur @ [c]) cs
      else cur # split_ws_from [] (dropSpaces (c # cs)))"
  by pat_completeness auto
termination
proof (relation "measure (\<lambda>(cur, s). length s)")
  have shorter: "length (dropSpaces s) \<le> length s" for s
  proof (induction s rule: dropSpaces.induct)
    case (1 s)
    show ?case
    proof (cases "space_at s = 0")
      case True
      then show ?thesis by (simp add: dropSpaces.simps[of s])
    next
      case False
      from 1[OF False] show ?thesis using False by (simp add: dropSpaces.simps[of s])
    qed
  qed
  fix cur :: string and c :: char and cs :: string
  assume a: "space_at (c # cs) \<noteq> 0"
  have "length (dropSpaces (c # cs)) = length (dropSpaces (drop (space_at (c # cs)) (c # cs)))"
    using a by (simp add: dropSpaces.simps[of "c # cs"])
  also have "\<dots> \<le> length (drop (space_at (c # cs)) (c # cs))" by (rule shorter)
  also have "\<dots> < length (c # cs)" using a by simp
  finally show "(([], dropSpaces (c # cs)), cur, c # cs) \<in> measure (\<lambda>(cur, s). length s)"
    by simp
qed auto

definition split_ws :: "string \<Rightarrow> string list" where
  "split_ws s = split_ws_from [] s"

text \<open>\<open>s.replace(/\s+/g, '')\<close>: every whitespace character is removed.\<close>

function removeSpaces :: "string \<Rightarrow> string" where
  "removeSpaces [] = []"
| "removeSpaces (c # cs) =
     (if space_at (c # cs) = 0 then c # removeSpaces cs
      else removeSpaces (drop (space_at (c # cs)) (c # cs)))"
  by pat_completeness auto
termination
  by (relation "measure length") auto

text \<open>\<open>s.split('/')\<close> and the like: every occurrence of the character separates.\<close>

fun split_char_from :: "char \<Rightarrow> string \<Rightarrow> string \<Rightarrow> string list" where
  "split_char_from sep cur [] = [cur]"
| "split_char_from sep cur (c # cs) =
     (if c = sep then cur # split_char_from sep [] cs
      else split_char_from sep (cur @ [c]) cs)"

definition split_char :: "char \<Rightarrow> string \<Rightarrow> string list" where
  "split_char sep s = split_char_from sep [] s"

text \<open>\<open>parts.join(sep)\<close>.\<close>

fun join :: "string \<Rightarrow> string list \<Rightarrow> string" where
  "join sep [] = []"
| "join sep [x] = x"
| "join sep (x # y # ys) = x @ sep @ join sep (y # ys)"

text \<open>\<open>s.includes(sub)\<close>.\<close>

fun includes_str :: "string \<Rightarrow> string \<Rightarrow> bool" where
  "includes_str [] sub = (sub = [])"
| "includes_str (c # cs) sub = (prefix sub (c # cs) \<or> includes_str cs sub)"

text \<open>\<open>s.padStart(n, c)\<close> with a one-character filler.\<close>

definition padStart :: "nat \<Rightarrow> char \<Rightarrow> string \<Rightarrow> string" where
  "padStart n c s = replicate (n - length s) c @ s"

text \<open>
  \<open>parseInt(s, 10)\<close> at its two call sites, where \<open>s\<close> is one or two digits that
  the pattern \<open>\d\<close> has matched: the decimal value of a digit string.
\<close>

definition digitVal :: "char \<Rightarrow> int" where
  "digitVal c = (case map_of (zip ''0123456789'' [0, 1, 2, 3, 4, 5, 6, 7, 8, 9]) c of
                   Some v \<Rightarrow> v | None \<Rightarrow> 0)"

definition parseInt10 :: "string \<Rightarrow> int" where
  "parseInt10 s = foldl (\<lambda>a c. 10 * a + digitVal c) 0 s"

text \<open>\<open>n.toString()\<close> of a number that is a non-negative integer.\<close>

fun toString_nat :: "nat \<Rightarrow> string" where
  "toString_nat n =
     (if n < 10 then [''0123456789'' ! n]
      else toString_nat (n div 10) @ [''0123456789'' ! (n mod 10)])"

definition toString :: "int \<Rightarrow> string" where
  "toString n = toString_nat (nat n)"

section \<open>Thrown values and dates\<close>

text \<open>
  A thrown value carries its \<open>message\<close> and, when the Repository Host reports one, an
  HTTP \<open>status\<close>; \<open>new Error(msg)\<close> has no status. A JavaScript \<open>Date\<close> is its time
  value in milliseconds since the epoch, or \<open>None\<close> for an Invalid Date.
\<close>

datatype error = Error (message: string) (status: "int option")

type_synonym date = "int option"

section \<open>The time parser: \<open>validateScheduleTime\<close>\<close>

text \<open>
  The pattern \<open>/^(\d{1,2}):(\d{2})(AM|PM)?$/i\<close>, matched against the whole string.
  \<open>timeMatch_tail\<close> is the part after the hours: a colon, two digits, and then
  either a marker that is \<open>AM\<close> or \<open>PM\<close> up to letter case (flag \<open>i\<close>) followed by
  the end, or the end at once. The hours are tried greedily: two digits first, one
  digit when that fails. The result is the three groups; the third is \<open>None\<close> when
  the marker group took no part in the match.
\<close>

definition timeMatch_tail :: "string \<Rightarrow> (string \<times> string option) option" where
  "timeMatch_tail s =
     (case s of
        c # m1 # m2 # rest \<Rightarrow>
          if c = CHR '':'' \<and> isDigit m1 \<and> isDigit m2 then
            (if toUpperCase rest = ''AM'' \<or> toUpperCase rest = ''PM''
               then Some ([m1, m2], Some rest)
             else if rest = [] then Some ([m1, m2], None)
             else None)
          else None
      | _ \<Rightarrow> None)"

definition timeMatch :: "string \<Rightarrow> (string \<times> string \<times> string option) option" where
  "timeMatch s =
     (case (case s of
              h1 # h2 # t \<Rightarrow>
                if isDigit h1 \<and> isDigit h2
                then map_option (\<lambda>(m, mer). ([h1, h2], m, mer)) (timeMatch_tail t)
                else None
            | _ \<Rightarrow> None) of
        Some r \<Rightarrow> Some r
      | None \<Rightarrow>
          (case s of
             h1 # t \<Rightarrow>
               if isDigit h1
               then map_option (\<lambda>(m, mer). ([h1], m, mer)) (timeMatch_tail t)
               else None
           | _ \<Rightarrow> None))"

text \<open>
  Lines 41 to 74 of \<open>validateScheduleTime\<close>, from the match of \<open>timeStr\<close> to the
  value of the variable \<open>date\<close>, or the error thrown before it is assigned.
  \<open>zonedTimeToUtc\<close> of date-fns-tz is a parameter: given the text
  \<open>YYYY-MM-DD HH:mm\<close> and the zone name it throws, or returns a date that may be
  invalid.
\<close>

definition validateScheduleTime_time ::
  "(string \<Rightarrow> string \<Rightarrow> error + date) \<Rightarrow> string \<Rightarrow> string \<Rightarrow> string \<Rightarrow> error + date" where
  "validateScheduleTime_time zonedTimeToUtc datePart timeStr timezone =
     (case timeMatch timeStr of
        None \<Rightarrow> Inl (Error ''Invalid time format'' None)
      | Some (hours, minutes, meridiem) \<Rightarrow>
          let parsedHours = parseInt10 hours;
              parsedMinutes = parseInt10 minutes
          in
          (case meridiem of
             Some mer \<Rightarrow>
               if parsedHours < 1 \<or> parsedHours > 12 \<or> parsedMinutes < 0 \<or> parsedMinutes > 59
               then Inl (Error ''Invalid time format'' None)
               else
                 let isPM = (toUpperCase mer = ''PM'');
                     hour24 =
                       (if isPM \<and> parsedHours \<noteq> 12 then parsedHours + 12
                        else if \<not> isPM \<and> parsedHours = 12 then 0
                        else parsedHours);
                     time24 = padStart 2 (CHR ''0'') (toString hour24) @ '':'' @
                              padStart 2 (CHR ''0'') minutes
                 in zonedTimeToUtc (datePart @ '' '' @ time24) timezone
           | None \<Rightarrow>
               if parsedHours < 0 \<or> parsedHours > 23 \<or> parsedMinutes < 0 \<or> parsedMinutes > 59
               then Inl (Error ''Invalid time format'' None)
               else zonedTimeToUtc
                      (datePart @ '' '' @ padStart 2 (CHR ''0'') hours @ '':'' @
                       padStart 2 (CHR ''0'') minutes) timezone))"

text \<open>
  Lines 28 to 40: the input is trimmed and split at whitespace into the date token and
  the time tokens, which are joined, stripped of whitespace and upper-cased.
\<close>

definition validateScheduleTime_date ::
  "(string \<Rightarrow> string \<Rightarrow> error + date) \<Rightarrow> string \<Rightarrow> string \<Rightarrow> error + date" where
  "validateScheduleTime_date zonedTimeToUtc dateStr timezone =
     (let parsedDate = trim dateStr in
      case split_ws parsedDate of
        [] \<Rightarrow> Inl (Error ''Date and time must be provided'' None)
      | datePart # timeParts \<Rightarrow>
          let timeWithMeridiem = join '' '' timeParts in
          if datePart = [] \<or> timeWithMeridiem = []
          then Inl (Error ''Date and time must be provided'' None)
          else
            let timeStr = toUpperCase (removeSpaces timeWithMeridiem)
            in validateScheduleTime_time zonedTimeToUtc datePart timeStr timezone)"

text \<open>
  The body of the \<open>try\<close> block: \<open>isValid(date)\<close>, then the window. \<open>now\<close> is the
  value of \<open>new Date()\<close> at line 80. \<open>addDays\<close> of date-fns is a parameter: it
  adds calendar days in the time zone of the process, which the code does not set, and
  its result for the clock and 30 is a date.
\<close>

definition validateScheduleTime_try ::
  "(string \<Rightarrow> string \<Rightarrow> error + date) \<Rightarrow> (int \<Rightarrow> int \<Rightarrow> int) \<Rightarrow> int \<Rightarrow> string \<Rightarrow> string \<Rightarrow>
   error + int" where
  "validateScheduleTime_try zonedTimeToUtc addDays now dateStr timezone =
     (case validateScheduleTime_date zonedTimeToUtc dateStr timezone of
        Inl e \<Rightarrow> Inl e
      | Inr None \<Rightarrow> Inl (Error ''Invalid date format'' None)
      | Inr (Some t) \<Rightarrow>
          if t \<le> now then Inl (Error ''Scheduled time must be in the future'' None)
          else
            let maxDate = addDays now 30 in
            if t > maxDate then Inl (Error ''Cannot schedule more than 30 days in advance'' None)
            else Inr t)"

text \<open>The \<open>catch\<close> wraps whatever was thrown.\<close>

definition validateScheduleTime ::
  "(string \<Rightarrow> string \<Rightarrow> error + date) \<Rightarrow> (int \<Rightarrow> int \<Rightarrow> int) \<Rightarrow> int \<Rightarrow> string \<Rightarrow> string \<Rightarrow>
   error + int" where
  "validateScheduleTime zonedTimeToUtc addDays now dateStr timezone =
     (case validateScheduleTime_try zonedTimeToUtc addDays now dateStr timezone of
        Inl e \<Rightarrow> Inl (Error (''Invalid date/time format: '' @ message e) None)
      | Inr d \<Rightarrow> Inr d)"


text \<open>
  The conversion to the 24-hour clock as the specification words it: hour 12 AM maps
  to 0, hour 12 PM stays 12, every other PM hour has 12 added, AM hours 1 to 11 are
  unchanged. It is compared with the parser below.
\<close>

definition spec_hour24 :: "int \<Rightarrow> bool \<Rightarrow> int" where
  "spec_hour24 h pm = (if h = 12 then (if pm then 12 else 0) else if pm then h + 12 else h)"

text \<open>
  \<open>noSpace s\<close>: no whitespace character occurs in \<open>s\<close>. A token of the input is
  not empty and has no whitespace in it.
\<close>

fun noSpace :: "string \<Rightarrow> bool" where
  "noSpace [] = True"
| "noSpace (c # cs) = (space_at (c # cs) = 0 \<and> noSpace cs)"

definition is_token :: "string \<Rightarrow> bool" where
  "is_token t \<longleftrightarrow> t \<noteq> [] \<and> noSpace t"

text \<open>
  An ASCII character is one byte below 128; \<open>plain c\<close>: \<open>c\<close> is an ASCII
  character other than whitespace.
\<close>

definition ascii :: "char \<Rightarrow> bool" where
  "ascii c \<longleftrightarrow> of_char c < (128::nat)"

definition plain :: "char \<Rightarrow> bool" where
  "plain c \<longleftrightarrow> ascii c \<and> space_at [c] = 0"

section \<open>The command pattern\<close>

text \<open>
  \<open>COMMAND_REGEX\<close> is
  \<open>/@merge-at\s+(\d{4}-\d{2}-\d{2}\s+\d{1,2}:\d{2}(?:\s*(?:AM|PM|am|pm))?)\s*([\w/]+)?/\<close>,
  without the flag \<open>i\<close>. Each step below consumes what one piece of the pattern
  matches and returns the rest of the text: \<open>lit\<close> a literal text, \<open>spaces1\<close>
  the run \<open>\s+\<close>, \<open>dropSpaces\<close> the run \<open>\s*\<close>, \<open>exactly n\<close> the run
  \<open>\d{n}\<close>. A greedy run of whitespace is followed by a piece that cannot start with
  whitespace (or by nothing that can fail), so the whole run is the only choice that
  can match; \<open>\d{1,2}\<close> tries two digits, then one.
\<close>

definition lit :: "string \<Rightarrow> string \<Rightarrow> string option" where
  "lit p s = (if prefix p s then Some (drop (length p) s) else None)"

definition spaces1 :: "string \<Rightarrow> string option" where
  "spaces1 s = (if space_at s = 0 then None else Some (dropSpaces s))"

definition exactly :: "nat \<Rightarrow> (char \<Rightarrow> bool) \<Rightarrow> string \<Rightarrow> string option" where
  "exactly n P s = (if n \<le> length s \<and> list_all P (take n s) then Some (drop n s) else None)"

definition orElse :: "'a option \<Rightarrow> 'a option \<Rightarrow> 'a option" where
  "orElse a b = (case a of Some x \<Rightarrow> Some x | None \<Rightarrow> b)"

text \<open>
  A match that starts at the first character of \<open>s\<close>: group 1 (the date and time
  text) and group 2 (the zone token, \<open>None\<close> when the group took no part).
\<close>

definition COMMAND_REGEX_at :: "string \<Rightarrow> (string \<times> string option) option" where
  "COMMAND_REGEX_at s =
     do {
       s1 \<leftarrow> lit ''@merge-at'' s;
       s2 \<leftarrow> spaces1 s1;
       s3 \<leftarrow> exactly 4 isDigit s2;
       s4 \<leftarrow> lit ''-'' s3;
       s5 \<leftarrow> exactly 2 isDigit s4;
       s6 \<leftarrow> lit ''-'' s5;
       s7 \<leftarrow> exactly 2 isDigit s6;
       s8 \<leftarrow> spaces1 s7;
       s9 \<leftarrow> orElse
               (do { a \<leftarrow> exactly 2 isDigit s8; b \<leftarrow> lit '':'' a; exactly 2 isDigit b })
               (do { a \<leftarrow> exactly 1 isDigit s8; b \<leftarrow> lit '':'' a; exactly 2 isDigit b });
       let t = dropSpaces s9;
       let s10 = (case orElse (lit ''AM'' t) (orElse (lit ''PM'' t)
                         (orElse (lit ''am'' t) (lit ''pm'' t))) of
                    Some r \<Rightarrow> r
                  | None \<Rightarrow> s9);
       let dateTimeStr = take (length s2 - length s10) s2;
       let s11 = dropSpaces s10;
       let zone = takeWhile (\<lambda>c. isWord c \<or> c = CHR ''/'') s11;
       Some (dateTimeStr, if zone = [] then None else Some zone)
     }"

text \<open>\<open>COMMAND_REGEX.exec(text)\<close>: the leftmost position at which the pattern matches.\<close>

fun COMMAND_REGEX_exec :: "string \<Rightarrow> (string \<times> string option) option" where
  "COMMAND_REGEX_exec [] = COMMAND_REGEX_at []"
| "COMMAND_REGEX_exec (c # cs) =
     (case COMMAND_REGEX_at (c # cs) of
        Some m \<Rightarrow> Some m
      | None \<Rightarrow> COMMAND_REGEX_exec cs)"

definition CANCEL_COMMAND :: string where
  "CANCEL_COMMAND = ''@merge-at cancel''"

definition SCHEDULE_LABEL :: string where
  "SCHEDULE_LABEL = ''merge-scheduled''"

section \<open>The Repository Host and the effects of the code\<close>

text \<open>
  \<open>octokit\<close> is a record of the endpoints the code calls. Each takes the arguments
  of the call and the state \<open>'w\<close> of the host, and returns the new state of the host
  with either the thrown value or the \<open>data\<close> of the response. The code is written
  for any host; \<open>per_page\<close> is the last argument of the two listings. Of the
  \<open>data\<close> of a comment the code reads the id, the login of the author and the body;
  of a search result the number and the repository reference; of a pull request only
  whether \<open>mergeable\<close> is truthy; of a permission level the name of the permission.
\<close>

record comment =
  comment_id :: int
  comment_login :: string
  comment_body :: string

record item =
  item_number :: int
  item_repository_url :: "string option"

record 'w octokit =
  issues_getComment :: "string \<Rightarrow> string \<Rightarrow> int \<Rightarrow> 'w \<Rightarrow> (error + comment) \<times> 'w"
  repos_getCollaboratorPermissionLevel ::
    "string \<Rightarrow> string \<Rightarrow> string \<Rightarrow> 'w \<Rightarrow> (error + string) \<times> 'w"
  issues_createComment :: "string \<Rightarrow> string \<Rightarrow> int \<Rightarrow> string \<Rightarrow> 'w \<Rightarrow> (error + unit) \<times> 'w"
  issues_listComments :: "string \<Rightarrow> string \<Rightarrow> int \<Rightarrow> nat \<Rightarrow> 'w \<Rightarrow> (error + comment list) \<times> 'w"
  issues_addLabels :: "string \<Rightarrow> string \<Rightarrow> int \<Rightarrow> string list \<Rightarrow> 'w \<Rightarrow> (error + unit) \<times> 'w"
  issues_removeLabel :: "string \<Rightarrow> string \<Rightarrow> int \<Rightarrow> string \<Rightarrow> 'w \<Rightarrow> (error + unit) \<times> 'w"
  issues_deleteComment :: "string \<Rightarrow> string \<Rightarrow> int \<Rightarrow> 'w \<Rightarrow> (error + unit) \<times> 'w"
  search_issuesAndPullRequests :: "string \<Rightarrow> nat \<Rightarrow> 'w \<Rightarrow> (error + item list) \<times> 'w"
  pulls_get :: "string \<Rightarrow> string \<Rightarrow> int \<Rightarrow> 'w \<Rightarrow> (error + bool) \<times> 'w"
  pulls_merge :: "string \<Rightarrow> string \<Rightarrow> int \<Rightarrow> string \<Rightarrow> 'w \<Rightarrow> (error + unit) \<times> 'w"

text \<open>
  The requests sent to the host are recorded, in order, next to the state of the host:
  a request is in the record whether the host answers it or fails it.
\<close>

datatype request =
    GetComment string string int
  | GetCollaboratorPermissionLevel string string string
  | CreateComment string string int string
  | ListComments string string int nat
  | AddLabels string string int "string list"
  | RemoveLabel string string int string
  | DeleteComment string string int
  | SearchIssuesAndPullRequests string nat
  | PullsGet string string int
  | PullsMerge string string int string

type_synonym ('w, 'a) io = "'w \<times> request list \<Rightarrow> (error + 'a) \<times> ('w \<times> request list)"

text \<open>
  An \<open>async\<close> function is a function of the state that returns normally (\<open>Inr\<close>)
  or throws (\<open>Inl\<close>): \<open>ret\<close> returns, \<open>throw\<close> throws, \<open>await m f\<close> runs \<open>f\<close>
  on the result of \<open>m\<close> unless \<open>m\<close> throws, \<open>try_catch m h\<close> runs the handler on what
  \<open>m\<close> throws, and \<open>request\<close> sends a request to the host.
\<close>

definition ret :: "'a \<Rightarrow> ('w, 'a) io" where
  "ret x s = (Inr x, s)"

definition throw :: "error \<Rightarrow> ('w, 'a) io" where
  "throw e s = (Inl e, s)"

definition await :: "('w, 'a) io \<Rightarrow> ('a \<Rightarrow> ('w, 'b) io) \<Rightarrow> ('w, 'b) io" where
  "await m f s = (case m s of (Inl e, s') \<Rightarrow> (Inl e, s') | (Inr x, s') \<Rightarrow> f x s')"

definition try_catch :: "('w, 'a) io \<Rightarrow> (error \<Rightarrow> ('w, 'a) io) \<Rightarrow> ('w, 'a) io" where
  "try_catch m h s = (case m s of (Inl e, s') \<Rightarrow> h e s' | (Inr x, s') \<Rightarrow> (Inr x, s'))"

definition request :: "request \<Rightarrow> ('w \<Rightarrow> (error + 'a) \<times> 'w) \<Rightarrow> ('w, 'a) io" where
  "request rq endpoint s = (case endpoint (fst s) of (r, w') \<Rightarrow> (r, (w', snd s @ [rq])))"

text \<open>
  The library functions of date-fns, date-fns-tz and the JavaScript runtime that the
  code calls on dates are parameters:
  \<open>lib_zonedTimeToUtc\<close> is \<open>zonedTimeToUtc\<close>;
  \<open>lib_formatZoned d tz\<close> is \<open>format(utcToZonedTime(d, tz), 'yyyy-MM-dd hh:mm a')\<close>;
  \<open>lib_format d\<close> is \<open>format(d, 'yyyy-MM-dd HH:mm')\<close>;
  \<open>lib_toISOString d\<close> is \<open>d.toISOString()\<close>;
  \<open>lib_parseScheduleDate text\<close> is \<open>new Date(JSON.parse(text).scheduleDate)\<close>, which
  throws when the text is not JSON and may give an Invalid Date;
  \<open>lib_addDays\<close> is \<open>addDays\<close>.
  \<open>github.getOctokit(token)\<close> of @actions/github is a parameter of the two entry
  points: it throws, or returns the client \<open>octokit\<close> of a host.
\<close>

record lib =
  lib_zonedTimeToUtc :: "string \<Rightarrow> string \<Rightarrow> error + date"
  lib_addDays :: "int \<Rightarrow> int \<Rightarrow> int"
  lib_formatZoned :: "int \<Rightarrow> string \<Rightarrow> error + string"
  lib_format :: "int \<Rightarrow> error + string"
  lib_toISOString :: "int \<Rightarrow> string"
  lib_parseScheduleDate :: "string \<Rightarrow> error + date"

text \<open>
  The symbols of the messages, as UTF-8 bytes. The calls of \<open>core.info\<close>,
  \<open>core.debug\<close> and \<open>core.error\<close> write to the log of the run only and are left out.
\<close>

definition cross_mark :: string where
  "cross_mark = [CHR 0xE2, CHR 0x9D, CHR 0x8C]"

definition check_mark :: string where
  "check_mark = [CHR 0xE2, CHR 0x9C, CHR 0x85]"

definition no_entry :: string where
  "no_entry = [CHR 0xF0, CHR 0x9F, CHR 0x9A, CHR 0xAB]"

definition calendar :: string where
  "calendar = [CHR 0xF0, CHR 0x9F, CHR 0x93, CHR 0x85]"

definition bullet :: string where
  "bullet = [CHR 0xE2, CHR 0x80, CHR 0xA2]"

subsection \<open>utils.js\<close>

definition createComment :: "'w octokit \<Rightarrow> string \<Rightarrow> string \<Rightarrow> int \<Rightarrow> string \<Rightarrow> ('w, unit) io" where
  "createComment octokit owner repo issueNumber text =
     try_catch
       (request (CreateComment owner repo issueNumber text)
          (issues_createComment octokit owner repo issueNumber text))
       (\<lambda>error. throw error)"

definition confirmationMessage :: "lib \<Rightarrow> int \<Rightarrow> string \<Rightarrow> string \<Rightarrow> string \<Rightarrow> string" where
  "confirmationMessage L scheduleDate localTime utcTime timezone =
     ''<!-- MERGE_SCHEDULE_INFO '' @
     ''{'' @ [CHR 0x22] @ ''type'' @ [CHR 0x22] @ '':'' @
       [CHR 0x22] @ ''merge-schedule-info'' @ [CHR 0x22] @ '','' @
       [CHR 0x22] @ ''scheduleDate'' @ [CHR 0x22] @ '':'' @
       [CHR 0x22] @ lib_toISOString L scheduleDate @ [CHR 0x22] @ ''}'' @
     '' -->'' @ [CHR 0x0A, CHR 0x0A] @
     calendar @ '' PR merge scheduled for:'' @ [CHR 0x0A] @
     bullet @ '' '' @ localTime @ '' '' @ timezone @ [CHR 0x0A] @
     bullet @ '' '' @ utcTime @ '' UTC'' @ [CHR 0x0A, CHR 0x0A] @
     ''I'' @ [CHR 0x27] @ ''ll merge this PR at the scheduled time if it'' @ [CHR 0x27] @
     ''s mergeable.'' @ [CHR 0x0A] @
     ''To cancel, comment: @merge-at cancel''"

definition storeScheduleInfo ::
  "lib \<Rightarrow> 'w octokit \<Rightarrow> string \<Rightarrow> string \<Rightarrow> int \<Rightarrow> int \<Rightarrow> string \<Rightarrow> string \<Rightarrow> string \<Rightarrow> ('w, unit) io" where
  "storeScheduleInfo L octokit owner repo prNumber scheduleDate localTime utcTime timezone =
     try_catch
       (await (request (AddLabels owner repo prNumber [SCHEDULE_LABEL])
                 (issues_addLabels octokit owner repo prNumber [SCHEDULE_LABEL]))
          (\<lambda>_. createComment octokit owner repo prNumber
                  (confirmationMessage L scheduleDate localTime utcTime timezone)))
       (\<lambda>error. throw error)"

text \<open>
  The test \<open>comment.body.includes('MERGE_SCHEDULE_INFO')\<close> of \<open>removeScheduleInfo\<close>
  and \<open>getScheduledPRs\<close>: the comment is a marker comment.
\<close>

definition is_marker :: "comment \<Rightarrow> bool" where
  "is_marker c \<longleftrightarrow> includes_str (comment_body c) ''MERGE_SCHEDULE_INFO''"

text \<open>The loop of \<open>removeScheduleInfo\<close> over \<open>scheduleComments\<close>.\<close>

fun removeScheduleInfo_loop :: "'w octokit \<Rightarrow> string \<Rightarrow> string \<Rightarrow> comment list \<Rightarrow> ('w, unit) io" where
  "removeScheduleInfo_loop octokit owner repo [] = ret ()"
| "removeScheduleInfo_loop octokit owner repo (c # cs) =
     await (request (DeleteComment owner repo (comment_id c))
              (issues_deleteComment octokit owner repo (comment_id c)))
       (\<lambda>_. removeScheduleInfo_loop octokit owner repo cs)"

definition removeScheduleInfo :: "'w octokit \<Rightarrow> string \<Rightarrow> string \<Rightarrow> int \<Rightarrow> ('w, unit) io" where
  "removeScheduleInfo octokit owner repo prNumber =
     try_catch
       (await
          (try_catch
             (request (RemoveLabel owner repo prNumber SCHEDULE_LABEL)
                (issues_removeLabel octokit owner repo prNumber SCHEDULE_LABEL))
             (\<lambda>error. if status error \<noteq> Some 404 then throw error else ret ()))
          (\<lambda>_. await (request (ListComments owner repo prNumber 100)
                       (issues_listComments octokit owner repo prNumber 100))
                 (\<lambda>comments.
                    let scheduleComments = filter is_marker comments
                    in removeScheduleInfo_loop octokit owner repo scheduleComments)))
       (\<lambda>error. throw error)"

text \<open>
  \<open>body.match(/MERGE_SCHEDULE_INFO (.+) -->/)\<close>, group 1. The dot matches any
  character but a line terminator: line feed, carriage return, U+2028 and U+2029
  (\<open>atLineTerminator s\<close>: \<open>s\<close> starts with one). \<open>.+\<close> is greedy: at a given
  start the group is the longest non-empty run within the line that the text \<open>-->\<close>
  after one space follows (\<open>greedy_payload\<close>). The match is the one at the leftmost
  start that has one.
\<close>

definition lineTerminators :: "string list" where
  "lineTerminators =
     [[CHR 0x0A], [CHR 0x0D], [CHR 0xE2, CHR 0x80, CHR 0xA8], [CHR 0xE2, CHR 0x80, CHR 0xA9]]"

definition atLineTerminator :: "string \<Rightarrow> bool" where
  "atLineTerminator s \<longleftrightarrow> list_ex (\<lambda>u. prefix u s) lineTerminators"

fun greedy_payload :: "string \<Rightarrow> string option" where
  "greedy_payload [] = None"
| "greedy_payload (c # cs) =
     (if atLineTerminator (c # cs) then None
      else case greedy_payload cs of
             Some p \<Rightarrow> Some (c # p)
           | None \<Rightarrow> if prefix '' -->'' cs then Some [c] else None)"

fun marker_match :: "string \<Rightarrow> string option" where
  "marker_match [] = None"
| "marker_match (c # cs) =
     (case (case lit ''MERGE_SCHEDULE_INFO '' (c # cs) of
              None \<Rightarrow> None
            | Some r \<Rightarrow> greedy_payload r) of
        Some p \<Rightarrow> Some p
      | None \<Rightarrow> marker_match cs)"

text \<open>The elements of \<open>scheduledPRs\<close>; \<open>pr_scheduleTime\<close> is a valid date.\<close>

record scheduled =
  pr_owner :: string
  pr_repo :: string
  pr_number :: int
  pr_scheduleTime :: int

text \<open>
  The body of the loop of \<open>getScheduledPRs\<close> for one item: the list \<open>scheduledPRs\<close>
  after it. A missing \<open>repository_url\<close>, or one that is not a string, is \<open>None\<close>.
  The inner \<open>try\<close> holds no request, so it is a case distinction on what
  \<open>JSON.parse\<close> does.
\<close>

definition getScheduledPRs_item ::
  "lib \<Rightarrow> 'w octokit \<Rightarrow> item \<Rightarrow> scheduled list \<Rightarrow> ('w, scheduled list) io" where
  "getScheduledPRs_item L octokit it scheduledPRs =
     try_catch
       (case item_repository_url it of
          None \<Rightarrow> ret scheduledPRs
        | Some url \<Rightarrow>
            if url = [] then ret scheduledPRs
            else
              let urlParts = split_char (CHR ''/'') url in
              if length urlParts < 2 then ret scheduledPRs
              else
                let owner = urlParts ! (length urlParts - 2);
                    repo = urlParts ! (length urlParts - 1)
                in
                await (request (ListComments owner repo (item_number it) 100)
                         (issues_listComments octokit owner repo (item_number it) 100))
                  (\<lambda>comments.
                     case find is_marker comments of
                       None \<Rightarrow> ret scheduledPRs
                     | Some scheduleComment \<Rightarrow>
                         (case marker_match (comment_body scheduleComment) of
                            None \<Rightarrow> ret scheduledPRs
                          | Some payload \<Rightarrow>
                              (case lib_parseScheduleDate L payload of
                                 Inl error \<Rightarrow> ret scheduledPRs
                               | Inr None \<Rightarrow> ret scheduledPRs
                               | Inr (Some scheduleTime) \<Rightarrow>
                                   ret (scheduledPRs @
                                        [\<lparr>pr_owner = owner, pr_repo = repo,
                                          pr_number = item_number it,
                                          pr_scheduleTime = scheduleTime\<rparr>])))))
       (\<lambda>error. ret scheduledPRs)"

fun getScheduledPRs_loop ::
  "lib \<Rightarrow> 'w octokit \<Rightarrow> item list \<Rightarrow> scheduled list \<Rightarrow> ('w, scheduled list) io" where
  "getScheduledPRs_loop L octokit [] scheduledPRs = ret scheduledPRs"
| "getScheduledPRs_loop L octokit (it # items) scheduledPRs =
     await (getScheduledPRs_item L octokit it scheduledPRs)
       (\<lambda>scheduledPRs'. getScheduledPRs_loop L octokit items scheduledPRs')"

definition getScheduledPRs :: "lib \<Rightarrow> 'w octokit \<Rightarrow> ('w, scheduled list) io" where
  "getScheduledPRs L octokit =
     try_catch
       (let query = ''is:pr is:open label:'' @ SCHEDULE_LABEL in
        await (request (SearchIssuesAndPullRequests query 100)
                 (search_issuesAndPullRequests octokit query 100))
          (\<lambda>items. getScheduledPRs_loop L octokit items []))
       (\<lambda>error. throw error)"

subsection \<open>merge-scheduler.js\<close>

text \<open>The value of \<open>errorMessage\<close> in the handler of the merge operation.\<close>

definition mergePR_errorMessage :: "error \<Rightarrow> string" where
  "mergePR_errorMessage mergeError =
     ''Failed to merge PR: '' @
     (if status mergeError = Some 405 then
        ''PR is not mergeable at this time. Please resolve any conflicts or check branch protection rules.''
      else if status mergeError = Some 404 then
        ''PR not found or you may not have permission to merge.''
      else if message mergeError \<noteq> [] then message mergeError
      else ''An unexpected error occurred.'')"

definition mergePR :: "'w octokit \<Rightarrow> string \<Rightarrow> string \<Rightarrow> int \<Rightarrow> ('w, unit) io" where
  "mergePR octokit owner repo prNumber =
     try_catch
       (await
          (try_catch
             (await (request (PullsGet owner repo prNumber) (pulls_get octokit owner repo prNumber))
                (\<lambda>mergeable.
                   if \<not> mergeable then
                     (let error = Error ''PR is not mergeable. There might be conflicts.'' None in
                      await (createComment octokit owner repo prNumber
                               (cross_mark @ '' Failed to merge PR: '' @ message error))
                        (\<lambda>_. throw error))
                   else ret ()))
             (\<lambda>error.
                if status error = Some 404 then
                  (let notFoundError =
                         Error ''PR not found or you may not have permission to merge.'' None in
                   await (createComment octokit owner repo prNumber
                            (cross_mark @ '' Failed to merge PR: '' @ message notFoundError))
                     (\<lambda>_. throw notFoundError))
                else throw error))
          (\<lambda>_.
             try_catch
               (await (request (PullsMerge owner repo prNumber ''squash'')
                         (pulls_merge octokit owner repo prNumber ''squash''))
                  (\<lambda>_. await (createComment octokit owner repo prNumber
                                 (check_mark @ '' Successfully merged as scheduled!''))
                          (\<lambda>_. removeScheduleInfo octokit owner repo prNumber)))
               (\<lambda>mergeError.
                  let errorMessage = mergePR_errorMessage mergeError
                  in await (createComment octokit owner repo prNumber (cross_mark @ '' '' @ errorMessage))
                       (\<lambda>_. throw (Error errorMessage None)))))
       (\<lambda>error.
          await (if \<not> includes_str (message error) ''Failed to merge PR''
                 then createComment octokit owner repo prNumber
                        (cross_mark @ '' Failed to merge PR: '' @ message error)
                 else ret ())
            (\<lambda>_. throw error))"

text \<open>
  The loop of \<open>processScheduledMerges\<close>; \<open>now\<close> is the value of \<open>new Date()\<close> read
  before the loop. Both handlers of the loop body only log. The client is created
  inside the \<open>try\<close> block, whose handler throws again what it caught.
\<close>

fun processScheduledMerges_loop :: "'w octokit \<Rightarrow> int \<Rightarrow> scheduled list \<Rightarrow> ('w, unit) io" where
  "processScheduledMerges_loop octokit now [] = ret ()"
| "processScheduledMerges_loop octokit now (pr # prs) =
     await
       (try_catch
          (let scheduleTime = pr_scheduleTime pr in
           if scheduleTime \<le> now then
             try_catch (mergePR octokit (pr_owner pr) (pr_repo pr) (pr_number pr))
               (\<lambda>mergeError. ret ())
           else ret ())
          (\<lambda>prError. ret ()))
       (\<lambda>_. processScheduledMerges_loop octokit now prs)"

definition processScheduledMerges ::
  "lib \<Rightarrow> (string \<Rightarrow> error + 'w octokit) \<Rightarrow> int \<Rightarrow> string \<Rightarrow> ('w, unit) io" where
  "processScheduledMerges L getOctokit now token =
     try_catch
       (case getOctokit token of
          Inl error \<Rightarrow> throw error
        | Inr octokit \<Rightarrow>
            await (getScheduledPRs L octokit)
              (\<lambda>scheduledPRs. processScheduledMerges_loop octokit now scheduledPRs))
       (\<lambda>error. throw error)"

subsection \<open>comment-handler.js\<close>

definition hasWritePermission :: "'w octokit \<Rightarrow> string \<Rightarrow> string \<Rightarrow> string \<Rightarrow> ('w, bool) io" where
  "hasWritePermission octokit owner repo username =
     try_catch
       (await (request (GetCollaboratorPermissionLevel owner repo username)
                 (repos_getCollaboratorPermissionLevel octokit owner repo username))
          (\<lambda>permission. ret (permission \<in> set [''admin'', ''write''])))
       (\<lambda>error. ret False)"

text \<open>
  \<open>const [owner, repo] = repository.split('/')\<close>. Without a second piece \<open>repo\<close> is
  undefined, and the request paths that octokit builds then hold an empty segment, as
  they do for an empty \<open>repo\<close>.
\<close>

definition split_repository :: "string \<Rightarrow> string \<times> string" where
  "split_repository repository =
     (case split_char (CHR ''/'') repository of
        owner # repo # _ \<Rightarrow> (owner, repo)
      | [owner] \<Rightarrow> (owner, [])
      | [] \<Rightarrow> ([], []))"

text \<open>
  The body of the outer \<open>try\<close> block of \<open>handleComment\<close>.
  \<open>payload_comment_id\<close> is \<open>github.context.payload.comment.id\<close> and \<open>now\<close> the
  value of \<open>new Date()\<close> in \<open>validateScheduleTime\<close>.
\<close>

definition handleComment_try ::
  "lib \<Rightarrow> 'w octokit \<Rightarrow> int \<Rightarrow> int \<Rightarrow> string \<Rightarrow> string \<Rightarrow> int \<Rightarrow> string \<Rightarrow> ('w, unit) io" where
  "handleComment_try L octokit now payload_comment_id owner repo prNumber commentBody =
     await (request (GetComment owner repo payload_comment_id)
              (issues_getComment octokit owner repo payload_comment_id))
       (\<lambda>comment.
          let commentAuthor = comment_login comment in
          await (hasWritePermission octokit owner repo commentAuthor)
            (\<lambda>hasPermission.
               if \<not> hasPermission then
                 createComment octokit owner repo prNumber
                   (cross_mark @ '' Only users with write permission can schedule PR merges.'')
               else if includes_str commentBody CANCEL_COMMAND then
                 await (removeScheduleInfo octokit owner repo prNumber)
                   (\<lambda>_. createComment octokit owner repo prNumber
                           (no_entry @ '' Scheduled merge has been cancelled.''))
               else
                 (case COMMAND_REGEX_exec commentBody of
                    None \<Rightarrow>
                      createComment octokit owner repo prNumber
                        (cross_mark @
                         '' Invalid command format. Please use: @merge-at YYYY-MM-DD HH:mm[am|pm] [timezone]'')
                  | Some (dateTimeStr, zone) \<Rightarrow>
                      let timezone = (case zone of None \<Rightarrow> ''UTC'' | Some z \<Rightarrow> z) in
                      try_catch
                        (case validateScheduleTime (lib_zonedTimeToUtc L) (lib_addDays L) now
                                dateTimeStr timezone of
                           Inl error \<Rightarrow> throw error
                         | Inr scheduleDate \<Rightarrow>
                             (case lib_formatZoned L scheduleDate timezone of
                                Inl error \<Rightarrow> throw error
                              | Inr localTime \<Rightarrow>
                                  (case lib_format L scheduleDate of
                                     Inl error \<Rightarrow> throw error
                                   | Inr utcTime \<Rightarrow>
                                       await (removeScheduleInfo octokit owner repo prNumber)
                                         (\<lambda>_. storeScheduleInfo L octokit owner repo prNumber
                                                 scheduleDate localTime utcTime timezone))))
                        (\<lambda>error. createComment octokit owner repo prNumber
                                    (cross_mark @ '' '' @ message error)))))"

text \<open>
  \<open>handleComment\<close>: the client is created before the \<open>try\<close> block, so what
  \<open>getOctokit\<close> throws is thrown on; the outer handler posts the generic message.
\<close>

definition generic_failure :: string where
  "generic_failure =
     cross_mark @ '' An error occurred while processing your command. Please try again.''"

definition handleComment ::
  "lib \<Rightarrow> (string \<Rightarrow> error + 'w octokit) \<Rightarrow> int \<Rightarrow> int \<Rightarrow> string \<Rightarrow> string \<Rightarrow> int \<Rightarrow> string \<Rightarrow>
   ('w, unit) io" where
  "handleComment L getOctokit now payload_comment_id token repository prNumber commentBody =
     (case getOctokit token of
        Inl error \<Rightarrow> throw error
      | Inr octokit \<Rightarrow>
          (case split_repository repository of (owner, repo) \<Rightarrow>
           try_catch
             (handleComment_try L octokit now payload_comment_id owner repo prNumber commentBody)
             (\<lambda>error. createComment octokit owner repo prNumber generic_failure)))"


section \<open>A reference Repository Host\<close>

text \<open>
  The code is proved against any host where the claim is about the code alone. Where a
  claim is about the state that the host keeps (labels and comments of a pull request),
  the host is this one: pull requests, labels and comments are tables keyed by owner,
  repository and number; a request about a pull request that does not exist, a label
  that is not on it or a comment that does not exist fails with status 404; a listing
  returns the first page, the oldest \<open>per_page\<close> comments; a created comment gets the
  next free id; a merge of a pull request that is closed or not mergeable fails with
  status 405.
\<close>

type_synonym pr_key = "string \<times> string \<times> int"

record pull =
  pull_open :: bool
  pull_mergeable :: bool

record github =
  gh_pulls :: "(pr_key \<times> pull) list"
  gh_labels :: "(pr_key \<times> string) list"
  gh_comments :: "(pr_key \<times> comment) list"
  gh_permissions :: "((string \<times> string \<times> string) \<times> string) list"
  gh_next_id :: int

definition not_found :: error where
  "not_found = Error ''Not Found'' (Some 404)"

definition in_repo :: "string \<Rightarrow> string \<Rightarrow> pr_key \<Rightarrow> bool" where
  "in_repo owner repo k \<longleftrightarrow> fst k = owner \<and> fst (snd k) = repo"

definition gh_getComment :: "string \<Rightarrow> string \<Rightarrow> int \<Rightarrow> github \<Rightarrow> (error + comment) \<times> github" where
  "gh_getComment owner repo cid w =
     (case find (\<lambda>kc. in_repo owner repo (fst kc) \<and> comment_id (snd kc) = cid) (gh_comments w) of
        None \<Rightarrow> (Inl not_found, w)
      | Some kc \<Rightarrow> (Inr (snd kc), w))"

definition gh_getCollaboratorPermissionLevel ::
  "string \<Rightarrow> string \<Rightarrow> string \<Rightarrow> github \<Rightarrow> (error + string) \<times> github" where
  "gh_getCollaboratorPermissionLevel owner repo username w =
     (case map_of (gh_permissions w) (owner, repo, username) of
        None \<Rightarrow> (Inr ''none'', w)
      | Some p \<Rightarrow> (Inr p, w))"

definition gh_createComment :: "string \<Rightarrow> string \<Rightarrow> int \<Rightarrow> string \<Rightarrow> github \<Rightarrow> (error + unit) \<times> github" where
  "gh_createComment owner repo n text w =
     (if map_of (gh_pulls w) (owner, repo, n) = None then (Inl not_found, w)
      else (Inr (),
            w\<lparr>gh_comments := gh_comments w @
                 [((owner, repo, n),
                   \<lparr>comment_id = gh_next_id w, comment_login = ''github-actions[bot]'',
                    comment_body = text\<rparr>)],
              gh_next_id := gh_next_id w + 1\<rparr>))"

definition gh_listComments ::
  "string \<Rightarrow> string \<Rightarrow> int \<Rightarrow> nat \<Rightarrow> github \<Rightarrow> (error + comment list) \<times> github" where
  "gh_listComments owner repo n per_page w =
     (if map_of (gh_pulls w) (owner, repo, n) = None then (Inl not_found, w)
      else (Inr (take per_page
                   (map snd (filter (\<lambda>kc. fst kc = (owner, repo, n)) (gh_comments w)))), w))"

definition gh_addLabels ::
  "string \<Rightarrow> string \<Rightarrow> int \<Rightarrow> string list \<Rightarrow> github \<Rightarrow> (error + unit) \<times> github" where
  "gh_addLabels owner repo n names w =
     (if map_of (gh_pulls w) (owner, repo, n) = None then (Inl not_found, w)
      else (Inr (),
            w\<lparr>gh_labels := gh_labels w @
                 map (\<lambda>l. ((owner, repo, n), l))
                   (filter (\<lambda>l. ((owner, repo, n), l) \<notin> set (gh_labels w)) (remdups names))\<rparr>))"

definition gh_removeLabel :: "string \<Rightarrow> string \<Rightarrow> int \<Rightarrow> string \<Rightarrow> github \<Rightarrow> (error + unit) \<times> github" where
  "gh_removeLabel owner repo n name w =
     (if map_of (gh_pulls w) (owner, repo, n) = None \<or> ((owner, repo, n), name) \<notin> set (gh_labels w)
      then (Inl not_found, w)
      else (Inr (), w\<lparr>gh_labels := filter (\<lambda>kl. kl \<noteq> ((owner, repo, n), name)) (gh_labels w)\<rparr>))"

definition gh_deleteComment :: "string \<Rightarrow> string \<Rightarrow> int \<Rightarrow> github \<Rightarrow> (error + unit) \<times> github" where
  "gh_deleteComment owner repo cid w =
     (if \<exists>kc\<in>set (gh_comments w). in_repo owner repo (fst kc) \<and> comment_id (snd kc) = cid
      then (Inr (),
            w\<lparr>gh_comments :=
                 filter (\<lambda>kc. \<not> (in_repo owner repo (fst kc) \<and> comment_id (snd kc) = cid))
                   (gh_comments w)\<rparr>)
      else (Inl not_found, w))"

definition gh_search :: "string \<Rightarrow> nat \<Rightarrow> github \<Rightarrow> (error + item list) \<times> github" where
  "gh_search query per_page w =
     (case lit ''is:pr is:open label:'' query of
        None \<Rightarrow> (Inl (Error ''Validation Failed'' (Some 422)), w)
      | Some l \<Rightarrow>
          (Inr (take per_page
                  (map (\<lambda>kp. \<lparr>item_number = snd (snd (fst kp)),
                              item_repository_url =
                                Some (''https://api.github.com/repos/'' @ fst (fst kp) @ ''/'' @
                                      fst (snd (fst kp)))\<rparr>)
                     (filter (\<lambda>kp. pull_open (snd kp) \<and> (fst kp, l) \<in> set (gh_labels w))
                        (gh_pulls w)))), w))"

definition gh_pulls_get :: "string \<Rightarrow> string \<Rightarrow> int \<Rightarrow> github \<Rightarrow> (error + bool) \<times> github" where
  "gh_pulls_get owner repo n w =
     (case map_of (gh_pulls w) (owner, repo, n) of
        None \<Rightarrow> (Inl not_found, w)
      | Some p \<Rightarrow> (Inr (pull_mergeable p), w))"

definition gh_pulls_merge :: "string \<Rightarrow> string \<Rightarrow> int \<Rightarrow> string \<Rightarrow> github \<Rightarrow> (error + unit) \<times> github" where
  "gh_pulls_merge owner repo n merge_method w =
     (case map_of (gh_pulls w) (owner, repo, n) of
        None \<Rightarrow> (Inl not_found, w)
      | Some p \<Rightarrow>
          if pull_open p \<and> pull_mergeable p then
            (Inr (),
             w\<lparr>gh_pulls := map (\<lambda>kp. if fst kp = (owner, repo, n)
                                      then (fst kp, (snd kp)\<lparr>pull_open := False\<rparr>) else kp)
                              (gh_pulls w)\<rparr>)
          else (Inl (Error ''Pull Request is not mergeable'' (Some 405)), w))"

definition gh :: "github octokit" where
  "gh = \<lparr>issues_getComment = gh_getComment,
         repos_getCollaboratorPermissionLevel = gh_getCollaboratorPermissionLevel,
         issues_createComment = gh_createComment,
         issues_listComments = gh_listComments,
         issues_addLabels = gh_addLabels,
         issues_removeLabel = gh_removeLabel,
         issues_deleteComment = gh_deleteComment,
         search_issuesAndPullRequests = gh_search,
         pulls_get = gh_pulls_get,
         pulls_merge = gh_pulls_merge\<rparr>"

text \<open>
  The comments of a pull request, oldest first, and the marker comments and the
  schedule labels that the host holds for it.
\<close>

definition comments_of :: "github \<Rightarrow> pr_key \<Rightarrow> comment list" where
  "comments_of w k = map snd (filter (\<lambda>kc. fst kc = k) (gh_comments w))"

definition marker_comments :: "github \<Rightarrow> pr_key \<Rightarrow> comment list" where
  "marker_comments w k = filter is_marker (comments_of w k)"

definition schedule_labels :: "github \<Rightarrow> pr_key \<Rightarrow> (pr_key \<times> string) list" where
  "schedule_labels w k = filter (\<lambda>kl. kl = (k, SCHEDULE_LABEL)) (gh_labels w)"

text \<open>Comment ids are unique on the host.\<close>

definition distinct_ids :: "github \<Rightarrow> bool" where
  "distinct_ids w \<longleftrightarrow> distinct (map (\<lambda>kc. comment_id (snd kc)) (gh_comments w))"

section \<open>Two hosts that fail\<close>

text \<open>
  \<open>host_down\<close> fails every request; \<open>host_comments_only\<close> fails every request but
  the creation of a comment, and keeps the texts of the comments created.
\<close>

definition unavailable :: error where
  "unavailable = Error ''Service Unavailable'' (Some 503)"

definition host_down :: "unit octokit" where
  "host_down =
     \<lparr>issues_getComment = (\<lambda>_ _ _ w. (Inl unavailable, w)),
      repos_getCollaboratorPermissionLevel = (\<lambda>_ _ _ w. (Inl unavailable, w)),
      issues_createComment = (\<lambda>_ _ _ _ w. (Inl unavailable, w)),
      issues_listComments = (\<lambda>_ _ _ _ w. (Inl unavailable, w)),
      issues_addLabels = (\<lambda>_ _ _ _ w. (Inl unavailable, w)),
      issues_removeLabel = (\<lambda>_ _ _ _ w. (Inl unavailable, w)),
      issues_deleteComment = (\<lambda>_ _ _ w. (Inl unavailable, w)),
      search_issuesAndPullRequests = (\<lambda>_ _ w. (Inl unavailable, w)),
      pulls_get = (\<lambda>_ _ _ w. (Inl unavailable, w)),
      pulls_merge = (\<lambda>_ _ _ _ w. (Inl unavailable, w))\<rparr>"

definition host_comments_only :: "string list octokit" where
  "host_comments_only =
     \<lparr>issues_getComment = (\<lambda>_ _ _ w. (Inl unavailable, w)),
      repos_getCollaboratorPermissionLevel = (\<lambda>_ _ _ w. (Inl unavailable, w)),
      issues_createComment = (\<lambda>_ _ _ text w. (Inr (), w @ [text])),
      issues_listComments = (\<lambda>_ _ _ _ w. (Inl unavailable, w)),
      issues_addLabels = (\<lambda>_ _ _ _ w. (Inl unavailable, w)),
      issues_removeLabel = (\<lambda>_ _ _ _ w. (Inl unavailable, w)),
      issues_deleteComment = (\<lambda>_ _ _ w. (Inl unavailable, w)),
      search_issuesAndPullRequests = (\<lambda>_ _ w. (Inl unavailable, w)),
      pulls_get = (\<lambda>_ _ _ w. (Inl unavailable, w)),
      pulls_merge = (\<lambda>_ _ _ _ w. (Inl unavailable, w))\<rparr>"

section \<open>Sample values of the library parameters\<close>

text \<open>
  Tables of the library functions at the inputs of the examples below; the fixed
  \<open>now\<close> of the tests, 2024-01-01T12:00:00Z, is 1704110400000.
  \<open>sample_addDays\<close> is \<open>addDays\<close> in a process whose time zone is UTC, where
  every day has 86400000 ms. \<open>sample_getOctokit host\<close> is \<open>getOctokit\<close> of
  @actions/github with the network replaced by \<open>host\<close>: it refuses an empty token
  and returns the client otherwise.
\<close>

definition sample_addDays :: "int \<Rightarrow> int \<Rightarrow> int" where
  "sample_addDays d amount = d + amount * 86400000"

definition sample_getOctokit :: "'w octokit \<Rightarrow> string \<Rightarrow> error + 'w octokit" where
  "sample_getOctokit host token =
     (if token = [] then Inl (Error ''Parameter token or opts.auth is required'' None)
      else Inr host)"

definition sample_now :: int where
  "sample_now = 1704110400000"

definition sample_zonedTimeToUtc :: "string \<Rightarrow> string \<Rightarrow> error + date" where
  "sample_zonedTimeToUtc text tz =
     (if tz = ''UTC'' then
        Inr (map_of [(''2024-01-02 14:30'', 1704205800000),
                     (''2023-12-31 14:30'', 1704033000000),
                     (''2024-02-15 14:30'', 1708007400000),
                     (''2024-01-02 02:30'', 1704162600000)] text)
      else if tz = ''America/New_York'' then
        Inr (map_of [(''2024-01-02 14:30'', 1704223800000)] text)
      else Inr None)"

text \<open>
  The JSON text that \<open>storeScheduleInfo\<close> embeds for an instant in ISO form, and the
  marker comment around it.
\<close>

definition schedule_json :: "string \<Rightarrow> string" where
  "schedule_json instant =
     ''{'' @ [CHR 0x22] @ ''type'' @ [CHR 0x22] @ '':'' @ [CHR 0x22] @
     ''merge-schedule-info'' @ [CHR 0x22] @ '','' @ [CHR 0x22] @ ''scheduleDate'' @ [CHR 0x22] @
     '':'' @ [CHR 0x22] @ instant @ [CHR 0x22] @ ''}''"

definition marker_text :: "string \<Rightarrow> string" where
  "marker_text instant = ''<!-- MERGE_SCHEDULE_INFO '' @ schedule_json instant @ '' -->''"

definition sample_lib :: lib where
  "sample_lib =
     \<lparr>lib_zonedTimeToUtc = sample_zonedTimeToUtc,
      lib_addDays = sample_addDays,
      lib_formatZoned = (\<lambda>d tz.
         if d = 1704205800000 \<and> tz = ''UTC'' then Inr ''2024-01-02 02:30 PM''
         else Inl (Error ''Invalid time value'' None)),
      lib_format = (\<lambda>d.
         if d = 1704205800000 then Inr ''2024-01-02 14:30''
         else Inl (Error ''Invalid time value'' None)),
      lib_toISOString = (\<lambda>d.
         if d = 1704205800000 then ''2024-01-02T14:30:00.000Z'' else ''1970-01-01T00:00:00.000Z''),
      lib_parseScheduleDate = (\<lambda>text.
         case map_of [(schedule_json ''2024-01-01T11:00:00.000Z'', Some 1704106800000),
                      (schedule_json ''2024-01-01T12:00:00.000Z'', Some 1704110400000),
                      (schedule_json ''2024-01-01T13:00:00.000Z'', Some 1704114000000),
                      (schedule_json ''invalid-date'', None)] text of
           Some d \<Rightarrow> Inr d
         | None \<Rightarrow> Inl (Error ''Unexpected token in JSON'' None))\<rparr>"

text \<open>
  A state of the reference host for the sweep: pull request 7 is scheduled for
  2024-01-01T11:00:00Z and pull request 8 for 2024-01-01T13:00:00Z, an hour before and
  an hour after \<open>sample_now\<close>.
\<close>

definition sample_world :: github where
  "sample_world =
     \<lparr>gh_pulls = [((''o'', ''r'', 7), \<lparr>pull_open = True, pull_mergeable = True\<rparr>),
                  ((''o'', ''r'', 8), \<lparr>pull_open = True, pull_mergeable = True\<rparr>)],
      gh_labels = [((''o'', ''r'', 7), ''merge-scheduled''), ((''o'', ''r'', 8), ''merge-scheduled'')],
      gh_comments =
        [((''o'', ''r'', 7), \<lparr>comment_id = 1, comment_login = ''alice'',
                               comment_body = ''@merge-at 2024-01-02 2:30PM''\<rparr>),
         ((''o'', ''r'', 7), \<lparr>comment_id = 2, comment_login = ''github-actions[bot]'',
                               comment_body = marker_text ''2024-01-01T11:00:00.000Z''\<rparr>),
         ((''o'', ''r'', 8), \<lparr>comment_id = 3, comment_login = ''github-actions[bot]'',
                               comment_body = marker_text ''2024-01-01T13:00:00.000Z''\<rparr>)],
      gh_permissions = [((''o'', ''r'', ''alice''), ''write'')],
      gh_next_id = 10\<rparr>"

text \<open>
  A state in which both scheduled pull requests are due, the second exactly at
  \<open>sample_now\<close>, and the first cannot be merged.
\<close>

definition due_world :: github where
  "due_world =
     \<lparr>gh_pulls = [((''o'', ''r'', 7), \<lparr>pull_open = True, pull_mergeable = False\<rparr>),
                  ((''o'', ''r'', 9), \<lparr>pull_open = True, pull_mergeable = True\<rparr>)],
      gh_labels = [((''o'', ''r'', 7), ''merge-scheduled''), ((''o'', ''r'', 9), ''merge-scheduled'')],
      gh_comments =
        [((''o'', ''r'', 7), \<lparr>comment_id = 2, comment_login = ''github-actions[bot]'',
                               comment_body = marker_text ''2024-01-01T11:00:00.000Z''\<rparr>),
         ((''o'', ''r'', 9), \<lparr>comment_id = 3, comment_login = ''github-actions[bot]'',
                               comment_body = marker_text ''2024-01-01T12:00:00.000Z''\<rparr>)],
      gh_permissions = [((''o'', ''r'', ''alice''), ''write'')],
      gh_next_id = 10\<rparr>"


section \<open>What is observed of a run\<close>

text \<open>
  A merge attempt is a run of \<open>mergePR\<close>. It starts with the fetch of the pull
  request and nothing else in the code fetches one, so the attempts of a run are the
  fetch requests in its record; the merge operations are the merge requests.
\<close>

fun is_fetch :: "request \<Rightarrow> bool" where
  "is_fetch (PullsGet _ _ _) = True"
| "is_fetch _ = False"

fun is_merge :: "request \<Rightarrow> bool" where
  "is_merge (PullsMerge _ _ _ _) = True"
| "is_merge _ = False"

definition attempt_of :: "scheduled \<Rightarrow> request" where
  "attempt_of pr = PullsGet (pr_owner pr) (pr_repo pr) (pr_number pr)"

text \<open>
  \<open>adds P xs m\<close>: from any state, the requests that satisfy \<open>P\<close> in the record after
  \<open>m\<close> are those before it followed by \<open>xs\<close>.
\<close>

definition adds :: "(request \<Rightarrow> bool) \<Rightarrow> request list \<Rightarrow> ('w, 'a) io \<Rightarrow> bool" where
  "adds P xs m \<longleftrightarrow> (\<forall>s. filter P (snd (snd (m s))) = filter P (snd s) @ xs)"

text \<open>A stub host for a single merge attempt: the fetch and the merge answer as given,
  comments are created and kept, every other request fails.\<close>

definition host_merge :: "error + bool \<Rightarrow> error + unit \<Rightarrow> string list octokit" where
  "host_merge fetched merged =
     \<lparr>issues_getComment = (\<lambda>_ _ _ w. (Inl unavailable, w)),
      repos_getCollaboratorPermissionLevel = (\<lambda>_ _ _ w. (Inl unavailable, w)),
      issues_createComment = (\<lambda>_ _ _ text w. (Inr (), w @ [text])),
      issues_listComments = (\<lambda>_ _ _ _ w. (Inl unavailable, w)),
      issues_addLabels = (\<lambda>_ _ _ _ w. (Inl unavailable, w)),
      issues_removeLabel = (\<lambda>_ _ _ _ w. (Inl unavailable, w)),
      issues_deleteComment = (\<lambda>_ _ _ w. (Inl unavailable, w)),
      search_issuesAndPullRequests = (\<lambda>_ _ w. (Inl unavailable, w)),
      pulls_get = (\<lambda>_ _ _ w. (fetched, w)),
      pulls_merge = (\<lambda>_ _ _ _ w. (merged, w))\<rparr>"

text \<open>
  A stub host for the discovery: the search returns the given items, the listing of
  pull request \<open>n\<close> of any repository is what the table gives for \<open>n\<close> and fails
  for a number that is not in the table; every other request fails.
\<close>

definition host_discovery :: "item list \<Rightarrow> (int \<times> comment list) list \<Rightarrow> unit octokit" where
  "host_discovery items listings =
     \<lparr>issues_getComment = (\<lambda>_ _ _ w. (Inl unavailable, w)),
      repos_getCollaboratorPermissionLevel = (\<lambda>_ _ _ w. (Inl unavailable, w)),
      issues_createComment = (\<lambda>_ _ _ _ w. (Inl unavailable, w)),
      issues_listComments = (\<lambda>_ _ n _ w.
         case map_of listings n of None \<Rightarrow> (Inl unavailable, w) | Some cs \<Rightarrow> (Inr cs, w)),
      issues_addLabels = (\<lambda>_ _ _ _ w. (Inl unavailable, w)),
      issues_removeLabel = (\<lambda>_ _ _ _ w. (Inl unavailable, w)),
      issues_deleteComment = (\<lambda>_ _ _ w. (Inl unavailable, w)),
      search_issuesAndPullRequests = (\<lambda>_ _ w. (Inr items, w)),
      pulls_get = (\<lambda>_ _ _ w. (Inl unavailable, w)),
      pulls_merge = (\<lambda>_ _ _ _ w. (Inl unavailable, w))\<rparr>"

definition plain_comment :: "string \<Rightarrow> comment" where
  "plain_comment text = \<lparr>comment_id = 0, comment_login = ''github-actions[bot]'', comment_body = text\<rparr>"

text \<open>
  Seven search results: no repository reference; a reference without a slash; a pull
  request whose listing fails; one without a marker comment; one whose marker payload
  is not JSON; one whose embedded instant is not a date; and one that is well formed.
\<close>

definition sample_items :: "item list" where
  "sample_items =
     [\<lparr>item_number = 1, item_repository_url = None\<rparr>,
      \<lparr>item_number = 2, item_repository_url = Some ''invalid-url''\<rparr>,
      \<lparr>item_number = 3, item_repository_url = Some ''https://api.github.com/repos/o/r''\<rparr>,
      \<lparr>item_number = 4, item_repository_url = Some ''https://api.github.com/repos/o/r''\<rparr>,
      \<lparr>item_number = 5, item_repository_url = Some ''https://api.github.com/repos/o/r''\<rparr>,
      \<lparr>item_number = 6, item_repository_url = Some ''https://api.github.com/repos/o/r''\<rparr>,
      \<lparr>item_number = 7, item_repository_url = Some ''https://api.github.com/repos/o/r''\<rparr>]"

definition sample_listings :: "(int \<times> comment list) list" where
  "sample_listings =
     [(4, [plain_comment ''regular comment'']),
      (5, [plain_comment ''<!-- MERGE_SCHEDULE_INFO invalid-json -->'']),
      (6, [plain_comment (marker_text ''invalid-date'')]),
      (7, [plain_comment ''regular comment'',
           plain_comment (marker_text ''2024-01-01T11:00:00.000Z'')])]"

text \<open>
  A state of the reference host in which pull request 7 has 101 comments: a hundred
  comments of a collaborator and then, as comment 101, the marker comment of its
  schedule. The label is on the pull request.
\<close>

definition crowded_world :: github where
  "crowded_world =
     \<lparr>gh_pulls = [((''o'', ''r'', 7), \<lparr>pull_open = True, pull_mergeable = True\<rparr>)],
      gh_labels = [((''o'', ''r'', 7), ''merge-scheduled'')],
      gh_comments =
        map (\<lambda>i. ((''o'', ''r'', 7),
                   \<lparr>comment_id = int i, comment_login = ''alice'',
                    comment_body = ''@merge-at 2024-01-02 2:30PM''\<rparr>)) [1..<101] @
        [((''o'', ''r'', 7), \<lparr>comment_id = 200, comment_login = ''github-actions[bot]'',
                               comment_body = marker_text ''2024-01-01T11:00:00.000Z''\<rparr>)],
      gh_permissions = [((''o'', ''r'', ''alice''), ''write'')],
      gh_next_id = 201\<rparr>"

text \<open>
  A state in which pull request 7 has 101 comments too, with the marker comment of its
  schedule as the oldest one, before a hundred comments of a collaborator.
\<close>

definition busy_world :: github where
  "busy_world =
     \<lparr>gh_pulls = [((''o'', ''r'', 7), \<lparr>pull_open = True, pull_mergeable = True\<rparr>)],
      gh_labels = [((''o'', ''r'', 7), ''merge-scheduled'')],
      gh_comments =
        ((''o'', ''r'', 7), \<lparr>comment_id = 1, comment_login = ''github-actions[bot]'',
                              comment_body = marker_text ''2024-01-01T11:00:00.000Z''\<rparr>) #
        map (\<lambda>i. ((''o'', ''r'', 7),
                   \<lparr>comment_id = int i, comment_login = ''alice'',
                    comment_body = ''@merge-at 2024-01-02 2:30PM''\<rparr>)) [2..<102],
      gh_permissions = [((''o'', ''r'', ''alice''), ''write'')],
      gh_next_id = 201\<rparr>"

text \<open>
  \<open>returns_with m Q\<close>: whenever \<open>m\<close> returns normally, \<open>Q\<close> holds of the state
  after it. \<open>accepted\<close>: the last request of the record is the creation of a comment
  on the pull request, and the state of the host is the one in which the host left it
  when it accepted that comment.
\<close>

definition returns_with :: "('w, 'a) io \<Rightarrow> ('w \<times> request list \<Rightarrow> bool) \<Rightarrow> bool" where
  "returns_with m Q \<longleftrightarrow> (\<forall>s v s'. m s = (Inr v, s') \<longrightarrow> Q s')"

definition accepted :: "'w octokit \<Rightarrow> string \<Rightarrow> string \<Rightarrow> int \<Rightarrow> 'w \<times> request list \<Rightarrow> bool" where
  "accepted octokit owner repo n s' \<longleftrightarrow>
     (\<exists>body w0 tr0. issues_createComment octokit owner repo n body w0 = (Inr (), fst s') \<and>
                    snd s' = tr0 @ [CreateComment owner repo n body])"


section \<open>The time parser: proofs\<close>

subsection \<open>Characters\<close>

lemma isDigit_cases:
  "isDigit c \<Longrightarrow> c = CHR ''0'' \<or> c = CHR ''1'' \<or> c = CHR ''2'' \<or> c = CHR ''3'' \<or> c = CHR ''4'' \<or>
     c = CHR ''5'' \<or> c = CHR ''6'' \<or> c = CHR ''7'' \<or> c = CHR ''8'' \<or> c = CHR ''9''"
  by (simp add: isDigit_def)

lemma isDigit_upper: "isDigit c \<Longrightarrow> toUpperChar c = c"
  by (drule isDigit_cases, elim disjE) (simp_all add: toUpperChar_def)

lemma isDigit_plain: "isDigit c \<Longrightarrow> plain c"
  by (drule isDigit_cases, elim disjE)
     (simp_all add: plain_def ascii_def space_at_def whitespace_def)

lemma isDigit_val: "isDigit c \<Longrightarrow> 0 \<le> digitVal c \<and> digitVal c \<le> 9"
  by (drule isDigit_cases, elim disjE) (simp_all add: digitVal_def)

lemma colon_facts:
  "\<not> isDigit (CHR '':'')" "plain (CHR '':'')" "toUpperChar (CHR '':'') = CHR '':''"
  by (simp_all add: isDigit_def toUpperChar_def plain_def ascii_def space_at_def whitespace_def)

lemma digit_chars:
  "isDigit (CHR ''0'')" "isDigit (CHR ''1'')" "isDigit (CHR ''2'')" "isDigit (CHR ''3'')"
  "isDigit (CHR ''4'')" "isDigit (CHR ''5'')" "isDigit (CHR ''6'')" "isDigit (CHR ''7'')"
  "isDigit (CHR ''8'')" "isDigit (CHR ''9'')"
  by (simp_all add: isDigit_def)

lemma digitVal_chars:
  "digitVal (CHR ''0'') = 0" "digitVal (CHR ''1'') = 1" "digitVal (CHR ''2'') = 2"
  "digitVal (CHR ''3'') = 3" "digitVal (CHR ''4'') = 4" "digitVal (CHR ''5'') = 5"
  "digitVal (CHR ''6'') = 6" "digitVal (CHR ''7'') = 7" "digitVal (CHR ''8'') = 8"
  "digitVal (CHR ''9'') = 9"
  by (simp_all add: digitVal_def)

lemma upper_letter_cases:
  "toUpperChar c = CHR ''A'' \<Longrightarrow> c = CHR ''a'' \<or> c = CHR ''A''"
  "toUpperChar c = CHR ''P'' \<Longrightarrow> c = CHR ''p'' \<or> c = CHR ''P''"
  "toUpperChar c = CHR ''M'' \<Longrightarrow> c = CHR ''m'' \<or> c = CHR ''M''"
  by (auto simp: toUpperChar_def split: if_splits)

lemma letter_plain:
  "plain (CHR ''a'')" "plain (CHR ''A'')" "plain (CHR ''p'')" "plain (CHR ''P'')"
  "plain (CHR ''m'')" "plain (CHR ''M'')"
  by (simp_all add: plain_def ascii_def space_at_def whitespace_def)

lemma upper_letter_plain:
  "toUpperChar c = CHR ''A'' \<or> toUpperChar c = CHR ''P'' \<or> toUpperChar c = CHR ''M'' \<Longrightarrow> plain c"
  using upper_letter_cases[of c] letter_plain by auto

lemma upper_markers: "toUpperCase ''AM'' = ''AM''" "toUpperCase ''PM'' = ''PM''" "toUpperCase [] = []"
  by (simp_all add: toUpperCase_def toUpperChar_def)

lemma toUpperCase_append: "toUpperCase (a @ b) = toUpperCase a @ toUpperCase b"
  by (simp add: toUpperCase_def)

lemma toUpperCase_Cons: "toUpperCase (c # b) = toUpperChar c # toUpperCase b"
  by (simp add: toUpperCase_def)

lemma toUpperCase_digits: "list_all isDigit s \<Longrightarrow> toUpperCase s = s"
  by (induction s) (auto simp: toUpperCase_def isDigit_upper)

lemma parseInt10_1: "parseInt10 [a] = digitVal a"
  by (simp add: parseInt10_def)

lemma parseInt10_2: "parseInt10 [a, b] = 10 * digitVal a + digitVal b"
  by (simp add: parseInt10_def)

lemma parseInt10_nonneg: "list_all isDigit s \<Longrightarrow> 0 \<le> parseInt10 s"
proof -
  have "list_all isDigit s \<Longrightarrow> 0 \<le> a \<Longrightarrow> 0 \<le> foldl (\<lambda>a c. 10 * a + digitVal c) a s" for a
    by (induction s arbitrary: a) (auto simp: isDigit_val)
  then show "list_all isDigit s \<Longrightarrow> 0 \<le> parseInt10 s" by (simp add: parseInt10_def)
qed

subsection \<open>Whitespace\<close>

lemma whitespace_nonempty: "u \<in> set whitespace \<Longrightarrow> u \<noteq> []"
  by (auto simp: whitespace_def)

lemma whitespace_ascii: "u \<in> set whitespace \<Longrightarrow> c \<in> set u \<Longrightarrow> ascii c \<Longrightarrow> u = [c]"
  by (auto simp: whitespace_def ascii_def)

lemma space_at_0_iff: "space_at s = 0 \<longleftrightarrow> (\<forall>u\<in>set whitespace. \<not> prefix u s)"
  by (auto simp: space_at_def find_None_iff find_Some_iff whitespace_nonempty split: option.splits)

lemma space_end_0_iff: "space_end s = 0 \<longleftrightarrow> (\<forall>u\<in>set whitespace. \<not> suffix u s)"
  by (auto simp: space_end_def find_None_iff find_Some_iff whitespace_nonempty split: option.splits)

lemma space_at_space: "space_at (CHR '' '' # t) = 1"
  by (simp add: space_at_def whitespace_def)

lemma space_at_plain: "plain c \<Longrightarrow> space_at (c # t) = 0"
  unfolding space_at_0_iff
proof
  fix u assume p: "plain c" and u: "u \<in> set whitespace"
  show "\<not> prefix u (c # t)"
  proof
    assume q: "prefix u (c # t)"
    from u have "u \<noteq> []" by (rule whitespace_nonempty)
    with q obtain u' where "u = c # u'" by (cases u) auto
    with u p have "u = [c]" using whitespace_ascii[of u c] by (simp add: plain_def)
    with u p show False by (auto simp: plain_def space_at_0_iff)
  qed
qed

lemma space_at_append:
  assumes "a \<noteq> []" "space_at a = 0" "b = [] \<or> ascii (hd b)"
  shows "space_at (a @ b) = 0"
  unfolding space_at_0_iff
proof
  fix u assume u: "u \<in> set whitespace"
  show "\<not> prefix u (a @ b)"
  proof
    assume "prefix u (a @ b)"
    then have "prefix u a \<or> (\<exists>us. u = a @ us \<and> prefix us b)"
      by (simp add: prefix_append)
    then have "prefix u a \<or> (\<exists>us. u = a @ us \<and> prefix us b \<and> us \<noteq> [])"
      by (cases "u = a") auto
    then consider "prefix u a" | us where "u = a @ us" "prefix us b" "us \<noteq> []"
      by blast
    then show False
    proof cases
      case 1
      then show ?thesis using assms(2) u by (simp add: space_at_0_iff)
    next
      case 2
      then have b: "b \<noteq> []" "hd us = hd b" by (auto simp: prefix_def)
      with assms(3) have "ascii (hd b)" by simp
      moreover have "hd b \<in> set u" using 2 b by (cases us) auto
      ultimately have "u = [hd b]" using whitespace_ascii[OF u] by blast
      then show ?thesis using 2 assms(1) by (cases a) auto
    qed
  qed
qed

lemma noSpace_append:
  "noSpace a \<Longrightarrow> noSpace b \<Longrightarrow> b = [] \<or> ascii (hd b) \<Longrightarrow> noSpace (a @ b)"
proof (induction a)
  case Nil
  then show ?case by simp
next
  case (Cons c a)
  have "space_at ((c # a) @ b) = 0"
    using Cons.prems by (intro space_at_append) auto
  then show ?case using Cons by simp
qed

lemma noSpace_plain: "list_all plain t \<Longrightarrow> noSpace t"
  by (induction t) (auto simp: space_at_plain)

lemma noSpace_suffix: "noSpace (p @ q) \<Longrightarrow> noSpace q"
  by (induction p) auto

lemma noSpace_hd: "noSpace s \<Longrightarrow> space_at s = 0"
  by (cases s) (auto simp: space_at_0_iff whitespace_nonempty)

lemma noSpace_end: "noSpace s \<Longrightarrow> space_end s = 0"
  unfolding space_end_0_iff
proof
  fix u assume s: "noSpace s" and u: "u \<in> set whitespace"
  show "\<not> suffix u s"
  proof
    assume "suffix u s"
    then obtain p where "s = p @ u" by (auto simp: suffix_def)
    with s have "noSpace u" using noSpace_suffix by blast
    then have "space_at u = 0" by (rule noSpace_hd)
    with u show False by (auto simp: space_at_0_iff)
  qed
qed

lemma space_end_plain: "plain c \<Longrightarrow> space_end (x @ [c]) = 0"
  unfolding space_end_0_iff
proof
  fix u assume p: "plain c" and u: "u \<in> set whitespace"
  show "\<not> suffix u (x @ [c])"
  proof
    assume q: "suffix u (x @ [c])"
    from u have "u \<noteq> []" by (rule whitespace_nonempty)
    with q have "last u = c" by (auto simp: suffix_def) (metis last_appendR last_snoc)
    with \<open>u \<noteq> []\<close> have "c \<in> set u" using last_in_set by blast
    with u p have "u = [c]" using whitespace_ascii[of u c] by (simp add: plain_def)
    with u p show False by (auto simp: plain_def space_at_0_iff)
  qed
qed

lemma trim_id: "space_at s = 0 \<Longrightarrow> space_end s = 0 \<Longrightarrow> trim s = s"
  by (simp add: trim_def dropSpaces.simps[of s] dropSpacesEnd.simps[of s])

lemma dropSpaces_id: "space_at s = 0 \<Longrightarrow> dropSpaces s = s"
  by (simp add: dropSpaces.simps[of s])

lemma dropSpaces_space: "dropSpaces (CHR '' '' # t) = dropSpaces t"
  by (simp add: dropSpaces.simps[of "CHR '' '' # t"] space_at_space)

lemma split_ws_from_noSpace: "noSpace t \<Longrightarrow> split_ws_from cur t = [cur @ t]"
  by (induction t arbitrary: cur) auto

lemma split_ws_from_token:
  "noSpace d \<Longrightarrow>
   split_ws_from cur (d @ CHR '' '' # t) = (cur @ d) # split_ws_from [] (dropSpaces t)"
proof (induction d arbitrary: cur)
  case Nil
  then show ?case by (simp add: space_at_space dropSpaces_space)
next
  case (Cons c d)
  have "space_at ((c # d) @ CHR '' '' # t) = 0"
    using Cons.prems by (intro space_at_append) (auto simp: ascii_def)
  then show ?case using Cons by simp
qed

lemma removeSpaces_noSpace: "noSpace t \<Longrightarrow> removeSpaces t = t"
  by (induction t) auto

lemma removeSpaces_token:
  "noSpace a \<Longrightarrow> removeSpaces (a @ CHR '' '' # b) = a @ removeSpaces b"
proof (induction a)
  case Nil
  then show ?case by (simp add: space_at_space)
next
  case (Cons c a)
  have "space_at ((c # a) @ CHR '' '' # b) = 0"
    using Cons.prems by (intro space_at_append) (auto simp: ascii_def)
  then show ?case using Cons by simp
qed

lemma space_end_plain_last: "s \<noteq> [] \<Longrightarrow> plain (last s) \<Longrightarrow> space_end s = 0"
  using space_end_plain[of "last s" "butlast s"] by simp

subsection \<open>Trimming and splitting an input made of tokens\<close>

lemma last_plain: "t \<noteq> [] \<Longrightarrow> list_all plain t \<Longrightarrow> plain (last t)"
  by (simp add: list_all_iff)

lemma hd_plain: "t \<noteq> [] \<Longrightarrow> list_all plain t \<Longrightarrow> space_at (t @ r) = 0"
  by (cases t) (auto simp: space_at_plain)

lemma trim_tokens:
  assumes "is_token d" "t \<noteq> []" "list_all plain t"
  shows "trim (d @ CHR '' '' # m @ t) = d @ CHR '' '' # m @ t"
proof (rule trim_id)
  show "space_at (d @ CHR '' '' # m @ t) = 0"
    using assms(1) by (intro space_at_append) (auto simp: is_token_def noSpace_hd ascii_def)
  have "last (d @ CHR '' '' # m @ t) = last t" using assms(2) by simp
  then show "space_end (d @ CHR '' '' # m @ t) = 0"
    using last_plain[OF assms(2,3)] by (intro space_end_plain_last) auto
qed

lemma split_two_tokens:
  assumes "is_token d" "t \<noteq> []" "list_all plain t"
  shows "split_ws (trim (d @ CHR '' '' # t)) = [d, t]"
proof -
  have "trim (d @ CHR '' '' # t) = d @ CHR '' '' # t"
    using trim_tokens[OF assms, of "[]"] by simp
  moreover have "dropSpaces t = t"
    using hd_plain[OF assms(2,3), of "[]"] by (simp add: dropSpaces_id)
  ultimately show ?thesis
    using assms
    by (simp add: split_ws_def split_ws_from_token split_ws_from_noSpace noSpace_plain
          is_token_def)
qed

lemma split_three_tokens:
  assumes "is_token d" "t1 \<noteq> []" "list_all plain t1" "t2 \<noteq> []" "list_all plain t2"
  shows "split_ws (trim (d @ CHR '' '' # t1 @ CHR '' '' # t2)) = [d, t1, t2]"
proof -
  have "trim (d @ CHR '' '' # t1 @ CHR '' '' # t2) = d @ CHR '' '' # t1 @ CHR '' '' # t2"
    using trim_tokens[OF assms(1,4,5), of "t1 @ '' ''"] by simp
  moreover have "dropSpaces t2 = t2"
    using hd_plain[OF assms(4,5), of "[]"] by (simp add: dropSpaces_id)
  moreover have "dropSpaces (t1 @ CHR '' '' # t2) = t1 @ CHR '' '' # t2"
    using hd_plain[OF assms(2,3)] by (simp add: dropSpaces_id)
  ultimately show ?thesis
    using assms
    by (simp add: split_ws_def split_ws_from_token split_ws_from_noSpace noSpace_plain
          is_token_def)
qed

lemma date_two_tokens:
  assumes "is_token d" "t \<noteq> []" "list_all plain t"
  shows "validateScheduleTime_date zutc (d @ CHR '' '' # t) tz =
         validateScheduleTime_time zutc d (toUpperCase t) tz"
  using assms
  by (simp add: validateScheduleTime_date_def split_two_tokens removeSpaces_noSpace
        noSpace_plain is_token_def)

lemma date_three_tokens:
  assumes "is_token d" "t1 \<noteq> []" "list_all plain t1" "t2 \<noteq> []" "list_all plain t2"
  shows "validateScheduleTime_date zutc (d @ CHR '' '' # t1 @ CHR '' '' # t2) tz =
         validateScheduleTime_time zutc d (toUpperCase (t1 @ t2)) tz"
  using assms
  by (simp add: validateScheduleTime_date_def split_three_tokens removeSpaces_token
        removeSpaces_noSpace noSpace_plain is_token_def)

lemma date_one_token:
  assumes "is_token d"
  shows "validateScheduleTime_date zutc d tz = Inl (Error ''Date and time must be provided'' None)"
proof -
  have "trim d = d" using assms by (intro trim_id) (auto simp: is_token_def noSpace_hd noSpace_end)
  then show ?thesis using assms
    by (simp add: validateScheduleTime_date_def split_ws_def split_ws_from_noSpace is_token_def)
qed

lemma marker_token:
  assumes "toUpperCase mer = ''AM'' \<or> toUpperCase mer = ''PM''"
  shows "mer \<noteq> [] \<and> list_all plain mer"
proof -
  from assms obtain a b where ab: "mer = [a, b]"
    by (cases mer; cases "tl mer"; cases "tl (tl mer)") (auto simp: toUpperCase_def)
  with assms have "toUpperChar a = CHR ''A'' \<or> toUpperChar a = CHR ''P''" "toUpperChar b = CHR ''M''"
    by (auto simp: toUpperCase_def)
  then have "plain a" "plain b"
    using upper_letter_plain[of a] upper_letter_plain[of b] by blast+
  with ab show ?thesis by simp
qed

lemma time_token:
  assumes "list_all isDigit hs" "isDigit m1" "isDigit m2"
  shows "list_all plain (hs @ [CHR '':'', m1, m2])"
    and "toUpperCase (hs @ [CHR '':'', m1, m2]) = hs @ [CHR '':'', m1, m2]"
  using assms
  by (auto simp: list_all_iff isDigit_plain colon_facts
        toUpperCase_append toUpperCase_digits toUpperCase_Cons isDigit_upper upper_markers)

lemma date_of_plain_input:
  assumes "is_token d" "list_all isDigit hs" "isDigit m1" "isDigit m2"
  shows "validateScheduleTime_date zutc (d @ '' '' @ hs @ '':'' @ [m1, m2]) tz =
         validateScheduleTime_time zutc d (hs @ [CHR '':'', m1, m2]) tz"
  using date_two_tokens[OF assms(1) _ time_token(1)[OF assms(2-4)], of zutc tz]
  by (simp add: time_token(2)[OF assms(2-4)])

lemma date_of_marker_input:
  assumes "is_token d" "list_all isDigit hs" "isDigit m1" "isDigit m2"
      and "toUpperCase mer = ''AM'' \<or> toUpperCase mer = ''PM''"
      and "sp = [] \<or> sp = '' ''"
  shows "validateScheduleTime_date zutc (d @ '' '' @ hs @ '':'' @ [m1, m2] @ sp @ mer) tz =
         validateScheduleTime_time zutc d (hs @ CHR '':'' # m1 # m2 # toUpperCase mer) tz"
proof -
  let ?t1 = "hs @ [CHR '':'', m1, m2]"
  note t1 = time_token[OF assms(2-4)]
  have m: "mer \<noteq> []" "list_all plain mer" using marker_token[OF assms(5)] by auto
  have t: "list_all plain (?t1 @ mer)" using t1(1) m by simp
  have a: "validateScheduleTime_date zutc (d @ CHR '' '' # ?t1 @ mer) tz =
           validateScheduleTime_time zutc d (toUpperCase (?t1 @ mer)) tz"
    using assms(1) _ t by (rule date_two_tokens) simp
  have b: "validateScheduleTime_date zutc (d @ CHR '' '' # ?t1 @ CHR '' '' # mer) tz =
           validateScheduleTime_time zutc d (toUpperCase (?t1 @ mer)) tz"
    using assms(1) _ t1(1) m by (rule date_three_tokens) simp
  have "toUpperCase (?t1 @ mer) = hs @ CHR '':'' # m1 # m2 # toUpperCase mer"
    using assms(2-4)
    by (simp add: toUpperCase_append toUpperCase_Cons toUpperCase_digits colon_facts isDigit_upper)
  with a b assms(6) show ?thesis by auto
qed

subsection \<open>The time of day\<close>

lemma timeMatch_tail_marker:
  "isDigit m1 \<Longrightarrow> isDigit m2 \<Longrightarrow> toUpperCase MER = ''AM'' \<or> toUpperCase MER = ''PM'' \<Longrightarrow>
   timeMatch_tail (CHR '':'' # m1 # m2 # MER) = Some ([m1, m2], Some MER)"
  by (auto simp add: timeMatch_tail_def)

lemma timeMatch_tail_plain:
  "isDigit m1 \<Longrightarrow> isDigit m2 \<Longrightarrow> timeMatch_tail [CHR '':'', m1, m2] = Some ([m1, m2], None)"
  by (simp add: timeMatch_tail_def upper_markers)

lemma timeMatch_hs:
  assumes "list_all isDigit hs" "length hs = 1 \<or> length hs = 2"
      and "timeMatch_tail (CHR '':'' # t) = Some (m, mer)"
  shows "timeMatch (hs @ CHR '':'' # t) = Some (hs, m, mer)"
proof -
  from assms(2) consider h1 where "hs = [h1]" | h1 h2 where "hs = [h1, h2]"
    by (cases hs; cases "tl hs"; cases "tl (tl hs)") auto
  then show ?thesis
  proof cases
    case 1
    then show ?thesis using assms(1,3) by (simp add: timeMatch_def colon_facts)
  next
    case 2
    then show ?thesis using assms(1,3) by (simp add: timeMatch_def)
  qed
qed

lemma time_stage_marker:
  assumes "list_all isDigit hs" "length hs = 1 \<or> length hs = 2" "isDigit m1" "isDigit m2"
      and "MER = ''AM'' \<or> MER = ''PM''"
  shows "validateScheduleTime_time zutc d (hs @ CHR '':'' # m1 # m2 # MER) tz =
           (if parseInt10 hs < 1 \<or> parseInt10 hs > 12 \<or> parseInt10 [m1, m2] > 59
            then Inl (Error ''Invalid time format'' None)
            else zutc (d @ '' '' @ padStart 2 (CHR ''0'')
                        (toString (if MER = ''PM'' \<and> parseInt10 hs \<noteq> 12 then parseInt10 hs + 12
                                   else if MER \<noteq> ''PM'' \<and> parseInt10 hs = 12 then 0
                                   else parseInt10 hs))
                       @ '':'' @ [m1, m2]) tz)"
proof -
  have t: "timeMatch_tail (CHR '':'' # m1 # m2 # MER) = Some ([m1, m2], Some MER)"
    using assms by (intro timeMatch_tail_marker) (auto simp: upper_markers)
  have u: "toUpperCase MER = MER" using assms(5) by (auto simp: upper_markers)
  have m: "\<not> parseInt10 [m1, m2] < 0"
    using isDigit_val[OF assms(3)] isDigit_val[OF assms(4)] by (simp add: parseInt10_2)
  show ?thesis
    by (simp add: validateScheduleTime_time_def timeMatch_hs[OF assms(1,2) t] u m Let_def
          padStart_def)
qed

lemma time_stage_plain:
  assumes "list_all isDigit hs" "length hs = 1 \<or> length hs = 2" "isDigit m1" "isDigit m2"
  shows "validateScheduleTime_time zutc d (hs @ [CHR '':'', m1, m2]) tz =
           (if parseInt10 hs > 23 \<or> parseInt10 [m1, m2] > 59
            then Inl (Error ''Invalid time format'' None)
            else zutc (d @ '' '' @ padStart 2 (CHR ''0'') hs @ '':'' @ [m1, m2]) tz)"
proof -
  have t: "timeMatch_tail (CHR '':'' # [m1, m2]) = Some ([m1, m2], None)"
    using assms by (simp add: timeMatch_tail_plain)
  have m: "\<not> parseInt10 [m1, m2] < 0" "\<not> parseInt10 hs < 0"
    using parseInt10_nonneg[of "[m1,m2]"] parseInt10_nonneg[OF assms(1)] assms(3,4) by auto
  show ?thesis
    using timeMatch_hs[OF assms(1,2) t] m
    by (simp add: validateScheduleTime_time_def Let_def padStart_def)
qed

lemma hour_cases:
  assumes "1 \<le> h" "h \<le> 12"
  shows "h = 1 \<or> h = 2 \<or> h = 3 \<or> h = 4 \<or> h = 5 \<or> h = 6 \<or> h = 7 \<or> h = 8 \<or> h = 9 \<or>
         h = 10 \<or> h = 11 \<or> h = (12::int)"
  using assms by arith

lemma hour24_cases:
  assumes "0 \<le> h" "h \<le> 23"
  shows "h = 0 \<or> h = 1 \<or> h = 2 \<or> h = 3 \<or> h = 4 \<or> h = 5 \<or> h = 6 \<or> h = 7 \<or> h = 8 \<or> h = 9 \<or>
         h = 10 \<or> h = 11 \<or> h = (12::int) \<or> h = 13 \<or> h = 14 \<or> h = 15 \<or> h = 16 \<or> h = 17 \<or>
         h = 18 \<or> h = 19 \<or> h = 20 \<or> h = 21 \<or> h = 22 \<or> h = 23"
  using assms by arith

lemma toString_small:
  "toString 0 = ''0''" "toString 1 = ''1''" "toString 2 = ''2''" "toString 3 = ''3''"
  "toString 4 = ''4''" "toString 5 = ''5''" "toString 6 = ''6''" "toString 7 = ''7''"
  "toString 8 = ''8''" "toString 9 = ''9''" "toString 10 = ''10''" "toString 11 = ''11''"
  "toString 12 = ''12''" "toString 13 = ''13''" "toString 14 = ''14''" "toString 15 = ''15''"
  "toString 16 = ''16''" "toString 17 = ''17''" "toString 18 = ''18''" "toString 19 = ''19''"
  "toString 20 = ''20''" "toString 21 = ''21''" "toString 22 = ''22''" "toString 23 = ''23''"
  by (simp_all add: toString_def)

lemma hour_string_12:
  assumes "1 \<le> h" "h \<le> 12" "hs = toString h \<or> hs = padStart 2 (CHR ''0'') (toString h)"
  shows "list_all isDigit hs \<and> (length hs = 1 \<or> length hs = 2) \<and> parseInt10 hs = h"
  using hour_cases[OF assms(1,2)] assms(3)
  by (elim disjE)
     (simp_all add: toString_small padStart_def digit_chars parseInt10_1 parseInt10_2
        digitVal_chars)

lemma hour_string_24:
  assumes "0 \<le> h" "h \<le> 23" "hs = padStart 2 (CHR ''0'') (toString h)"
  shows "list_all isDigit hs \<and> length hs = 2 \<and> parseInt10 hs = h"
  using hour24_cases[OF assms(1,2)] assms(3)
  by (elim disjE)
     (simp_all add: toString_small padStart_def digit_chars parseInt10_1 parseInt10_2
        digitVal_chars)

lemma time_12h:
  assumes "1 \<le> h" "h \<le> 12" "hs = toString h \<or> hs = padStart 2 (CHR ''0'') (toString h)"
     "isDigit m1" "isDigit m2" "parseInt10 [m1,m2] \<le> 59" "MER = ''AM'' \<or> MER = ''PM''"
  shows "validateScheduleTime_time zutc d (hs @ CHR '':'' # m1 # m2 # MER) tz =
         zutc (d @ '' '' @ padStart 2 (CHR ''0'') (toString (spec_hour24 h (MER = ''PM''))) @
               '':'' @ [m1, m2]) tz"
proof -
  note hs = hour_string_12[OF assms(1-3)]
  have "validateScheduleTime_time zutc d (hs @ CHR '':'' # m1 # m2 # MER) tz =
        zutc (d @ '' '' @ padStart 2 (CHR ''0'')
                (toString (if MER = ''PM'' \<and> h \<noteq> 12 then h + 12
                           else if MER \<noteq> ''PM'' \<and> h = 12 then 0 else h))
              @ '':'' @ [m1, m2]) tz"
    using time_stage_marker[of hs m1 m2 MER zutc d tz] hs assms by simp
  moreover have "(if MER = ''PM'' \<and> h \<noteq> 12 then h + 12
                  else if MER \<noteq> ''PM'' \<and> h = 12 then 0 else h) = spec_hour24 h (MER = ''PM'')"
    by (simp add: spec_hour24_def)
  ultimately show ?thesis by simp
qed

lemma time_24h:
  assumes "0 \<le> k" "k \<le> 23" "isDigit m1" "isDigit m2" "parseInt10 [m1,m2] \<le> 59"
  shows "validateScheduleTime_time zutc d
           (padStart 2 (CHR ''0'') (toString k) @ [CHR '':'', m1, m2]) tz =
         zutc (d @ '' '' @ padStart 2 (CHR ''0'') (toString k) @ '':'' @ [m1, m2]) tz"
proof -
  define hs where "hs = padStart 2 (CHR ''0'') (toString k)"
  note hs = hour_string_24[OF assms(1,2) hs_def]
  have "padStart 2 (CHR ''0'') hs = hs" using hs by (simp add: padStart_def)
  then show ?thesis
    using time_stage_plain[of hs m1 m2 zutc d tz] hs assms unfolding hs_def[symmetric] by simp
qed

lemma validate_from_date:
  "validateScheduleTime_date zutc s tz = validateScheduleTime_date zutc s' tz \<Longrightarrow>
   validateScheduleTime zutc ad now s tz = validateScheduleTime zutc ad now s' tz"
  by (simp add: validateScheduleTime_def validateScheduleTime_try_def)

lemma validate_format_error:
  "validateScheduleTime_date zutc s tz = Inl (Error reason None) \<Longrightarrow>
   validateScheduleTime zutc ad now s tz =
     Inl (Error (''Invalid date/time format: '' @ reason) None)"
  by (simp add: validateScheduleTime_def validateScheduleTime_try_def)

subsection \<open>The claims about the parser\<close>

text \<open>
  C1. A valid 12-hour input with a meridiem marker parses as the corresponding 24-hour
  input does. The input is a date token (a text that is not empty and holds no
  whitespace character of the language), a space, the hour \<open>h\<close> from 1 to 12 written
  with or without a leading zero, a colon, two minute digits of value at most 59, and
  the marker \<open>AM\<close> or \<open>PM\<close> in any letter case, after an optional space. The
  corresponding 24-hour input has the hour that the specification gives
  (\<open>spec_hour24\<close>: 12 AM is 0, 12 PM is 12, another PM hour has 12 added, an AM hour
  is unchanged), written with two digits. For the same date token, zone name, library
  and clock, \<open>validateScheduleTime\<close> returns the same result for both.
\<close>

theorem C1_meridiem_equals_24_hour:
  assumes "datePart \<noteq> []" "noSpace datePart"
      and "1 \<le> h" "h \<le> 12"
      and "hs = toString h \<or> hs = padStart 2 (CHR ''0'') (toString h)"
      and "isDigit m1" "isDigit m2" "parseInt10 [m1, m2] \<le> 59"
      and "toUpperCase mer = ''AM'' \<or> toUpperCase mer = ''PM''"
      and "sp = [] \<or> sp = '' ''"
  shows "validateScheduleTime zonedTimeToUtc addDays now
           (datePart @ '' '' @ hs @ '':'' @ [m1, m2] @ sp @ mer) timezone =
         validateScheduleTime zonedTimeToUtc addDays now
           (datePart @ '' '' @
              padStart 2 (CHR ''0'') (toString (spec_hour24 h (toUpperCase mer = ''PM''))) @
              '':'' @ [m1, m2]) timezone"
proof (rule validate_from_date)
  let ?k = "spec_hour24 h (toUpperCase mer = ''PM'')"
  have d: "is_token datePart" using assms(1,2) by (simp add: is_token_def)
  note hs = hour_string_12[OF assms(3-5)]
  have k: "0 \<le> ?k" "?k \<le> 23" using assms(3,4) by (auto simp: spec_hour24_def)
  note ks = hour_string_24[OF k refl]
  have "validateScheduleTime_date zonedTimeToUtc
          (datePart @ '' '' @ hs @ '':'' @ [m1, m2] @ sp @ mer) timezone =
        validateScheduleTime_time zonedTimeToUtc datePart
          (hs @ CHR '':'' # m1 # m2 # toUpperCase mer) timezone"
    using d hs assms(6,7,9,10) by (intro date_of_marker_input) auto
  also have "\<dots> = zonedTimeToUtc
          (datePart @ '' '' @ padStart 2 (CHR ''0'') (toString ?k) @ '':'' @ [m1, m2]) timezone"
    using assms(3-9) by (intro time_12h) auto
  also have "\<dots> = validateScheduleTime_time zonedTimeToUtc datePart
          (padStart 2 (CHR ''0'') (toString ?k) @ [CHR '':'', m1, m2]) timezone"
    using k assms(6-8) by (intro time_24h[symmetric]) auto
  also have "\<dots> = validateScheduleTime_date zonedTimeToUtc
          (datePart @ '' '' @ padStart 2 (CHR ''0'') (toString ?k) @ '':'' @ [m1, m2]) timezone"
    using d ks assms(6,7) by (intro date_of_plain_input[symmetric]) auto
  finally show "validateScheduleTime_date zonedTimeToUtc
          (datePart @ '' '' @ hs @ '':'' @ [m1, m2] @ sp @ mer) timezone =
        validateScheduleTime_date zonedTimeToUtc
          (datePart @ '' '' @ padStart 2 (CHR ''0'') (toString ?k) @ '':'' @ [m1, m2]) timezone" .
qed

text \<open>
  The examples of the specification, at the clock of the tests: \<open>02:30 pm\<close> parses as
  \<open>14:30\<close> does, to 2024-01-02T14:30:00Z.
\<close>

theorem C1_meridiem_equals_24_hour_witness:
  "validateScheduleTime sample_zonedTimeToUtc sample_addDays sample_now ''2024-01-02 02:30 pm'' ''UTC'' =
   validateScheduleTime sample_zonedTimeToUtc sample_addDays sample_now ''2024-01-02 14:30'' ''UTC'' \<and>
   validateScheduleTime sample_zonedTimeToUtc sample_addDays sample_now ''2024-01-02 14:30'' ''UTC'' =
   Inr 1704205800000"
proof -
  have "validateScheduleTime sample_zonedTimeToUtc sample_addDays sample_now
          (''2024-01-02'' @ '' '' @ ''02'' @ '':'' @ [CHR ''3'', CHR ''0''] @ '' '' @ ''pm'') ''UTC'' =
        validateScheduleTime sample_zonedTimeToUtc sample_addDays sample_now
          (''2024-01-02'' @ '' '' @
             padStart 2 (CHR ''0'') (toString (spec_hour24 2 (toUpperCase ''pm'' = ''PM''))) @
             '':'' @ [CHR ''3'', CHR ''0'']) ''UTC''"
    by (rule C1_meridiem_equals_24_hour) code_simp+
  moreover have "validateScheduleTime sample_zonedTimeToUtc sample_addDays sample_now ''2024-01-02 14:30'' ''UTC'' =
                 Inr 1704205800000"
    by code_simp
  ultimately show ?thesis
    by (simp add: spec_hour24_def toString_def padStart_def toUpperCase_def toUpperChar_def)
qed

text \<open>
  C2. For an input that passes the format checks and that the library resolves to a
  valid date \<open>t\<close>, \<open>validateScheduleTime\<close> fails with the reason
  \<open>Scheduled time must be in the future\<close> exactly when \<open>t \<le> now\<close>, fails with the
  reason \<open>Cannot schedule more than 30 days in advance\<close> exactly when \<open>t\<close> is after
  \<open>addDays(now, 30)\<close>, and returns \<open>t\<close> exactly when neither holds.
  \<open>addDays(now, 30)\<close> is \<open>now\<close> plus 30 days as date-fns counts them, 30 calendar
  days in the time zone of the process, which is not before \<open>now\<close>; in a process
  whose zone is UTC it is \<open>now\<close> plus 2592000000 ms.
\<close>

theorem C2_window:
  assumes "validateScheduleTime_date zonedTimeToUtc dateStr timezone = Inr (Some t)"
      and "now \<le> addDays now 30"
  shows "(validateScheduleTime zonedTimeToUtc addDays now dateStr timezone =
            Inl (Error ''Invalid date/time format: Scheduled time must be in the future'' None)
          \<longleftrightarrow> t \<le> now) \<and>
         (validateScheduleTime zonedTimeToUtc addDays now dateStr timezone =
            Inl (Error ''Invalid date/time format: Cannot schedule more than 30 days in advance'' None)
          \<longleftrightarrow> t > addDays now 30) \<and>
         (validateScheduleTime zonedTimeToUtc addDays now dateStr timezone = Inr t
          \<longleftrightarrow> now < t \<and> t \<le> addDays now 30)"
  using assms
  by (auto simp add: validateScheduleTime_def validateScheduleTime_try_def Let_def)

text \<open>
  At the clock of the tests, 2024-01-01T12:00:00Z, in a process whose zone is UTC:
  \<open>2024-01-02 14:30\<close> is accepted, \<open>2023-12-31 14:30\<close> is in the past and
  \<open>2024-02-15 14:30\<close> is more than 30 days ahead.
\<close>

theorem C2_window_witness:
  "validateScheduleTime sample_zonedTimeToUtc sample_addDays sample_now ''2024-01-02 14:30'' ''UTC'' =
     Inr 1704205800000 \<and>
   validateScheduleTime sample_zonedTimeToUtc sample_addDays sample_now ''2023-12-31 14:30'' ''UTC'' =
     Inl (Error ''Invalid date/time format: Scheduled time must be in the future'' None) \<and>
   validateScheduleTime sample_zonedTimeToUtc sample_addDays sample_now ''2024-02-15 14:30'' ''UTC'' =
     Inl (Error ''Invalid date/time format: Cannot schedule more than 30 days in advance'' None)"
proof -
  have a: "validateScheduleTime_date sample_zonedTimeToUtc ''2024-01-02 14:30'' ''UTC'' =
           Inr (Some 1704205800000)"
    by code_simp
  have b: "validateScheduleTime_date sample_zonedTimeToUtc ''2023-12-31 14:30'' ''UTC'' =
           Inr (Some 1704033000000)"
    by code_simp
  have c: "validateScheduleTime_date sample_zonedTimeToUtc ''2024-02-15 14:30'' ''UTC'' =
           Inr (Some 1708007400000)"
    by code_simp
  have n: "sample_now \<le> sample_addDays sample_now 30"
    by (simp add: sample_addDays_def)
  show ?thesis
    using C2_window[where addDays = sample_addDays and now = sample_now, OF a n]
      C2_window[where addDays = sample_addDays and now = sample_now, OF b n]
      C2_window[where addDays = sample_addDays and now = sample_now, OF c n]
    by (simp add: sample_now_def sample_addDays_def)
qed

text \<open>
  C3. With a date token in front (a text that is not empty and holds no whitespace
  character of the language), \<open>validateScheduleTime\<close> rejects hour 13 before a
  meridiem marker, hour 25 without a marker, and minute 60 with or without a marker,
  each time with the message \<open>Invalid date/time format: Invalid time format\<close>; a bare
  date token is rejected with
  \<open>Invalid date/time format: Date and time must be provided\<close>; and whenever the parser
  fails, for any input, its message is the prefix \<open>Invalid date/time format: \<close> followed
  by the message of what the body of the \<open>try\<close> block threw.
\<close>

theorem C3_format_errors:
  assumes "datePart \<noteq> []" "noSpace datePart"
      and "isDigit m1" "isDigit m2"
      and "list_all isDigit hs" "length hs = 1 \<or> length hs = 2"
      and "toUpperCase mer = ''AM'' \<or> toUpperCase mer = ''PM''"
      and "sp = [] \<or> sp = '' ''"
  shows "validateScheduleTime zonedTimeToUtc addDays now
           (datePart @ '' '' @ ''13'' @ '':'' @ [m1, m2] @ sp @ mer) timezone =
           Inl (Error ''Invalid date/time format: Invalid time format'' None) \<and>
         validateScheduleTime zonedTimeToUtc addDays now
           (datePart @ '' '' @ ''25'' @ '':'' @ [m1, m2]) timezone =
           Inl (Error ''Invalid date/time format: Invalid time format'' None) \<and>
         validateScheduleTime zonedTimeToUtc addDays now
           (datePart @ '' '' @ hs @ '':'' @ ''60'' @ sp @ mer) timezone =
           Inl (Error ''Invalid date/time format: Invalid time format'' None) \<and>
         validateScheduleTime zonedTimeToUtc addDays now
           (datePart @ '' '' @ hs @ '':'' @ ''60'') timezone =
           Inl (Error ''Invalid date/time format: Invalid time format'' None) \<and>
         validateScheduleTime zonedTimeToUtc addDays now datePart timezone =
           Inl (Error ''Invalid date/time format: Date and time must be provided'' None) \<and>
         (\<forall>dateStr e. validateScheduleTime zonedTimeToUtc addDays now dateStr timezone = Inl e \<longrightarrow>
            (\<exists>r. validateScheduleTime_try zonedTimeToUtc addDays now dateStr timezone = Inl r \<and>
                 e = Error (''Invalid date/time format: '' @ message r) None))"
proof -
  have d: "is_token datePart" using assms(1,2) by (simp add: is_token_def)
  have u: "toUpperCase mer = ''AM'' \<or> toUpperCase mer = ''PM''" by (rule assms(7))
  have d13: "list_all isDigit ''13''" "list_all isDigit ''25''" "isDigit (CHR ''6'')"
    "isDigit (CHR ''0'')"
    by (simp_all add: digit_chars)
  have p: "parseInt10 ''13'' = 13" "parseInt10 ''25'' = 25" "parseInt10 ''60'' = 60"
    by (simp_all add: parseInt10_2 digitVal_chars)
  have "validateScheduleTime_date zonedTimeToUtc
          (datePart @ '' '' @ ''13'' @ '':'' @ [m1, m2] @ sp @ mer) timezone =
        validateScheduleTime_time zonedTimeToUtc datePart
          (''13'' @ CHR '':'' # m1 # m2 # toUpperCase mer) timezone"
    using d d13(1) assms(3,4) u assms(8) by (rule date_of_marker_input)
  also have "\<dots> = Inl (Error ''Invalid time format'' None)"
    using time_stage_marker[of "''13''" m1 m2 "toUpperCase mer" zonedTimeToUtc datePart timezone]
      d13(1) assms(3,4) u p(1)
    by simp
  finally have c1: "validateScheduleTime zonedTimeToUtc addDays now
           (datePart @ '' '' @ ''13'' @ '':'' @ [m1, m2] @ sp @ mer) timezone =
           Inl (Error ''Invalid date/time format: Invalid time format'' None)"
    using validate_format_error by fastforce
  have "validateScheduleTime_date zonedTimeToUtc
          (datePart @ '' '' @ ''25'' @ '':'' @ [m1, m2]) timezone =
        validateScheduleTime_time zonedTimeToUtc datePart (''25'' @ [CHR '':'', m1, m2]) timezone"
    using d d13(2) assms(3,4) by (rule date_of_plain_input)
  also have "\<dots> = Inl (Error ''Invalid time format'' None)"
    using time_stage_plain[of "''25''" m1 m2 zonedTimeToUtc datePart timezone]
      d13(2) assms(3,4) p(2)
    by simp
  finally have c2: "validateScheduleTime zonedTimeToUtc addDays now
           (datePart @ '' '' @ ''25'' @ '':'' @ [m1, m2]) timezone =
           Inl (Error ''Invalid date/time format: Invalid time format'' None)"
    using validate_format_error by fastforce
  have "validateScheduleTime_date zonedTimeToUtc
          (datePart @ '' '' @ hs @ '':'' @ [CHR ''6'', CHR ''0''] @ sp @ mer) timezone =
        validateScheduleTime_time zonedTimeToUtc datePart
          (hs @ CHR '':'' # CHR ''6'' # CHR ''0'' # toUpperCase mer) timezone"
    using d assms(5) d13(3,4) u assms(8) by (rule date_of_marker_input)
  also have "\<dots> = Inl (Error ''Invalid time format'' None)"
    using time_stage_marker[of hs "CHR ''6''" "CHR ''0''" "toUpperCase mer" zonedTimeToUtc
        datePart timezone] assms(5,6) d13(3,4) u p(3)
    by simp
  finally have c3: "validateScheduleTime zonedTimeToUtc addDays now
           (datePart @ '' '' @ hs @ '':'' @ ''60'' @ sp @ mer) timezone =
           Inl (Error ''Invalid date/time format: Invalid time format'' None)"
    using validate_format_error by fastforce
  have "validateScheduleTime_date zonedTimeToUtc
          (datePart @ '' '' @ hs @ '':'' @ [CHR ''6'', CHR ''0'']) timezone =
        validateScheduleTime_time zonedTimeToUtc datePart
          (hs @ [CHR '':'', CHR ''6'', CHR ''0'']) timezone"
    using d assms(5) d13(3,4) by (rule date_of_plain_input)
  also have "\<dots> = Inl (Error ''Invalid time format'' None)"
    using time_stage_plain[of hs "CHR ''6''" "CHR ''0''" zonedTimeToUtc datePart timezone]
      assms(5,6) d13(3,4) p(3)
    by simp
  finally have c4: "validateScheduleTime zonedTimeToUtc addDays now
           (datePart @ '' '' @ hs @ '':'' @ ''60'') timezone =
           Inl (Error ''Invalid date/time format: Invalid time format'' None)"
    using validate_format_error by fastforce
  have c5: "validateScheduleTime zonedTimeToUtc addDays now datePart timezone =
           Inl (Error ''Invalid date/time format: Date and time must be provided'' None)"
    using date_one_token[OF d] validate_format_error by fastforce
  have c6: "\<forall>dateStr e. validateScheduleTime zonedTimeToUtc addDays now dateStr timezone = Inl e \<longrightarrow>
            (\<exists>r. validateScheduleTime_try zonedTimeToUtc addDays now dateStr timezone = Inl r \<and>
                 e = Error (''Invalid date/time format: '' @ message r) None)"
    by (auto simp: validateScheduleTime_def split: sum.splits)
  show ?thesis using c1 c2 c3 c4 c5 c6 by blast
qed

text \<open>
  The inputs of the tests: \<open>13:00PM\<close>, \<open>25:00\<close>, \<open>12:60\<close> with and without a
  marker, and the bare date.
\<close>

theorem C3_format_errors_witness:
  "validateScheduleTime sample_zonedTimeToUtc sample_addDays sample_now ''2024-01-02 13:00PM'' ''UTC'' =
     Inl (Error ''Invalid date/time format: Invalid time format'' None) \<and>
   validateScheduleTime sample_zonedTimeToUtc sample_addDays sample_now ''2024-01-02 25:00'' ''UTC'' =
     Inl (Error ''Invalid date/time format: Invalid time format'' None) \<and>
   validateScheduleTime sample_zonedTimeToUtc sample_addDays sample_now ''2024-01-02 12:60PM'' ''UTC'' =
     Inl (Error ''Invalid date/time format: Invalid time format'' None) \<and>
   validateScheduleTime sample_zonedTimeToUtc sample_addDays sample_now ''2024-01-02 12:60'' ''UTC'' =
     Inl (Error ''Invalid date/time format: Invalid time format'' None) \<and>
   validateScheduleTime sample_zonedTimeToUtc sample_addDays sample_now ''2024-01-02'' ''UTC'' =
     Inl (Error ''Invalid date/time format: Date and time must be provided'' None)"
proof -
  have "''2024-01-02'' \<noteq> []" "noSpace ''2024-01-02''"
    "isDigit (CHR ''0'')" "list_all isDigit ''12''" "length ''12'' = 1 \<or> length ''12'' = 2"
    "toUpperCase ''PM'' = ''AM'' \<or> toUpperCase ''PM'' = ''PM''"
    "([]::string) = [] \<or> [] = '' ''"
    by code_simp+
  from C3_format_errors[OF this(1,2,3,3,4,5,6,7), where zonedTimeToUtc = sample_zonedTimeToUtc
      and addDays = sample_addDays and now = sample_now and timezone = "''UTC''"]
  show ?thesis by simp
qed

text \<open>
  C8. The command pattern lists the markers \<open>AM\<close>, \<open>PM\<close>, \<open>am\<close> and \<open>pm\<close>
  and has no flag \<open>i\<close>: for the comment \<open>@merge-at 2024-01-02 2:30Pm\<close> it matches, but
  the marker is left out of the date and time text and taken as the zone name, so the
  parser is called with \<open>2024-01-02 2:30\<close> and the zone \<open>Pm\<close>, where the upper-case
  form gives \<open>2024-01-02 2:30PM\<close> and no zone. The parser itself reads the marker in
  any letter case: on the same text it treats \<open>Pm\<close> as it treats \<open>PM\<close>.
\<close>

theorem C8_mixed_case_marker_taken_as_zone:
  "COMMAND_REGEX_exec ''@merge-at 2024-01-02 2:30Pm'' = Some (''2024-01-02 2:30'', Some ''Pm'') \<and>
   COMMAND_REGEX_exec ''@merge-at 2024-01-02 2:30PM'' = Some (''2024-01-02 2:30PM'', None) \<and>
   validateScheduleTime zonedTimeToUtc addDays now ''2024-01-02 2:30Pm'' timezone =
   validateScheduleTime zonedTimeToUtc addDays now ''2024-01-02 2:30PM'' timezone"
proof -
  have a: "COMMAND_REGEX_exec ''@merge-at 2024-01-02 2:30Pm'' =
           Some (''2024-01-02 2:30'', Some ''Pm'')"
    by code_simp
  have b: "COMMAND_REGEX_exec ''@merge-at 2024-01-02 2:30PM'' = Some (''2024-01-02 2:30PM'', None)"
    by code_simp
  have t: "is_token ''2024-01-02''" "list_all isDigit ''2''" "isDigit (CHR ''3'')" "isDigit (CHR ''0'')"
    "toUpperCase ''Pm'' = ''AM'' \<or> toUpperCase ''Pm'' = ''PM''"
    "toUpperCase ''PM'' = ''AM'' \<or> toUpperCase ''PM'' = ''PM''" "([]::string) = [] \<or> [] = '' ''"
    by code_simp+
  have "validateScheduleTime_date zonedTimeToUtc ''2024-01-02 2:30Pm'' timezone =
        validateScheduleTime_date zonedTimeToUtc ''2024-01-02 2:30PM'' timezone"
    using date_of_marker_input[OF t(1,2,3,4,5,7), of zonedTimeToUtc timezone]
      date_of_marker_input[OF t(1,2,3,4,6,7), of zonedTimeToUtc timezone]
    by (simp add: toUpperCase_def toUpperChar_def)
  then have "validateScheduleTime zonedTimeToUtc addDays now ''2024-01-02 2:30Pm'' timezone =
             validateScheduleTime zonedTimeToUtc addDays now ''2024-01-02 2:30PM'' timezone"
    by (rule validate_from_date)
  with a b show ?thesis by simp
qed


section \<open>The effects of the code: proofs\<close>

subsection \<open>Running async code\<close>

lemma ret_apply: "ret x s = (Inr x, s)" by (simp add: ret_def)
lemma throw_apply: "throw e s = (Inl e, s)" by (simp add: throw_def)

lemma await_Inr: "m s = (Inr x, s') \<Longrightarrow> await m f s = f x s'" by (simp add: await_def)
lemma await_Inl: "m s = (Inl e, s') \<Longrightarrow> await m f s = (Inl e, s')" by (simp add: await_def)
lemma try_Inr: "m s = (Inr x, s') \<Longrightarrow> try_catch m h s = (Inr x, s')" by (simp add: try_catch_def)
lemma try_Inl: "m s = (Inl e, s') \<Longrightarrow> try_catch m h s = h e s'" by (simp add: try_catch_def)
lemma try_rethrow: "try_catch m (\<lambda>error. throw error) = m"
  by (rule ext) (auto simp: try_catch_def throw_def split: prod.splits sum.splits)

lemma request_apply:
  "endpoint w = (r, w') \<Longrightarrow> request rq endpoint (w, tr) = (r, (w', tr @ [rq]))"
  by (simp add: request_def)

lemma createComment_apply:
  "issues_createComment octokit owner repo n t w = (r, w') \<Longrightarrow>
   createComment octokit owner repo n t (w, tr) = (r, (w', tr @ [CreateComment owner repo n t]))"
  by (simp add: createComment_def try_rethrow request_apply)

subsection \<open>Which requests a run adds to the record\<close>

lemma adds_ret: "adds P [] (ret x)" by (simp add: adds_def ret_def)
lemma adds_throw: "adds P [] (throw e)" by (simp add: adds_def throw_def)
lemma adds_request: "adds P (if P rq then [rq] else []) (request rq f)"
  by (auto simp: adds_def request_def split: prod.splits)
lemma adds_request_no: "\<not> P rq \<Longrightarrow> adds P [] (request rq f)"
  using adds_request[of P rq f] by simp
lemma adds_request_yes: "P rq \<Longrightarrow> adds P [rq] (request rq f)"
  using adds_request[of P rq f] by simp

lemma addsD: "adds P xs m \<Longrightarrow> filter P (snd (snd (m s))) = filter P (snd s) @ xs"
  unfolding adds_def by blast

lemma adds_await:
  assumes "adds P xs m" "\<And>v. adds P [] (f v)"
  shows "adds P xs (await m f)"
  unfolding adds_def
proof
  fix s
  obtain r s' where ms: "m s = (r, s')" by (cases "m s")
  have 1: "filter P (snd s') = filter P (snd s) @ xs" using addsD[OF assms(1), of s] ms by simp
  show "filter P (snd (snd (await m f s))) = filter P (snd s) @ xs"
  proof (cases r)
    case (Inl e)
    then show ?thesis using ms 1 by (simp add: await_def)
  next
    case (Inr v)
    have "filter P (snd (snd (f v s'))) = filter P (snd s')" using addsD[OF assms(2), of v s'] by simp
    then show ?thesis using ms 1 Inr by (simp add: await_def)
  qed
qed

lemma adds_try:
  assumes "adds P xs m" "\<And>e. adds P [] (h e)"
  shows "adds P xs (try_catch m h)"
  unfolding adds_def
proof
  fix s
  obtain r s' where ms: "m s = (r, s')" by (cases "m s")
  have 1: "filter P (snd s') = filter P (snd s) @ xs" using addsD[OF assms(1), of s] ms by simp
  show "filter P (snd (snd (try_catch m h s))) = filter P (snd s) @ xs"
  proof (cases r)
    case (Inr v)
    then show ?thesis using ms 1 by (simp add: try_catch_def)
  next
    case (Inl e)
    have "filter P (snd (snd (h e s'))) = filter P (snd s')" using addsD[OF assms(2), of e s'] by simp
    then show ?thesis using ms 1 Inl by (simp add: try_catch_def)
  qed
qed

lemma adds_if: "adds P xs a \<Longrightarrow> adds P xs b \<Longrightarrow> adds P xs (if c then a else b)" by simp
lemma adds_let: "adds P xs (f v) \<Longrightarrow> adds P xs (let x = v in f x)" by simp

lemma adds_createComment: "\<not> P (CreateComment owner repo n t) \<Longrightarrow> adds P [] (createComment octokit owner repo n t)"
  by (simp add: createComment_def try_rethrow adds_request_no)

lemma adds_removeScheduleInfo_loop:
  "(\<And>i. \<not> P (DeleteComment owner repo i)) \<Longrightarrow> adds P [] (removeScheduleInfo_loop octokit owner repo cs)"
  by (induction cs) (auto intro!: adds_ret adds_await adds_request_no)

lemma adds_removeScheduleInfo:
  assumes "\<And>i. \<not> P (DeleteComment owner repo i)" "\<not> P (RemoveLabel owner repo n SCHEDULE_LABEL)"
     "\<not> P (ListComments owner repo n 100)"
  shows "adds P [] (removeScheduleInfo octokit owner repo n)"
  unfolding removeScheduleInfo_def try_rethrow Let_def
  by (intro adds_await adds_try adds_request_no adds_removeScheduleInfo_loop adds_if adds_throw adds_ret assms)

lemma adds_fetch_mergePR: "adds is_fetch [PullsGet owner repo n] (mergePR octokit owner repo n)"
  unfolding mergePR_def Let_def
  by (intro adds_try adds_await adds_request_yes adds_if adds_throw adds_ret adds_createComment adds_removeScheduleInfo adds_request_no) simp_all

lemma adds_seq:
  assumes "adds P xs m" "\<And>s. \<exists>v. fst (m s) = Inr v" "\<And>v. adds P ys (f v)"
  shows "adds P (xs @ ys) (await m f)"
  unfolding adds_def
proof
  fix s
  obtain v s' where ms: "m s = (Inr v, s')" using assms(2)[of s] by (cases "m s") auto
  have 1: "filter P (snd s') = filter P (snd s) @ xs" using addsD[OF assms(1), of s] ms by simp
  have "filter P (snd (snd (f v s'))) = filter P (snd s') @ ys" using addsD[OF assms(3), of v s'] by simp
  then show "filter P (snd (snd (await m f s))) = filter P (snd s) @ xs @ ys"
    using ms 1 by (simp add: await_def)
qed

lemma swallow_returns: "fst (try_catch m (\<lambda>e. ret ()) s) = Inr ()"
  by (cases "m s") (auto simp: try_catch_def ret_def split: sum.splits)

lemma swallow_state: "snd (try_catch m (\<lambda>e. ret ()) s) = snd (m s)"
  by (cases "m s") (auto simp: try_catch_def ret_def split: sum.splits)

lemma swallow_apply: "try_catch m (\<lambda>e. ret ()) s = (Inr (), snd (m s))"
  using swallow_returns[of m s] swallow_state[of m s] by (metis prod.collapse)

lemma loop_due:
  "pr_scheduleTime pr \<le> now \<Longrightarrow>
   processScheduledMerges_loop octokit now (pr # prs) s =
   processScheduledMerges_loop octokit now prs
     (snd (mergePR octokit (pr_owner pr) (pr_repo pr) (pr_number pr) s))"
  by (simp add: swallow_apply await_def)

lemma loop_future:
  "now < pr_scheduleTime pr \<Longrightarrow>
   processScheduledMerges_loop octokit now (pr # prs) s =
   processScheduledMerges_loop octokit now prs s"
  by (simp add: swallow_apply await_def ret_def)

lemma loop_returns: "fst (processScheduledMerges_loop octokit now prs s) = Inr ()"
proof (induction prs arbitrary: s)
  case Nil
  then show ?case by (simp add: ret_def)
next
  case (Cons pr prs)
  then show ?case
    by (cases "pr_scheduleTime pr \<le> now")
       (simp_all add: loop_due loop_future del: processScheduledMerges_loop.simps)
qed

lemma adds_loop_body:
  "adds is_fetch (if pr_scheduleTime pr \<le> now then [attempt_of pr] else [])
     (try_catch
        (let scheduleTime = pr_scheduleTime pr in
         if scheduleTime \<le> now then
           try_catch (mergePR octokit (pr_owner pr) (pr_repo pr) (pr_number pr))
             (\<lambda>mergeError. ret ())
         else ret ())
        (\<lambda>prError. ret ()))"
  by (auto simp: attempt_of_def intro!: adds_try adds_ret adds_fetch_mergePR)

lemma loop_attempts:
  "adds is_fetch (map attempt_of (filter (\<lambda>pr. pr_scheduleTime pr \<le> now) prs))
     (processScheduledMerges_loop octokit now prs)"
proof (induction prs)
  case Nil
  then show ?case by (simp add: adds_ret)
next
  case (Cons pr prs)
  have "adds is_fetch ((if pr_scheduleTime pr \<le> now then [attempt_of pr] else []) @
                       map attempt_of (filter (\<lambda>pr. pr_scheduleTime pr \<le> now) prs))
          (processScheduledMerges_loop octokit now (pr # prs))"
    unfolding processScheduledMerges_loop.simps
  proof (rule adds_seq)
    show "adds is_fetch (if pr_scheduleTime pr \<le> now then [attempt_of pr] else [])
     (try_catch
        (let scheduleTime = pr_scheduleTime pr in
         if scheduleTime \<le> now then
           try_catch (mergePR octokit (pr_owner pr) (pr_repo pr) (pr_number pr))
             (\<lambda>mergeError. ret ())
         else ret ())
        (\<lambda>prError. ret ()))" by (rule adds_loop_body)
  next
    fix s :: "'a \<times> request list"
    show "\<exists>v. fst (try_catch
        (let scheduleTime = pr_scheduleTime pr in
         if scheduleTime \<le> now then
           try_catch (mergePR octokit (pr_owner pr) (pr_repo pr) (pr_number pr))
             (\<lambda>mergeError. ret ())
         else ret ())
        (\<lambda>prError. ret ()) s) = Inr v"
      using swallow_returns by blast
  next
    fix v :: unit
    show "adds is_fetch (map attempt_of (filter (\<lambda>pr. pr_scheduleTime pr \<le> now) prs))
            (processScheduledMerges_loop octokit now prs)" by (rule Cons.IH)
  qed
  then show ?case
    by (cases "pr_scheduleTime pr \<le> now") (simp_all del: processScheduledMerges_loop.simps)
qed

lemma adds_getScheduledPRs_item: "adds is_fetch [] (getScheduledPRs_item L octokit it acc)"
  unfolding getScheduledPRs_item_def Let_def
  by (intro adds_try adds_ret)
     (auto intro!: adds_ret adds_await adds_request_no split: option.splits sum.splits)

lemma adds_getScheduledPRs_loop: "adds is_fetch [] (getScheduledPRs_loop L octokit items acc)"
  by (induction items arbitrary: acc) (auto intro!: adds_ret adds_await adds_getScheduledPRs_item)

lemma adds_getScheduledPRs: "adds is_fetch [] (getScheduledPRs L octokit)"
  unfolding getScheduledPRs_def Let_def try_rethrow
  by (intro adds_await adds_request_no adds_getScheduledPRs_loop) simp

lemma sweep_unfold:
  "getOctokit token = Inr octokit \<Longrightarrow>
   processScheduledMerges L getOctokit now token s =
     (case getScheduledPRs L octokit s of
        (Inl e, s') \<Rightarrow> (Inl e, s')
      | (Inr prs, s') \<Rightarrow> processScheduledMerges_loop octokit now prs s')"
  by (simp add: processScheduledMerges_def try_rethrow await_def)

lemma sweep_no_client:
  "getOctokit token = Inl e \<Longrightarrow> processScheduledMerges L getOctokit now token s = (Inl e, s)"
  by (simp add: processScheduledMerges_def try_rethrow throw_def)

subsection \<open>The merge attempt\<close>

lemma includes_str_prefix: "prefix sub s \<Longrightarrow> includes_str s sub"
  by (cases s) auto

lemma errorMessage_includes: "includes_str (mergePR_errorMessage e) ''Failed to merge PR''"
  by (rule includes_str_prefix) (simp add: mergePR_errorMessage_def)

lemma fetch_messages_exclude:
  "\<not> includes_str ''PR is not mergeable. There might be conflicts.'' ''Failed to merge PR''"
  "\<not> includes_str ''PR not found or you may not have permission to merge.'' ''Failed to merge PR''"
  by code_simp+

text \<open>
  C10. When the fetch of \<open>mergePR\<close> returns a pull request that is not mergeable, or
  fails with status 404, and the host accepts the comments, the same
  \<open>Failed to merge PR\<close> comment is created twice: once where the failure is detected
  and once in the outer handler, since the message of the error thrown does not contain
  \<open>Failed to merge PR\<close>. When the merge operation itself fails, the classified comment
  is created once. In each case \<open>mergePR\<close> throws, and the record of requests is
  exactly the one shown.
\<close>

theorem C10_fetch_failure_posted_twice:
  "(pulls_get octokit owner repo n w = (Inr False, w1) \<and>
    issues_createComment octokit owner repo n
      (cross_mark @ '' Failed to merge PR: PR is not mergeable. There might be conflicts.'') w1 = (Inr (), w2) \<and>
    issues_createComment octokit owner repo n
      (cross_mark @ '' Failed to merge PR: PR is not mergeable. There might be conflicts.'') w2 = (Inr (), w3) \<longrightarrow>
    mergePR octokit owner repo n (w, tr) =
      (Inl (Error ''PR is not mergeable. There might be conflicts.'' None),
       (w3, tr @ [PullsGet owner repo n,
                  CreateComment owner repo n
                    (cross_mark @ '' Failed to merge PR: PR is not mergeable. There might be conflicts.''),
                  CreateComment owner repo n
                    (cross_mark @ '' Failed to merge PR: PR is not mergeable. There might be conflicts.'')]))) \<and>
   (pulls_get octokit owner repo n w = (Inl e, w1) \<and> status e = Some 404 \<and>
    issues_createComment octokit owner repo n
      (cross_mark @ '' Failed to merge PR: PR not found or you may not have permission to merge.'') w1 = (Inr (), w2) \<and>
    issues_createComment octokit owner repo n
      (cross_mark @ '' Failed to merge PR: PR not found or you may not have permission to merge.'') w2 = (Inr (), w3) \<longrightarrow>
    mergePR octokit owner repo n (w, tr) =
      (Inl (Error ''PR not found or you may not have permission to merge.'' None),
       (w3, tr @ [PullsGet owner repo n,
                  CreateComment owner repo n
                    (cross_mark @ '' Failed to merge PR: PR not found or you may not have permission to merge.''),
                  CreateComment owner repo n
                    (cross_mark @ '' Failed to merge PR: PR not found or you may not have permission to merge.'')]))) \<and>
   (pulls_get octokit owner repo n w = (Inr True, w1) \<and>
    pulls_merge octokit owner repo n ''squash'' w1 = (Inl e, w2) \<and>
    issues_createComment octokit owner repo n (cross_mark @ '' '' @ mergePR_errorMessage e) w2 = (Inr (), w3) \<longrightarrow>
    mergePR octokit owner repo n (w, tr) =
      (Inl (Error (mergePR_errorMessage e) None),
       (w3, tr @ [PullsGet owner repo n, PullsMerge owner repo n ''squash'',
                  CreateComment owner repo n (cross_mark @ '' '' @ mergePR_errorMessage e)])))"
proof (intro conjI impI)
  assume a: "pulls_get octokit owner repo n w = (Inr False, w1) \<and>
    issues_createComment octokit owner repo n
      (cross_mark @ '' Failed to merge PR: PR is not mergeable. There might be conflicts.'') w1 = (Inr (), w2) \<and>
    issues_createComment octokit owner repo n
      (cross_mark @ '' Failed to merge PR: PR is not mergeable. There might be conflicts.'') w2 = (Inr (), w3)"
  then show "mergePR octokit owner repo n (w, tr) =
      (Inl (Error ''PR is not mergeable. There might be conflicts.'' None),
       (w3, tr @ [PullsGet owner repo n,
                  CreateComment owner repo n
                    (cross_mark @ '' Failed to merge PR: PR is not mergeable. There might be conflicts.''),
                  CreateComment owner repo n
                    (cross_mark @ '' Failed to merge PR: PR is not mergeable. There might be conflicts.'')]))"
    by (simp add: mergePR_def await_def try_catch_def request_def createComment_def throw_def ret_def
          fetch_messages_exclude)
next
  assume a: "pulls_get octokit owner repo n w = (Inl e, w1) \<and> status e = Some 404 \<and>
    issues_createComment octokit owner repo n
      (cross_mark @ '' Failed to merge PR: PR not found or you may not have permission to merge.'') w1 = (Inr (), w2) \<and>
    issues_createComment octokit owner repo n
      (cross_mark @ '' Failed to merge PR: PR not found or you may not have permission to merge.'') w2 = (Inr (), w3)"
  then show "mergePR octokit owner repo n (w, tr) =
      (Inl (Error ''PR not found or you may not have permission to merge.'' None),
       (w3, tr @ [PullsGet owner repo n,
                  CreateComment owner repo n
                    (cross_mark @ '' Failed to merge PR: PR not found or you may not have permission to merge.''),
                  CreateComment owner repo n
                    (cross_mark @ '' Failed to merge PR: PR not found or you may not have permission to merge.'')]))"
    by (simp add: mergePR_def await_def try_catch_def request_def createComment_def throw_def ret_def
          fetch_messages_exclude)
next
  assume a: "pulls_get octokit owner repo n w = (Inr True, w1) \<and>
    pulls_merge octokit owner repo n ''squash'' w1 = (Inl e, w2) \<and>
    issues_createComment octokit owner repo n (cross_mark @ '' '' @ mergePR_errorMessage e) w2 = (Inr (), w3)"
  then show "mergePR octokit owner repo n (w, tr) =
      (Inl (Error (mergePR_errorMessage e) None),
       (w3, tr @ [PullsGet owner repo n, PullsMerge owner repo n ''squash'',
                  CreateComment owner repo n (cross_mark @ '' '' @ mergePR_errorMessage e)]))"
    by (simp add: mergePR_def await_def try_catch_def request_def createComment_def throw_def ret_def
          errorMessage_includes Let_def)
qed

text \<open>
  The three cases on a host that answers the fetch and the merge as given and keeps
  the comments it is sent.
\<close>

theorem C10_fetch_failure_posted_twice_witness:
  "mergePR (host_merge (Inr False) (Inr ())) ''o'' ''r'' 7 ([], []) =
     (Inl (Error ''PR is not mergeable. There might be conflicts.'' None),
      ([cross_mark @ '' Failed to merge PR: PR is not mergeable. There might be conflicts.'',
        cross_mark @ '' Failed to merge PR: PR is not mergeable. There might be conflicts.''],
       [PullsGet ''o'' ''r'' 7,
        CreateComment ''o'' ''r'' 7
          (cross_mark @ '' Failed to merge PR: PR is not mergeable. There might be conflicts.''),
        CreateComment ''o'' ''r'' 7
          (cross_mark @ '' Failed to merge PR: PR is not mergeable. There might be conflicts.'')])) \<and>
   mergePR (host_merge (Inl not_found) (Inr ())) ''o'' ''r'' 7 ([], []) =
     (Inl (Error ''PR not found or you may not have permission to merge.'' None),
      ([cross_mark @ '' Failed to merge PR: PR not found or you may not have permission to merge.'',
        cross_mark @ '' Failed to merge PR: PR not found or you may not have permission to merge.''],
       [PullsGet ''o'' ''r'' 7,
        CreateComment ''o'' ''r'' 7
          (cross_mark @ '' Failed to merge PR: PR not found or you may not have permission to merge.''),
        CreateComment ''o'' ''r'' 7
          (cross_mark @ '' Failed to merge PR: PR not found or you may not have permission to merge.'')])) \<and>
   mergePR (host_merge (Inr True) (Inl (Error ''Merge conflict'' None))) ''o'' ''r'' 7 ([], []) =
     (Inl (Error ''Failed to merge PR: Merge conflict'' None),
      ([cross_mark @ '' Failed to merge PR: Merge conflict''],
       [PullsGet ''o'' ''r'' 7, PullsMerge ''o'' ''r'' 7 ''squash'',
        CreateComment ''o'' ''r'' 7 (cross_mark @ '' Failed to merge PR: Merge conflict'')]))"
  using
    C10_fetch_failure_posted_twice[where octokit = "host_merge (Inr False) (Inr ())"
      and owner = "''o''" and repo = "''r''" and n = 7 and w = "[]" and tr = "[]"
      and ?w1.0 = "[]"
      and ?w2.0 = "[cross_mark @ '' Failed to merge PR: PR is not mergeable. There might be conflicts.'']"
      and ?w3.0 = "[cross_mark @ '' Failed to merge PR: PR is not mergeable. There might be conflicts.'',
                  cross_mark @ '' Failed to merge PR: PR is not mergeable. There might be conflicts.'']"]
    C10_fetch_failure_posted_twice[where octokit = "host_merge (Inl not_found) (Inr ())"
      and owner = "''o''" and repo = "''r''" and n = 7 and w = "[]" and tr = "[]"
      and e = not_found and ?w1.0 = "[]"
      and ?w2.0 = "[cross_mark @ '' Failed to merge PR: PR not found or you may not have permission to merge.'']"
      and ?w3.0 = "[cross_mark @ '' Failed to merge PR: PR not found or you may not have permission to merge.'',
                  cross_mark @ '' Failed to merge PR: PR not found or you may not have permission to merge.'']"]
    C10_fetch_failure_posted_twice[where octokit = "host_merge (Inr True) (Inl (Error ''Merge conflict'' None))"
      and owner = "''o''" and repo = "''r''" and n = 7 and w = "[]" and tr = "[]"
      and e = "Error ''Merge conflict'' None" and ?w1.0 = "[]" and ?w2.0 = "[]"
      and ?w3.0 = "[cross_mark @ '' Failed to merge PR: Merge conflict'']"]
  by (simp add: host_merge_def not_found_def mergePR_errorMessage_def)

subsection \<open>The sweep\<close>

lemma sweep_attempts:
  assumes "getOctokit token = Inr octokit" "getScheduledPRs L octokit s = (Inr prs, s1)"
  shows "filter is_fetch (snd (snd (processScheduledMerges L getOctokit now token s))) =
           filter is_fetch (snd s) @ map attempt_of (filter (\<lambda>pr. pr_scheduleTime pr \<le> now) prs)"
proof -
  have g: "filter is_fetch (snd s1) = filter is_fetch (snd s)"
    using addsD[OF adds_getScheduledPRs, of L octokit s] assms(2) by simp
  have "filter is_fetch (snd (snd (processScheduledMerges_loop octokit now prs s1))) =
        filter is_fetch (snd s1) @ map attempt_of (filter (\<lambda>pr. pr_scheduleTime pr \<le> now) prs)"
    by (rule addsD[OF loop_attempts])
  then show ?thesis using assms g by (simp add: sweep_unfold)
qed

lemma sweep_returns:
  assumes "getOctokit token = Inr octokit" "getScheduledPRs L octokit s = (Inr prs, s1)"
  shows "fst (processScheduledMerges L getOctokit now token s) = Inr ()"
  using assms loop_returns[of octokit now prs s1] by (simp add: sweep_unfold)

lemma sweep_throws_iff:
  "fst (processScheduledMerges L getOctokit now token s) = Inl e \<longleftrightarrow>
     getOctokit token = Inl e \<or>
     (\<exists>octokit. getOctokit token = Inr octokit \<and> fst (getScheduledPRs L octokit s) = Inl e)"
proof (cases "getOctokit token")
  case (Inl e')
  then show ?thesis by (simp add: sweep_no_client)
next
  case (Inr octokit)
  obtain r s' where p: "getScheduledPRs L octokit s = (r, s')"
    by (cases "getScheduledPRs L octokit s")
  show ?thesis
  proof (cases r)
    case (Inl e')
    then show ?thesis using p Inr by (simp add: sweep_unfold)
  next
    case (Inr prs')
    then show ?thesis
      using p \<open>getOctokit token = Inr octokit\<close> loop_returns[of octokit now prs' s']
      by (simp add: sweep_unfold)
  qed
qed

text \<open>
  C4. When the client is created and the listing of a sweep returns the candidates
  \<open>prs\<close>, the merge attempts of the sweep are, in order, those of the candidates whose
  \<open>scheduleTime\<close> is at most \<open>now\<close>: a candidate is attempted if and only if it is
  due, one scheduled for exactly \<open>now\<close> included. A candidate in the future is
  skipped: the loop goes on from the same state of the host and the same record of
  requests. With a candidate an hour in the past and one an hour in the future there is
  exactly one attempt, for the past one.
\<close>

theorem C4_merge_attempted_iff_due:
  assumes "getOctokit token = Inr octokit"
      and "getScheduledPRs L octokit s = (Inr prs, s1)"
  shows "filter is_fetch (snd (snd (processScheduledMerges L getOctokit now token s))) =
           filter is_fetch (snd s) @ map attempt_of (filter (\<lambda>pr. pr_scheduleTime pr \<le> now) prs) \<and>
         (\<forall>pr rest s'. now < pr_scheduleTime pr \<longrightarrow>
            processScheduledMerges_loop octokit now (pr # rest) s' =
            processScheduledMerges_loop octokit now rest s') \<and>
         (\<forall>past future. prs = [past, future] \<and> pr_scheduleTime past = now - 3600000 \<and>
            pr_scheduleTime future = now + 3600000 \<longrightarrow>
            filter is_fetch (snd (snd (processScheduledMerges L getOctokit now token s))) =
              filter is_fetch (snd s) @ [attempt_of past])"
proof -
  have a: "filter is_fetch (snd (snd (processScheduledMerges L getOctokit now token s))) =
           filter is_fetch (snd s) @ map attempt_of (filter (\<lambda>pr. pr_scheduleTime pr \<le> now) prs)"
    using assms by (rule sweep_attempts)
  have b: "\<forall>pr rest s'. now < pr_scheduleTime pr \<longrightarrow>
            processScheduledMerges_loop octokit now (pr # rest) s' =
            processScheduledMerges_loop octokit now rest s'"
    using loop_future by blast
  have c: "\<forall>past future. prs = [past, future] \<and> pr_scheduleTime past = now - 3600000 \<and>
            pr_scheduleTime future = now + 3600000 \<longrightarrow>
            filter is_fetch (snd (snd (processScheduledMerges L getOctokit now token s))) =
              filter is_fetch (snd s) @ [attempt_of past]"
    using a by auto
  show ?thesis using a b c by blast
qed

text \<open>
  The scenario on the reference host at the clock of the tests: pull request 7 is an hour
  past, pull request 8 an hour ahead; the only fetch and the only merge are those of 7.
\<close>

theorem C4_merge_attempted_iff_due_witness:
  "filter is_fetch (snd (snd (processScheduledMerges sample_lib (sample_getOctokit gh) sample_now
      ''ghs_token'' (sample_world, [])))) = [PullsGet ''o'' ''r'' 7] \<and>
   filter is_merge (snd (snd (processScheduledMerges sample_lib (sample_getOctokit gh) sample_now
      ''ghs_token'' (sample_world, [])))) = [PullsMerge ''o'' ''r'' 7 ''squash'']"
proof -
  have t: "sample_getOctokit gh ''ghs_token'' = Inr gh"
    by (simp add: sample_getOctokit_def)
  have l: "getScheduledPRs sample_lib gh (sample_world, []) =
     (Inr [\<lparr>pr_owner = ''o'', pr_repo = ''r'', pr_number = 7, pr_scheduleTime = 1704106800000\<rparr>,
           \<lparr>pr_owner = ''o'', pr_repo = ''r'', pr_number = 8, pr_scheduleTime = 1704114000000\<rparr>],
      (sample_world, [SearchIssuesAndPullRequests ''is:pr is:open label:merge-scheduled'' 100,
         ListComments ''o'' ''r'' 7 100, ListComments ''o'' ''r'' 8 100]))"
    by code_simp
  have m: "filter is_merge (snd (snd (processScheduledMerges sample_lib (sample_getOctokit gh)
      sample_now ''ghs_token'' (sample_world, [])))) = [PullsMerge ''o'' ''r'' 7 ''squash'']"
    by code_simp
  show ?thesis
    using C4_merge_attempted_iff_due[where getOctokit = "sample_getOctokit gh" and now = sample_now,
        OF t l] m
    by (simp add: sample_now_def attempt_of_def)
qed

text \<open>
  C5, as amended. When the client is created and the listing returns the candidates
  \<open>prs\<close>, the sweep returns normally on any host, whatever the merge attempts do, and
  its merge attempts are those of all due candidates, in order: when every candidate is
  due, each one is attempted. After a due candidate the loop goes on with the next
  candidate from the state that its merge attempt left, whether the attempt returned or
  threw. The sweep throws exactly when the creation of the client throws or the listing
  \<open>getScheduledPRs\<close> throws, and then what that threw.
\<close>

theorem C5_merge_failure_does_not_stop_sweep:
  fixes getOctokit :: "string \<Rightarrow> error + 'w octokit"
  shows
  "(\<forall>octokit prs s1.
      getOctokit token = Inr octokit \<and> getScheduledPRs L octokit s = (Inr prs, s1) \<longrightarrow>
      fst (processScheduledMerges L getOctokit now token s) = Inr () \<and>
      filter is_fetch (snd (snd (processScheduledMerges L getOctokit now token s))) =
        filter is_fetch (snd s) @ map attempt_of (filter (\<lambda>pr. pr_scheduleTime pr \<le> now) prs) \<and>
      ((\<forall>pr\<in>set prs. pr_scheduleTime pr \<le> now) \<longrightarrow>
         filter is_fetch (snd (snd (processScheduledMerges L getOctokit now token s))) =
           filter is_fetch (snd s) @ map attempt_of prs)) \<and>
   (\<forall>(octokit :: 'w octokit) (pr :: scheduled) rest s'. pr_scheduleTime pr \<le> now \<longrightarrow>
      processScheduledMerges_loop octokit now (pr # rest) s' =
      processScheduledMerges_loop octokit now rest
        (snd (mergePR octokit (pr_owner pr) (pr_repo pr) (pr_number pr) s'))) \<and>
   (\<forall>e. fst (processScheduledMerges L getOctokit now token s) = Inl e \<longleftrightarrow>
      getOctokit token = Inl e \<or>
      (\<exists>octokit. getOctokit token = Inr octokit \<and> fst (getScheduledPRs L octokit s) = Inl e))"
proof (intro conjI allI impI)
  fix octokit :: "'w octokit" and prs s1
  assume h: "getOctokit token = Inr octokit \<and> getScheduledPRs L octokit s = (Inr prs, s1)"
  show "fst (processScheduledMerges L getOctokit now token s) = Inr ()"
    using h sweep_returns by blast
  show a: "filter is_fetch (snd (snd (processScheduledMerges L getOctokit now token s))) =
        filter is_fetch (snd s) @ map attempt_of (filter (\<lambda>pr. pr_scheduleTime pr \<le> now) prs)"
    using h sweep_attempts by blast
  assume "\<forall>pr\<in>set prs. pr_scheduleTime pr \<le> now"
  then have "filter (\<lambda>pr. pr_scheduleTime pr \<le> now) prs = prs" by (simp add: filter_id_conv)
  with a show "filter is_fetch (snd (snd (processScheduledMerges L getOctokit now token s))) =
           filter is_fetch (snd s) @ map attempt_of prs" by simp
next
  fix octokit :: "'w octokit" and pr :: scheduled and rest and s' :: "'w \<times> request list"
  assume "pr_scheduleTime pr \<le> now"
  then show "processScheduledMerges_loop octokit now (pr # rest) s' =
      processScheduledMerges_loop octokit now rest
        (snd (mergePR octokit (pr_owner pr) (pr_repo pr) (pr_number pr) s'))"
    by (rule loop_due)
next
  fix e
  show "fst (processScheduledMerges L getOctokit now token s) = Inl e \<longleftrightarrow>
      getOctokit token = Inl e \<or>
      (\<exists>octokit. getOctokit token = Inr octokit \<and> fst (getScheduledPRs L octokit s) = Inl e)"
    by (rule sweep_throws_iff)
qed

text \<open>
  The claim as stated fails for an empty token: the creation of the client throws
  inside the \<open>try\<close> block of the sweep, the handler throws it again, and the sweep
  throws although no request was sent and the listing on this host would have returned
  the two scheduled pull requests.
\<close>

theorem C5_counterexample_no_client:
  "processScheduledMerges sample_lib (sample_getOctokit gh) sample_now [] (sample_world, []) =
     (Inl (Error ''Parameter token or opts.auth is required'' None), (sample_world, [])) \<and>
   fst (getScheduledPRs sample_lib gh (sample_world, [])) =
     Inr [\<lparr>pr_owner = ''o'', pr_repo = ''r'', pr_number = 7, pr_scheduleTime = 1704106800000\<rparr>,
          \<lparr>pr_owner = ''o'', pr_repo = ''r'', pr_number = 8, pr_scheduleTime = 1704114000000\<rparr>]"
  by code_simp

text \<open>
  Two due candidates on the reference host, the first not mergeable: its attempt throws,
  the second candidate is still attempted and merged, and the sweep returns. On a host
  that fails every request the sweep throws what the search threw.
\<close>

theorem C5_merge_failure_does_not_stop_sweep_witness:
  "fst (mergePR gh ''o'' ''r'' 7 (due_world, [])) =
     Inl (Error ''PR is not mergeable. There might be conflicts.'' None) \<and>
   fst (processScheduledMerges sample_lib (sample_getOctokit gh) sample_now ''ghs_token''
          (due_world, [])) = Inr () \<and>
   filter is_fetch (snd (snd (processScheduledMerges sample_lib (sample_getOctokit gh) sample_now
       ''ghs_token'' (due_world, [])))) = [PullsGet ''o'' ''r'' 7, PullsGet ''o'' ''r'' 9] \<and>
   filter is_merge (snd (snd (processScheduledMerges sample_lib (sample_getOctokit gh) sample_now
       ''ghs_token'' (due_world, [])))) = [PullsMerge ''o'' ''r'' 9 ''squash''] \<and>
   fst (processScheduledMerges sample_lib (sample_getOctokit host_down) sample_now ''ghs_token''
          ((), [])) = Inl unavailable"
proof -
  have t: "sample_getOctokit gh ''ghs_token'' = Inr gh"
    "sample_getOctokit host_down ''ghs_token'' = Inr host_down"
    by (simp_all add: sample_getOctokit_def)
  have l: "getScheduledPRs sample_lib gh (due_world, []) =
     (Inr [\<lparr>pr_owner = ''o'', pr_repo = ''r'', pr_number = 7, pr_scheduleTime = 1704106800000\<rparr>,
           \<lparr>pr_owner = ''o'', pr_repo = ''r'', pr_number = 9, pr_scheduleTime = 1704110400000\<rparr>],
      (due_world, [SearchIssuesAndPullRequests ''is:pr is:open label:merge-scheduled'' 100,
         ListComments ''o'' ''r'' 7 100, ListComments ''o'' ''r'' 9 100]))"
    by code_simp
  have m: "fst (mergePR gh ''o'' ''r'' 7 (due_world, [])) =
     Inl (Error ''PR is not mergeable. There might be conflicts.'' None)"
    by code_simp
  have g: "fst (getScheduledPRs sample_lib host_down ((), [])) = Inl unavailable"
    by code_simp
  have f: "filter is_merge (snd (snd (processScheduledMerges sample_lib (sample_getOctokit gh)
       sample_now ''ghs_token'' (due_world, [])))) = [PullsMerge ''o'' ''r'' 9 ''squash'']"
    by code_simp
  note on_gh = C5_merge_failure_does_not_stop_sweep[of "sample_getOctokit gh" "''ghs_token''"
        sample_lib "(due_world, [])" sample_now]
  note on_down = C5_merge_failure_does_not_stop_sweep[of "sample_getOctokit host_down"
        "''ghs_token''" sample_lib "((), [])" sample_now]
  have a: "fst (processScheduledMerges sample_lib (sample_getOctokit gh) sample_now ''ghs_token''
          (due_world, [])) = Inr () \<and>
      filter is_fetch (snd (snd (processScheduledMerges sample_lib (sample_getOctokit gh)
        sample_now ''ghs_token'' (due_world, [])))) =
      filter is_fetch (snd (due_world, [])) @ map attempt_of (filter (\<lambda>pr. pr_scheduleTime pr \<le> sample_now)
        [\<lparr>pr_owner = ''o'', pr_repo = ''r'', pr_number = 7, pr_scheduleTime = 1704106800000\<rparr>,
         \<lparr>pr_owner = ''o'', pr_repo = ''r'', pr_number = 9, pr_scheduleTime = 1704110400000\<rparr>])"
    using on_gh t(1) l by blast
  have b: "fst (processScheduledMerges sample_lib (sample_getOctokit host_down) sample_now
          ''ghs_token'' ((), [])) = Inl unavailable"
    using on_down t(2) g by blast
  show ?thesis
    using a b m f by (simp add: attempt_of_def sample_now_def)
qed


section \<open>The discovery of scheduled pull requests: proofs\<close>

lemma split_char_from_no_sep: "sep \<notin> set t \<Longrightarrow> split_char_from sep cur t = [cur @ t]"
  by (induction t arbitrary: cur) auto

lemma split_char_no_sep: "sep \<notin> set t \<Longrightarrow> split_char sep t = [t]"
  by (simp add: split_char_def split_char_from_no_sep)

lemma last_two:
  "parts = pre @ [a, b] \<Longrightarrow>
   \<not> length parts < 2 \<and> parts ! (length parts - 2) = a \<and> parts ! (length parts - 1) = b"
  by (simp add: nth_append)

lemma item_no_reference:
  "item_repository_url it = None \<Longrightarrow> getScheduledPRs_item L octokit it acc s = (Inr acc, s)"
  by (simp add: getScheduledPRs_item_def try_catch_def ret_def)

lemma item_malformed_reference:
  "item_repository_url it = Some url \<Longrightarrow> url = [] \<or> CHR ''/'' \<notin> set url \<Longrightarrow>
   getScheduledPRs_item L octokit it acc s = (Inr acc, s)"
  by (auto simp: getScheduledPRs_item_def try_catch_def ret_def split_char_no_sep)

lemma item_listed:
  assumes "item_repository_url it = Some url" "url \<noteq> []"
      and "split_char (CHR ''/'') url = pre @ [owner, repo]"
      and "issues_listComments octokit owner repo (item_number it) 100 (fst s) = (r, w')"
  shows "getScheduledPRs_item L octokit it acc s =
           (Inr (case r of
                   Inl e \<Rightarrow> acc
                 | Inr comments \<Rightarrow>
                     (case find is_marker comments of
                        None \<Rightarrow> acc
                      | Some c \<Rightarrow>
                          (case marker_match (comment_body c) of
                             None \<Rightarrow> acc
                           | Some payload \<Rightarrow>
                               (case lib_parseScheduleDate L payload of
                                  Inl e \<Rightarrow> acc
                                | Inr None \<Rightarrow> acc
                                | Inr (Some t) \<Rightarrow>
                                    acc @ [\<lparr>pr_owner = owner, pr_repo = repo,
                                            pr_number = item_number it, pr_scheduleTime = t\<rparr>])))),
            (w', snd s @ [ListComments owner repo (item_number it) 100]))"
  using assms last_two[OF assms(3)]
  by (simp add: getScheduledPRs_item_def try_catch_def ret_def await_def request_def Let_def
        split: sum.splits option.splits)

lemma try_ret_returns: "\<exists>v s'. try_catch m (\<lambda>e. ret x) s = (Inr v, s')"
  by (cases "m s") (auto simp: try_catch_def ret_def split: sum.splits)

lemma item_returns2: "\<exists>acc' s'. getScheduledPRs_item L octokit it acc s = (Inr acc', s')"
  unfolding getScheduledPRs_item_def by (rule try_ret_returns)

lemma two_last: "\<not> length (xs :: 'a list) < 2 \<Longrightarrow> \<exists>pre a b. xs = pre @ [a, b]"
proof -
  assume a: "\<not> length xs < 2"
  then obtain ys b where 1: "xs = ys @ [b]" by (cases xs rule: rev_cases) auto
  with a obtain pre c where "ys = pre @ [c]" by (cases ys rule: rev_cases) auto
  with 1 show ?thesis by auto
qed

lemma item_extends:
  assumes "getScheduledPRs_item L octokit it acc s = (Inr acc', s')"
  shows "prefix acc acc'"
proof (cases "item_repository_url it")
  case None
  then show ?thesis using assms item_no_reference[of it L octokit acc s] by simp
next
  case (Some url)
  show ?thesis
  proof (cases "url = [] \<or> length (split_char (CHR ''/'') url) < 2")
    case True
    then have "getScheduledPRs_item L octokit it acc s = (Inr acc, s)"
      using Some by (auto simp: getScheduledPRs_item_def try_catch_def ret_def Let_def)
    then show ?thesis using assms by simp
  next
    case False
    then obtain pre owner repo where p: "split_char (CHR ''/'') url = pre @ [owner, repo]"
      using two_last by blast
    obtain r w' where l: "issues_listComments octokit owner repo (item_number it) 100 (fst s) = (r, w')"
      by (cases "issues_listComments octokit owner repo (item_number it) 100 (fst s)")
    from item_listed[OF Some _ p l, of L acc] False assms
    show ?thesis by (auto split: sum.splits option.splits)
  qed
qed

lemma loop_step:
  "\<exists>acc' s'. getScheduledPRs_item L octokit it acc s = (Inr acc', s') \<and> prefix acc acc' \<and>
     getScheduledPRs_loop L octokit (it # items) acc s = getScheduledPRs_loop L octokit items acc' s'"
proof -
  obtain acc' s' where i: "getScheduledPRs_item L octokit it acc s = (Inr acc', s')"
    using item_returns2 by blast
  then show ?thesis using item_extends[OF i] by (auto simp: await_def)
qed

lemma loop_extends:
  "\<exists>res s'. getScheduledPRs_loop L octokit items acc s = (Inr res, s') \<and> prefix acc res"
proof (induction items arbitrary: acc s)
  case Nil
  then show ?case by (simp add: ret_def)
next
  case (Cons it items)
  from loop_step[of L octokit it acc s items]
  obtain acc' s' where a: "prefix acc acc'"
    "getScheduledPRs_loop L octokit (it # items) acc s = getScheduledPRs_loop L octokit items acc' s'"
    by blast
  from Cons.IH[of acc' s'] obtain res s'' where
    b: "getScheduledPRs_loop L octokit items acc' s' = (Inr res, s'')" "prefix acc' res" by blast
  show ?case using a b by (auto intro: prefix_order.trans)
qed

lemma listing_throws_iff:
  "fst (getScheduledPRs L octokit s) = Inl e \<longleftrightarrow>
   fst (search_issuesAndPullRequests octokit (''is:pr is:open label:'' @ SCHEDULE_LABEL) 100 (fst s)) = Inl e"
proof -
  obtain r w' where q: "search_issuesAndPullRequests octokit (''is:pr is:open label:'' @ SCHEDULE_LABEL) 100 (fst s) = (r, w')"
    by (cases "search_issuesAndPullRequests octokit (''is:pr is:open label:'' @ SCHEDULE_LABEL) 100 (fst s)")
  show ?thesis
  proof (cases r)
    case (Inl e')
    then show ?thesis using q
      by (simp add: getScheduledPRs_def try_rethrow Let_def await_def request_def)
  next
    case (Inr items)
    from loop_extends[of L octokit items "[]" "(w', snd s @ [SearchIssuesAndPullRequests (''is:pr is:open label:'' @ SCHEDULE_LABEL) 100])"]
    show ?thesis using q Inr
      by (auto simp: getScheduledPRs_def try_rethrow Let_def await_def request_def)
  qed
qed

lemma listing_unfold:
  "getScheduledPRs L octokit s =
     (case search_issuesAndPullRequests octokit (''is:pr is:open label:'' @ SCHEDULE_LABEL) 100
             (fst s) of
        (Inl e, w1) \<Rightarrow>
          (Inl e, (w1, snd s @ [SearchIssuesAndPullRequests
                                   (''is:pr is:open label:'' @ SCHEDULE_LABEL) 100]))
      | (Inr items, w1) \<Rightarrow>
          getScheduledPRs_loop L octokit items []
            (w1, snd s @ [SearchIssuesAndPullRequests
                            (''is:pr is:open label:'' @ SCHEDULE_LABEL) 100]))"
  by (simp add: getScheduledPRs_def try_rethrow Let_def await_def request_def
        split: prod.splits sum.splits)

lemma item_sound:
  assumes "getScheduledPRs_item L octokit it acc s = (Inr acc', s')"
  shows "acc' = acc \<or>
         (\<exists>e url pre w comments c payload.
            acc' = acc @ [e] \<and> pr_number e = item_number it \<and>
            item_repository_url it = Some url \<and>
            split_char (CHR ''/'') url = pre @ [pr_owner e, pr_repo e] \<and>
            fst (issues_listComments octokit (pr_owner e) (pr_repo e) (item_number it) 100 w) =
              Inr comments \<and>
            find is_marker comments = Some c \<and>
            marker_match (comment_body c) = Some payload \<and>
            lib_parseScheduleDate L payload = Inr (Some (pr_scheduleTime e)))"
proof (cases "item_repository_url it")
  case None
  then show ?thesis using assms item_no_reference[of it L octokit acc s] by simp
next
  case (Some url)
  show ?thesis
  proof (cases "url = [] \<or> length (split_char (CHR ''/'') url) < 2")
    case True
    then have "getScheduledPRs_item L octokit it acc s = (Inr acc, s)"
      using Some by (auto simp: getScheduledPRs_item_def try_catch_def ret_def Let_def)
    then show ?thesis using assms by simp
  next
    case False
    then obtain pre owner repo where p: "split_char (CHR ''/'') url = pre @ [owner, repo]"
      using two_last by blast
    obtain r w' where l: "issues_listComments octokit owner repo (item_number it) 100 (fst s) = (r, w')"
      by (cases "issues_listComments octokit owner repo (item_number it) 100 (fst s)")
    note run = item_listed[OF Some _ p l, of L acc]
    show ?thesis
    proof (cases "acc' = acc")
      case True
      then show ?thesis by simp
    next
      case ne: False
      from run False assms ne obtain comments c payload t where
        f: "r = Inr comments" "find is_marker comments = Some c"
           "marker_match (comment_body c) = Some payload"
           "lib_parseScheduleDate L payload = Inr (Some t)"
           "acc' = acc @ [\<lparr>pr_owner = owner, pr_repo = repo, pr_number = item_number it,
                            pr_scheduleTime = t\<rparr>]"
        by (auto split: sum.splits option.splits)
      let ?e = "\<lparr>pr_owner = owner, pr_repo = repo, pr_number = item_number it,
                  pr_scheduleTime = t\<rparr>"
      have "acc' = acc @ [?e] \<and> pr_number ?e = item_number it \<and>
            item_repository_url it = Some url \<and>
            split_char (CHR ''/'') url = pre @ [pr_owner ?e, pr_repo ?e] \<and>
            fst (issues_listComments octokit (pr_owner ?e) (pr_repo ?e) (item_number it) 100 (fst s)) =
              Inr comments \<and>
            find is_marker comments = Some c \<and>
            marker_match (comment_body c) = Some payload \<and>
            lib_parseScheduleDate L payload = Inr (Some (pr_scheduleTime ?e))"
        using f Some p l by simp
      then show ?thesis by blast
    qed
  qed
qed

lemma loop_sound:
  assumes "getScheduledPRs_loop L octokit items acc s = (Inr res, s')"
  shows "\<exists>new. res = acc @ new \<and>
           (\<forall>e\<in>set new. \<exists>it\<in>set items. \<exists>url pre w comments c payload.
              pr_number e = item_number it \<and>
              item_repository_url it = Some url \<and>
              split_char (CHR ''/'') url = pre @ [pr_owner e, pr_repo e] \<and>
              fst (issues_listComments octokit (pr_owner e) (pr_repo e) (item_number it) 100 w) =
                Inr comments \<and>
              find is_marker comments = Some c \<and>
              marker_match (comment_body c) = Some payload \<and>
              lib_parseScheduleDate L payload = Inr (Some (pr_scheduleTime e)))"
  using assms
proof (induction items arbitrary: acc s)
  case Nil
  then show ?case by (simp add: ret_def)
next
  case (Cons it items)
  obtain acc' s1 where i: "getScheduledPRs_item L octokit it acc s = (Inr acc', s1)"
    using item_returns2 by blast
  then have l: "getScheduledPRs_loop L octokit items acc' s1 = (Inr res, s')"
    using Cons.prems by (simp add: await_def)
  from Cons.IH[OF l] obtain new where n: "res = acc' @ new"
    "\<forall>e\<in>set new. \<exists>it\<in>set items. \<exists>url pre w comments c payload.
              pr_number e = item_number it \<and>
              item_repository_url it = Some url \<and>
              split_char (CHR ''/'') url = pre @ [pr_owner e, pr_repo e] \<and>
              fst (issues_listComments octokit (pr_owner e) (pr_repo e) (item_number it) 100 w) =
                Inr comments \<and>
              find is_marker comments = Some c \<and>
              marker_match (comment_body c) = Some payload \<and>
              lib_parseScheduleDate L payload = Inr (Some (pr_scheduleTime e))"
    by blast
  from item_sound[OF i] show ?case
  proof
    assume "acc' = acc"
    then show ?thesis using n by (intro exI[of _ new]) auto
  next
    assume "\<exists>e url pre w comments c payload.
            acc' = acc @ [e] \<and> pr_number e = item_number it \<and>
            item_repository_url it = Some url \<and>
            split_char (CHR ''/'') url = pre @ [pr_owner e, pr_repo e] \<and>
            fst (issues_listComments octokit (pr_owner e) (pr_repo e) (item_number it) 100 w) =
              Inr comments \<and>
            find is_marker comments = Some c \<and>
            marker_match (comment_body c) = Some payload \<and>
            lib_parseScheduleDate L payload = Inr (Some (pr_scheduleTime e))"
    then obtain e where e: "acc' = acc @ [e]"
      "\<exists>url pre w comments c payload. pr_number e = item_number it \<and>
            item_repository_url it = Some url \<and>
            split_char (CHR ''/'') url = pre @ [pr_owner e, pr_repo e] \<and>
            fst (issues_listComments octokit (pr_owner e) (pr_repo e) (item_number it) 100 w) =
              Inr comments \<and>
            find is_marker comments = Some c \<and>
            marker_match (comment_body c) = Some payload \<and>
            lib_parseScheduleDate L payload = Inr (Some (pr_scheduleTime e))"
      by blast
    show ?thesis
    proof (intro exI[of _ "e # new"] conjI ballI)
      show "res = acc @ e # new" using n(1) e(1) by simp
    next
      fix x assume "x \<in> set (e # new)"
      then consider "x = e" | "x \<in> set new" by auto
      then show "\<exists>it\<in>set (it # items). \<exists>url pre w comments c payload.
              pr_number x = item_number it \<and>
              item_repository_url it = Some url \<and>
              split_char (CHR ''/'') url = pre @ [pr_owner x, pr_repo x] \<and>
              fst (issues_listComments octokit (pr_owner x) (pr_repo x) (item_number it) 100 w) =
                Inr comments \<and>
              find is_marker comments = Some c \<and>
              marker_match (comment_body c) = Some payload \<and>
              lib_parseScheduleDate L payload = Inr (Some (pr_scheduleTime x))"
      proof cases
        case 1
        then show ?thesis using e(2) by (intro bexI[of _ it]) auto
      next
        case 2
        with n(2) obtain it' where "it' \<in> set items"
          "\<exists>url pre w comments c payload.
              pr_number x = item_number it' \<and>
              item_repository_url it' = Some url \<and>
              split_char (CHR ''/'') url = pre @ [pr_owner x, pr_repo x] \<and>
              fst (issues_listComments octokit (pr_owner x) (pr_repo x) (item_number it') 100 w) =
                Inr comments \<and>
              find is_marker comments = Some c \<and>
              marker_match (comment_body c) = Some payload \<and>
              lib_parseScheduleDate L payload = Inr (Some (pr_scheduleTime x))"
          by blast
        then show ?thesis by (intro bexI[of _ it']) auto
      qed
    qed
  qed
qed

text \<open>
  C6. \<open>getScheduledPRs\<close> sends the search and runs the loop over the items found,
  from the empty list; it throws exactly when the search throws. In the loop, a search
  result whose repository reference is missing, empty or without a slash is left out
  (the list is unchanged and no request is sent for it), and so is one with a reference
  \<open>url\<close> whose listing fails, whose listing has no marker comment, whose marker
  comment has no payload, whose payload is not JSON, or whose embedded instant is not a
  valid date (the list is unchanged after the listing request). One whose marker comment
  holds a valid instant is added at the end of the list, with the last two pieces of
  its reference as owner and repository. For any item the body of the loop returns, the
  entries found so far are kept, and the loop goes on with the remaining items; so the
  loop always returns, what was found stays in the result, and every entry of the
  result comes from an item with a reference, a listing that returned, a marker comment,
  a payload and a valid instant.
\<close>

theorem C6_discovery_skips_without_throwing:
  assumes "item_repository_url it = Some url" "url \<noteq> []"
      and "split_char (CHR ''/'') url = pre @ [owner, repo]"
      and "issues_listComments octokit owner repo (item_number it) 100 (fst s) = (r, w')"
  shows "(item_repository_url bad = None \<or>
            (\<exists>u. item_repository_url bad = Some u \<and> (u = [] \<or> CHR ''/'' \<notin> set u)) \<longrightarrow>
          getScheduledPRs_item L octokit bad acc s = (Inr acc, s)) \<and>
         ((\<exists>e. r = Inl e) \<or>
          (\<exists>comments. r = Inr comments \<and> find is_marker comments = None) \<or>
          (\<exists>comments c. r = Inr comments \<and> find is_marker comments = Some c \<and>
             (marker_match (comment_body c) = None \<or>
              (\<exists>payload. marker_match (comment_body c) = Some payload \<and>
                 ((\<exists>e. lib_parseScheduleDate L payload = Inl e) \<or>
                  lib_parseScheduleDate L payload = Inr None)))) \<longrightarrow>
          getScheduledPRs_item L octokit it acc s =
            (Inr acc, (w', snd s @ [ListComments owner repo (item_number it) 100]))) \<and>
         (\<forall>comments c payload t.
            r = Inr comments \<and> find is_marker comments = Some c \<and>
            marker_match (comment_body c) = Some payload \<and>
            lib_parseScheduleDate L payload = Inr (Some t) \<longrightarrow>
            getScheduledPRs_item L octokit it acc s =
              (Inr (acc @ [\<lparr>pr_owner = owner, pr_repo = repo, pr_number = item_number it,
                             pr_scheduleTime = t\<rparr>]),
               (w', snd s @ [ListComments owner repo (item_number it) 100]))) \<and>
         (\<forall>any items. \<exists>acc' s'.
            getScheduledPRs_item L octokit any acc s = (Inr acc', s') \<and> prefix acc acc' \<and>
            getScheduledPRs_loop L octokit (any # items) acc s =
              getScheduledPRs_loop L octokit items acc' s') \<and>
         (\<forall>items. \<exists>res s'. getScheduledPRs_loop L octokit items acc s = (Inr res, s') \<and>
            prefix acc res \<and>
            (\<forall>e\<in>set (drop (length acc) res). \<exists>it\<in>set items. \<exists>url pre w comments c payload.
               pr_number e = item_number it \<and>
               item_repository_url it = Some url \<and>
               split_char (CHR ''/'') url = pre @ [pr_owner e, pr_repo e] \<and>
               fst (issues_listComments octokit (pr_owner e) (pr_repo e) (item_number it) 100 w) =
                 Inr comments \<and>
               find is_marker comments = Some c \<and>
               marker_match (comment_body c) = Some payload \<and>
               lib_parseScheduleDate L payload = Inr (Some (pr_scheduleTime e)))) \<and>
         getScheduledPRs L octokit s =
           (case search_issuesAndPullRequests octokit (''is:pr is:open label:'' @ SCHEDULE_LABEL)
                   100 (fst s) of
              (Inl e, w1) \<Rightarrow>
                (Inl e, (w1, snd s @ [SearchIssuesAndPullRequests
                                         (''is:pr is:open label:'' @ SCHEDULE_LABEL) 100]))
            | (Inr items, w1) \<Rightarrow>
                getScheduledPRs_loop L octokit items []
                  (w1, snd s @ [SearchIssuesAndPullRequests
                                  (''is:pr is:open label:'' @ SCHEDULE_LABEL) 100])) \<and>
         (\<forall>e. fst (getScheduledPRs L octokit s) = Inl e \<longleftrightarrow>
              fst (search_issuesAndPullRequests octokit
                     (''is:pr is:open label:'' @ SCHEDULE_LABEL) 100 (fst s)) = Inl e)"
proof (intro conjI)
  show "item_repository_url bad = None \<or>
            (\<exists>u. item_repository_url bad = Some u \<and> (u = [] \<or> CHR ''/'' \<notin> set u)) \<longrightarrow>
          getScheduledPRs_item L octokit bad acc s = (Inr acc, s)"
    using item_no_reference item_malformed_reference by blast
next
  show "(\<exists>e. r = Inl e) \<or>
          (\<exists>comments. r = Inr comments \<and> find is_marker comments = None) \<or>
          (\<exists>comments c. r = Inr comments \<and> find is_marker comments = Some c \<and>
             (marker_match (comment_body c) = None \<or>
              (\<exists>payload. marker_match (comment_body c) = Some payload \<and>
                 ((\<exists>e. lib_parseScheduleDate L payload = Inl e) \<or>
                  lib_parseScheduleDate L payload = Inr None)))) \<longrightarrow>
          getScheduledPRs_item L octokit it acc s =
            (Inr acc, (w', snd s @ [ListComments owner repo (item_number it) 100]))"
    using item_listed[OF assms, of L acc] by auto
next
  show "\<forall>comments c payload t.
            r = Inr comments \<and> find is_marker comments = Some c \<and>
            marker_match (comment_body c) = Some payload \<and>
            lib_parseScheduleDate L payload = Inr (Some t) \<longrightarrow>
            getScheduledPRs_item L octokit it acc s =
              (Inr (acc @ [\<lparr>pr_owner = owner, pr_repo = repo, pr_number = item_number it,
                             pr_scheduleTime = t\<rparr>]),
               (w', snd s @ [ListComments owner repo (item_number it) 100]))"
    using item_listed[OF assms, of L acc] by auto
next
  show "\<forall>any items. \<exists>acc' s'.
            getScheduledPRs_item L octokit any acc s = (Inr acc', s') \<and> prefix acc acc' \<and>
            getScheduledPRs_loop L octokit (any # items) acc s =
              getScheduledPRs_loop L octokit items acc' s'"
    using loop_step by blast
next
  show "\<forall>items. \<exists>res s'. getScheduledPRs_loop L octokit items acc s = (Inr res, s') \<and>
            prefix acc res \<and>
            (\<forall>e\<in>set (drop (length acc) res). \<exists>it\<in>set items. \<exists>url pre w comments c payload.
               pr_number e = item_number it \<and>
               item_repository_url it = Some url \<and>
               split_char (CHR ''/'') url = pre @ [pr_owner e, pr_repo e] \<and>
               fst (issues_listComments octokit (pr_owner e) (pr_repo e) (item_number it) 100 w) =
                 Inr comments \<and>
               find is_marker comments = Some c \<and>
               marker_match (comment_body c) = Some payload \<and>
               lib_parseScheduleDate L payload = Inr (Some (pr_scheduleTime e)))"
  proof
    fix items
    obtain res s' where l: "getScheduledPRs_loop L octokit items acc s = (Inr res, s')"
      and p: "prefix acc res"
      using loop_extends by blast
    from loop_sound[OF l] obtain new where n: "res = acc @ new"
      "\<forall>e\<in>set new. \<exists>it\<in>set items. \<exists>url pre w comments c payload.
               pr_number e = item_number it \<and>
               item_repository_url it = Some url \<and>
               split_char (CHR ''/'') url = pre @ [pr_owner e, pr_repo e] \<and>
               fst (issues_listComments octokit (pr_owner e) (pr_repo e) (item_number it) 100 w) =
                 Inr comments \<and>
               find is_marker comments = Some c \<and>
               marker_match (comment_body c) = Some payload \<and>
               lib_parseScheduleDate L payload = Inr (Some (pr_scheduleTime e))"
      by blast
    from n(1) have "drop (length acc) res = new" by simp
    with l p n(2) show "\<exists>res s'. getScheduledPRs_loop L octokit items acc s = (Inr res, s') \<and>
            prefix acc res \<and>
            (\<forall>e\<in>set (drop (length acc) res). \<exists>it\<in>set items. \<exists>url pre w comments c payload.
               pr_number e = item_number it \<and>
               item_repository_url it = Some url \<and>
               split_char (CHR ''/'') url = pre @ [pr_owner e, pr_repo e] \<and>
               fst (issues_listComments octokit (pr_owner e) (pr_repo e) (item_number it) 100 w) =
                 Inr comments \<and>
               find is_marker comments = Some c \<and>
               marker_match (comment_body c) = Some payload \<and>
               lib_parseScheduleDate L payload = Inr (Some (pr_scheduleTime e)))"
      by (intro exI[of _ res] exI[of _ s']) simp
  qed
next
  show "getScheduledPRs L octokit s =
           (case search_issuesAndPullRequests octokit (''is:pr is:open label:'' @ SCHEDULE_LABEL)
                   100 (fst s) of
              (Inl e, w1) \<Rightarrow>
                (Inl e, (w1, snd s @ [SearchIssuesAndPullRequests
                                         (''is:pr is:open label:'' @ SCHEDULE_LABEL) 100]))
            | (Inr items, w1) \<Rightarrow>
                getScheduledPRs_loop L octokit items []
                  (w1, snd s @ [SearchIssuesAndPullRequests
                                  (''is:pr is:open label:'' @ SCHEDULE_LABEL) 100]))"
    by (rule listing_unfold)
next
  show "\<forall>e. fst (getScheduledPRs L octokit s) = Inl e \<longleftrightarrow>
              fst (search_issuesAndPullRequests octokit
                     (''is:pr is:open label:'' @ SCHEDULE_LABEL) 100 (fst s)) = Inl e"
    using listing_throws_iff by blast
qed

text \<open>
  Seven search results on a stub host, one for each way of being skipped and one that
  is well formed: the pull request with the payload that is not JSON and the one
  without a repository reference leave the list unchanged, the well formed one is added
  to the list, and the listing is the well formed pull request alone, after a listing
  request for each item with a reference.
\<close>

theorem C6_discovery_skips_without_throwing_witness:
  "getScheduledPRs_item sample_lib (host_discovery sample_items sample_listings)
     \<lparr>item_number = 5, item_repository_url = Some ''https://api.github.com/repos/o/r''\<rparr> []
     ((), []) = (Inr [], ((), [ListComments ''o'' ''r'' 5 100])) \<and>
   getScheduledPRs_item sample_lib (host_discovery sample_items sample_listings)
     \<lparr>item_number = 1, item_repository_url = None\<rparr> [] ((), []) = (Inr [], ((), [])) \<and>
   getScheduledPRs_item sample_lib (host_discovery sample_items sample_listings)
     \<lparr>item_number = 7, item_repository_url = Some ''https://api.github.com/repos/o/r''\<rparr> []
     ((), []) =
     (Inr [\<lparr>pr_owner = ''o'', pr_repo = ''r'', pr_number = 7, pr_scheduleTime = 1704106800000\<rparr>],
      ((), [ListComments ''o'' ''r'' 7 100])) \<and>
   getScheduledPRs sample_lib (host_discovery sample_items sample_listings) ((), []) =
     (Inr [\<lparr>pr_owner = ''o'', pr_repo = ''r'', pr_number = 7, pr_scheduleTime = 1704106800000\<rparr>],
      ((), [SearchIssuesAndPullRequests ''is:pr is:open label:merge-scheduled'' 100,
            ListComments ''o'' ''r'' 3 100, ListComments ''o'' ''r'' 4 100,
            ListComments ''o'' ''r'' 5 100, ListComments ''o'' ''r'' 6 100,
            ListComments ''o'' ''r'' 7 100]))"
proof -
  let ?it = "\<lparr>item_number = 5, item_repository_url = Some ''https://api.github.com/repos/o/r''\<rparr>"
  let ?c = "plain_comment ''<!-- MERGE_SCHEDULE_INFO invalid-json -->''"
  let ?good = "\<lparr>item_number = 7, item_repository_url = Some ''https://api.github.com/repos/o/r''\<rparr>"
  let ?m = "plain_comment (marker_text ''2024-01-01T11:00:00.000Z'')"
  have h: "item_repository_url ?it = Some ''https://api.github.com/repos/o/r''"
    "''https://api.github.com/repos/o/r'' \<noteq> []"
    "split_char (CHR ''/'') ''https://api.github.com/repos/o/r'' =
       [''https:'', [], ''api.github.com'', ''repos''] @ [''o'', ''r'']"
    "issues_listComments (host_discovery sample_items sample_listings) ''o'' ''r'' (item_number ?it)
       100 (fst ((), [])) = (Inr [?c], ())"
    by code_simp+
  have j: "find is_marker [?c] = Some ?c" "marker_match (comment_body ?c) = Some ''invalid-json''"
    "lib_parseScheduleDate sample_lib ''invalid-json'' = Inl (Error ''Unexpected token in JSON'' None)"
    by code_simp+
  have h7: "item_repository_url ?good = Some ''https://api.github.com/repos/o/r''"
    "''https://api.github.com/repos/o/r'' \<noteq> []"
    "split_char (CHR ''/'') ''https://api.github.com/repos/o/r'' =
       [''https:'', [], ''api.github.com'', ''repos''] @ [''o'', ''r'']"
    "issues_listComments (host_discovery sample_items sample_listings) ''o'' ''r''
       (item_number ?good) 100 (fst ((), [])) = (Inr [plain_comment ''regular comment'', ?m], ())"
    by code_simp+
  have j7: "find is_marker [plain_comment ''regular comment'', ?m] = Some ?m"
    "marker_match (comment_body ?m) = Some (schedule_json ''2024-01-01T11:00:00.000Z'')"
    "lib_parseScheduleDate sample_lib (schedule_json ''2024-01-01T11:00:00.000Z'') =
       Inr (Some 1704106800000)"
    by code_simp+
  have n: "item_repository_url \<lparr>item_number = 1, item_repository_url = None\<rparr> = None" by simp
  note T5 = C6_discovery_skips_without_throwing[OF h,
      of "\<lparr>item_number = 1, item_repository_url = None\<rparr>" sample_lib "[]"]
  note T7 = C6_discovery_skips_without_throwing[OF h7,
      of "\<lparr>item_number = 1, item_repository_url = None\<rparr>" sample_lib "[]"]
  have a: "getScheduledPRs_item sample_lib (host_discovery sample_items sample_listings) ?it []
     ((), []) = (Inr [], ((), [ListComments ''o'' ''r'' 5 100]))"
    using T5 j by auto
  have b: "getScheduledPRs_item sample_lib (host_discovery sample_items sample_listings)
     \<lparr>item_number = 1, item_repository_url = None\<rparr> [] ((), []) = (Inr [], ((), []))"
    using T5 n by blast
  have c: "getScheduledPRs_item sample_lib (host_discovery sample_items sample_listings) ?good []
     ((), []) =
     (Inr [\<lparr>pr_owner = ''o'', pr_repo = ''r'', pr_number = 7, pr_scheduleTime = 1704106800000\<rparr>],
      ((), [ListComments ''o'' ''r'' 7 100]))"
    using T7 j7 by auto
  have g: "getScheduledPRs sample_lib (host_discovery sample_items sample_listings) ((), []) =
     (Inr [\<lparr>pr_owner = ''o'', pr_repo = ''r'', pr_number = 7, pr_scheduleTime = 1704106800000\<rparr>],
      ((), [SearchIssuesAndPullRequests ''is:pr is:open label:merge-scheduled'' 100,
            ListComments ''o'' ''r'' 3 100, ListComments ''o'' ''r'' 4 100,
            ListComments ''o'' ''r'' 5 100, ListComments ''o'' ''r'' 6 100,
            ListComments ''o'' ''r'' 7 100]))"
    by code_simp
  show ?thesis using a b c g by simp
qed


section \<open>The command interpreter: proofs\<close>

subsection \<open>Removing and storing a schedule on the reference host\<close>

lemma gh_fields [simp]:
  "issues_getComment gh = gh_getComment"
  "repos_getCollaboratorPermissionLevel gh = gh_getCollaboratorPermissionLevel"
  "issues_createComment gh = gh_createComment"
  "issues_listComments gh = gh_listComments"
  "issues_addLabels gh = gh_addLabels"
  "issues_removeLabel gh = gh_removeLabel"
  "issues_deleteComment gh = gh_deleteComment"
  by (simp_all add: gh_def)

lemma gh_delete_loop:
  assumes "distinct (map comment_id cs)"
      and "\<forall>c\<in>set cs. \<exists>kc\<in>set (gh_comments w). in_repo owner repo (fst kc) \<and> comment_id (snd kc) = comment_id c"
  shows "\<exists>tr'. removeScheduleInfo_loop gh owner repo cs (w, tr) =
           (Inr (), (w\<lparr>gh_comments :=
                        filter (\<lambda>kc. \<not> (in_repo owner repo (fst kc) \<and>
                                        comment_id (snd kc) \<in> comment_id ` set cs))
                          (gh_comments w)\<rparr>, tr'))"
  using assms
proof (induction cs arbitrary: w tr)
  case Nil
  then show ?case by (simp add: ret_def)
next
  case (Cons c cs)
  let ?w1 = "w\<lparr>gh_comments :=
                 filter (\<lambda>kc. \<not> (in_repo owner repo (fst kc) \<and> comment_id (snd kc) = comment_id c))
                   (gh_comments w)\<rparr>"
  have d: "gh_deleteComment owner repo (comment_id c) w = (Inr (), ?w1)"
    using Cons.prems(2) by (simp add: gh_deleteComment_def)
  have p1: "distinct (map comment_id cs)" using Cons.prems(1) by simp
  have p2: "\<forall>c'\<in>set cs. \<exists>kc\<in>set (gh_comments ?w1). in_repo owner repo (fst kc) \<and> comment_id (snd kc) = comment_id c'"
  proof
    fix c' assume c': "c' \<in> set cs"
    have "comment_id c \<notin> comment_id ` set cs" using Cons.prems(1) by simp
    moreover have "comment_id c' \<in> comment_id ` set cs" using c' by simp
    ultimately have ne: "comment_id c' \<noteq> comment_id c" by metis
    from c' Cons.prems(2) obtain kc where "kc \<in> set (gh_comments w)" "in_repo owner repo (fst kc)"
      "comment_id (snd kc) = comment_id c'" by auto
    then show "\<exists>kc\<in>set (gh_comments ?w1). in_repo owner repo (fst kc) \<and> comment_id (snd kc) = comment_id c'"
      using ne by (intro bexI[of _ kc]) auto
  qed
  from Cons.IH[OF p1 p2, of "tr @ [DeleteComment owner repo (comment_id c)]"]
  obtain tr' where l: "removeScheduleInfo_loop gh owner repo cs (?w1, tr @ [DeleteComment owner repo (comment_id c)]) =
     (Inr (), (?w1\<lparr>gh_comments :=
                        filter (\<lambda>kc. \<not> (in_repo owner repo (fst kc) \<and>
                                        comment_id (snd kc) \<in> comment_id ` set cs))
                          (gh_comments ?w1)\<rparr>, tr'))" by blast
  have f: "filter (\<lambda>kc. \<not> (in_repo owner repo (fst kc) \<and> comment_id (snd kc) \<in> comment_id ` set cs))
             (filter (\<lambda>kc. \<not> (in_repo owner repo (fst kc) \<and> comment_id (snd kc) = comment_id c)) (gh_comments w))
         = filter (\<lambda>kc. \<not> (in_repo owner repo (fst kc) \<and> comment_id (snd kc) \<in> comment_id ` set (c # cs))) (gh_comments w)"
    by (auto intro: filter_cong)
  show ?case
    using d l f by (simp add: await_def request_def)
qed

lemma includes_str_append: "includes_str (a @ sub @ b) sub"
proof (induction a)
  case Nil
  then show ?case by (simp add: includes_str_prefix)
next
  case (Cons c a)
  then show ?case by simp
qed

lemma confirmation_is_marker:
  "is_marker \<lparr>comment_id = i, comment_login = l,
              comment_body = confirmationMessage L t lt ut tz\<rparr>"
proof -
  have "confirmationMessage L t lt ut tz =
        ''<!-- '' @ ''MERGE_SCHEDULE_INFO'' @ drop 24 (confirmationMessage L t lt ut tz)"
    by (simp add: confirmationMessage_def)
  then show ?thesis
    using includes_str_append[of "''<!-- ''" "''MERGE_SCHEDULE_INFO''" "drop 24 (confirmationMessage L t lt ut tz)"]
    by (simp add: is_marker_def)
qed

lemma filter_eq_Nil_notin: "filter (\<lambda>y. y = x) xs = [] \<longleftrightarrow> x \<notin> set xs"
  by (induction xs) auto

lemma marker_comments_alt:
  "marker_comments w k = map snd (filter (\<lambda>kc. fst kc = k \<and> is_marker (snd kc)) (gh_comments w))"
  by (simp add: marker_comments_def comments_of_def filter_map comp_def conj_commute)

lemma gh_removeScheduleInfo:
  assumes ex: "map_of (gh_pulls w) (owner, repo, n) \<noteq> None"
      and di: "distinct_ids w"
      and pg: "filter is_marker (drop 100 (comments_of w (owner, repo, n))) = []"
  shows "\<exists>w1 tr'. removeScheduleInfo gh owner repo n (w, tr) = (Inr (), (w1, tr')) \<and>
           gh_pulls w1 = gh_pulls w \<and>
           marker_comments w1 (owner, repo, n) = [] \<and>
           schedule_labels w1 (owner, repo, n) = []"
proof -
  let ?k = "(owner, repo, n)"
  let ?wL = "w\<lparr>gh_labels := filter (\<lambda>kl. kl \<noteq> (?k, SCHEDULE_LABEL)) (gh_labels w)\<rparr>"
  let ?tL = "tr @ [RemoveLabel owner repo n SCHEDULE_LABEL]"
  have step1: "try_catch
             (request (RemoveLabel owner repo n SCHEDULE_LABEL)
                (issues_removeLabel gh owner repo n SCHEDULE_LABEL))
             (\<lambda>error. if status error \<noteq> Some 404 then throw error else ret ()) (w, tr) =
           (Inr (), (?wL, ?tL))"
  proof (cases "(?k, SCHEDULE_LABEL) \<in> set (gh_labels w)")
    case True
    then show ?thesis using ex by (auto simp: try_catch_def request_def gh_removeLabel_def)
  next
    case False
    then have "filter (\<lambda>kl. kl \<noteq> (?k, SCHEDULE_LABEL)) (gh_labels w) = gh_labels w"
      by (auto simp: filter_id_conv)
    then have "?wL = w" by simp
    then show ?thesis using False
      by (simp add: try_catch_def request_def gh_removeLabel_def not_found_def ret_def)
  qed
  let ?cs = "marker_comments w ?k"
  have list: "gh_listComments owner repo n 100 ?wL = (Inr (take 100 (comments_of w ?k)), ?wL)"
    using ex by (auto simp: gh_listComments_def comments_of_def)
  have "filter is_marker (take 100 (comments_of w ?k) @ drop 100 (comments_of w ?k)) =
        filter is_marker (take 100 (comments_of w ?k))"
    unfolding filter_append using pg by simp
  then have page: "filter is_marker (take 100 (comments_of w ?k)) = marker_comments w ?k"
    by (simp add: marker_comments_def)
  have d: "distinct (map comment_id ?cs)"
    using di by (simp add: marker_comments_alt distinct_ids_def comp_def distinct_map_filter)
  have e: "\<forall>c\<in>set ?cs. \<exists>kc\<in>set (gh_comments ?wL). in_repo owner repo (fst kc) \<and>
             comment_id (snd kc) = comment_id c"
    by (force simp: marker_comments_alt in_repo_def)
  let ?tl = "?tL @ [ListComments owner repo n 100]"
  from gh_delete_loop[OF d e, of ?tl]
  obtain tr' where loop: "removeScheduleInfo_loop gh owner repo ?cs (?wL, ?tl) =
      (Inr (), (?wL\<lparr>gh_comments :=
                        filter (\<lambda>kc. \<not> (in_repo owner repo (fst kc) \<and>
                                        comment_id (snd kc) \<in> comment_id ` set ?cs))
                          (gh_comments ?wL)\<rparr>, tr'))" by blast
  let ?w1 = "?wL\<lparr>gh_comments :=
                        filter (\<lambda>kc. \<not> (in_repo owner repo (fst kc) \<and>
                                        comment_id (snd kc) \<in> comment_id ` set ?cs))
                          (gh_comments ?wL)\<rparr>"
  have run: "removeScheduleInfo gh owner repo n (w, tr) = (Inr (), (?w1, tr'))"
    unfolding removeScheduleInfo_def try_rethrow
    using step1 list loop page
    by (simp add: await_def request_def Let_def)
  have m: "marker_comments ?w1 ?k = []"
    by (auto simp: marker_comments_alt filter_empty_conv in_repo_def image_iff)
  have l: "schedule_labels ?w1 ?k = []"
    by (auto simp: schedule_labels_def filter_empty_conv)
  show ?thesis using run m l by (intro exI[of _ ?w1] exI[of _ tr']) simp
qed

lemma gh_storeScheduleInfo:
  assumes ex: "map_of (gh_pulls w) (owner, repo, n) \<noteq> None"
      and m: "marker_comments w (owner, repo, n) = []"
      and l: "schedule_labels w (owner, repo, n) = []"
  shows "\<exists>w2 tr'. storeScheduleInfo L gh owner repo n t lt ut tz (w, tr) = (Inr (), (w2, tr')) \<and>
           length (marker_comments w2 (owner, repo, n)) = 1 \<and>
           length (schedule_labels w2 (owner, repo, n)) = 1"
proof -
  let ?k = "(owner, repo, n)"
  have notin: "(?k, SCHEDULE_LABEL) \<notin> set (gh_labels w)"
    using l by (simp add: schedule_labels_def filter_eq_Nil_notin)
  let ?wA = "w\<lparr>gh_labels := gh_labels w @ [(?k, SCHEDULE_LABEL)]\<rparr>"
  have a: "gh_addLabels owner repo n [SCHEDULE_LABEL] w = (Inr (), ?wA)"
    using ex notin by (auto simp: gh_addLabels_def)
  let ?c = "\<lparr>comment_id = gh_next_id ?wA, comment_login = ''github-actions[bot]'',
             comment_body = confirmationMessage L t lt ut tz\<rparr>"
  let ?w2 = "?wA\<lparr>gh_comments := gh_comments ?wA @ [(?k, ?c)], gh_next_id := gh_next_id ?wA + 1\<rparr>"
  have c: "gh_createComment owner repo n (confirmationMessage L t lt ut tz) ?wA = (Inr (), ?w2)"
    using ex by (auto simp: gh_createComment_def)
  have run: "storeScheduleInfo L gh owner repo n t lt ut tz (w, tr) =
     (Inr (), (?w2, tr @ [AddLabels owner repo n [SCHEDULE_LABEL],
                          CreateComment owner repo n (confirmationMessage L t lt ut tz)]))"
    unfolding storeScheduleInfo_def createComment_def try_rethrow
    using a c by (simp add: await_def request_def)
  have m2: "marker_comments ?w2 ?k = [?c]"
    using m confirmation_is_marker[of "gh_next_id w" "''github-actions[bot]''" L t lt ut tz]
    by (simp add: marker_comments_def comments_of_def)
  have l2: "schedule_labels ?w2 ?k = [(?k, SCHEDULE_LABEL)]"
    using l by (simp add: schedule_labels_def)
  show ?thesis using run m2 l2 by (intro exI[of _ ?w2]) simp
qed

subsection \<open>At most one schedule\<close>

text \<open>
  C7, as amended. On the reference host, take a pull request that exists, in a state
  where comment ids are unique, with any number of prior marker comments, all of them
  among the first 100 comments of the pull request (the one page that
  \<open>removeScheduleInfo\<close> lists), and with or without the schedule label. When the
  client is created for this host, the author of the comment of the event has admin or
  write permission and the comment is a valid schedule command (not a cancel command,
  matched by the pattern, accepted by the parser, formatted by the library),
  \<open>handleComment\<close> returns normally and afterwards the pull request has exactly one
  marker comment and exactly one schedule label.
\<close>

theorem C7_one_schedule_after_command:
  assumes "getOctokit token = Inr gh"
      and "split_repository repository = (owner, repo)"
      and "map_of (gh_pulls w) (owner, repo, prNumber) \<noteq> None"
      and "distinct_ids w"
      and "filter is_marker (drop 100 (comments_of w (owner, repo, prNumber))) = []"
      and "gh_getComment owner repo payload_comment_id w = (Inr c, w)"
      and "map_of (gh_permissions w) (owner, repo, comment_login c) = Some p"
      and "p = ''admin'' \<or> p = ''write''"
      and "\<not> includes_str commentBody CANCEL_COMMAND"
      and "COMMAND_REGEX_exec commentBody = Some (dateTimeStr, zone)"
      and "timezone = (case zone of None \<Rightarrow> ''UTC'' | Some z \<Rightarrow> z)"
      and "validateScheduleTime (lib_zonedTimeToUtc L) (lib_addDays L) now dateTimeStr timezone =
             Inr scheduleDate"
      and "lib_formatZoned L scheduleDate timezone = Inr localTime"
      and "lib_format L scheduleDate = Inr utcTime"
  shows "\<exists>w' tr'. handleComment L getOctokit now payload_comment_id token repository prNumber
                      commentBody (w, tr) = (Inr (), (w', tr')) \<and>
                  length (marker_comments w' (owner, repo, prNumber)) = 1 \<and>
                  length (schedule_labels w' (owner, repo, prNumber)) = 1"
proof -
  let ?t2 = "tr @ [GetComment owner repo payload_comment_id,
                   GetCollaboratorPermissionLevel owner repo (comment_login c)]"
  have perm: "hasWritePermission gh owner repo (comment_login c)
                (w, tr @ [GetComment owner repo payload_comment_id]) = (Inr True, (w, ?t2))"
    using assms(7,8)
    by (auto simp: hasWritePermission_def try_catch_def await_def request_def ret_def
          gh_getCollaboratorPermissionLevel_def)
  from gh_removeScheduleInfo[OF assms(3,4,5), of ?t2]
  obtain w1 t3 where r: "removeScheduleInfo gh owner repo prNumber (w, ?t2) = (Inr (), (w1, t3))"
    and p1: "gh_pulls w1 = gh_pulls w"
    and m1: "marker_comments w1 (owner, repo, prNumber) = []"
    and l1: "schedule_labels w1 (owner, repo, prNumber) = []" by blast
  have ex1: "map_of (gh_pulls w1) (owner, repo, prNumber) \<noteq> None" using assms(3) p1 by simp
  from gh_storeScheduleInfo[OF ex1 m1 l1, of L scheduleDate localTime utcTime timezone t3]
  obtain w2 t4 where s: "storeScheduleInfo L gh owner repo prNumber scheduleDate localTime utcTime
        timezone (w1, t3) = (Inr (), (w2, t4))"
    and m2: "length (marker_comments w2 (owner, repo, prNumber)) = 1"
    and l2: "length (schedule_labels w2 (owner, repo, prNumber)) = 1" by blast
  have "handleComment L getOctokit now payload_comment_id token repository prNumber commentBody
          (w, tr) = (Inr (), (w2, t4))"
    unfolding handleComment_def handleComment_try_def
    using assms(1,2,6,9,10,12,13,14) assms(11)[symmetric] perm r s
    by (simp add: try_catch_def await_def request_def Let_def)
  with m2 l2 show ?thesis by blast
qed

text \<open>
  The claim as stated fails for a pull request whose marker comment is not among its
  first 100 comments: the marker comment of \<open>crowded_world\<close> is comment 101, the
  listing returns the first hundred, nothing is deleted, and the command leaves two
  marker comments.
\<close>

theorem C7_counterexample_second_page:
  "fst (handleComment sample_lib (sample_getOctokit gh) sample_now 1 ''ghs_token'' ''o/r'' 7
          ''@merge-at 2024-01-02 2:30PM'' (crowded_world, [])) = Inr () \<and>
   length (marker_comments crowded_world (''o'', ''r'', 7)) = 1 \<and>
   length (schedule_labels crowded_world (''o'', ''r'', 7)) = 1 \<and>
   length (marker_comments
             (fst (snd (handleComment sample_lib (sample_getOctokit gh) sample_now 1 ''ghs_token''
                          ''o/r'' 7 ''@merge-at 2024-01-02 2:30PM'' (crowded_world, []))))
             (''o'', ''r'', 7)) = 2"
  by code_simp

text \<open>
  Pull request 7 of \<open>busy_world\<close> has 101 comments, the oldest of which is its marker
  comment, and the label; after a new command of the collaborator it has one marker
  comment and one label.
\<close>

theorem C7_one_schedule_after_command_witness:
  "length (comments_of busy_world (''o'', ''r'', 7)) = 101 \<and>
   length (marker_comments busy_world (''o'', ''r'', 7)) = 1 \<and>
   fst (handleComment sample_lib (sample_getOctokit gh) sample_now 2 ''ghs_token'' ''o/r'' 7
          ''@merge-at 2024-01-02 2:30PM'' (busy_world, [])) = Inr () \<and>
   length (marker_comments
             (fst (snd (handleComment sample_lib (sample_getOctokit gh) sample_now 2 ''ghs_token''
                          ''o/r'' 7 ''@merge-at 2024-01-02 2:30PM'' (busy_world, []))))
             (''o'', ''r'', 7)) = 1 \<and>
   length (schedule_labels
             (fst (snd (handleComment sample_lib (sample_getOctokit gh) sample_now 2 ''ghs_token''
                          ''o/r'' 7 ''@merge-at 2024-01-02 2:30PM'' (busy_world, []))))
             (''o'', ''r'', 7)) = 1"
proof -
  have t: "sample_getOctokit gh ''ghs_token'' = Inr gh"
    by (simp add: sample_getOctokit_def)
  have h: "split_repository ''o/r'' = (''o'', ''r'')"
    "map_of (gh_pulls busy_world) (''o'', ''r'', 7) \<noteq> None"
    "distinct_ids busy_world"
    "filter is_marker (drop 100 (comments_of busy_world (''o'', ''r'', 7))) = []"
    "gh_getComment ''o'' ''r'' 2 busy_world =
       (Inr \<lparr>comment_id = 2, comment_login = ''alice'',
             comment_body = ''@merge-at 2024-01-02 2:30PM''\<rparr>, busy_world)"
    "map_of (gh_permissions busy_world)
       (''o'', ''r'', comment_login \<lparr>comment_id = 2, comment_login = ''alice'',
             comment_body = ''@merge-at 2024-01-02 2:30PM''\<rparr>) = Some ''write''"
    "''write'' = ''admin'' \<or> ''write'' = ''write''"
    "\<not> includes_str ''@merge-at 2024-01-02 2:30PM'' CANCEL_COMMAND"
    "COMMAND_REGEX_exec ''@merge-at 2024-01-02 2:30PM'' = Some (''2024-01-02 2:30PM'', None)"
    "''UTC'' = (case None of None \<Rightarrow> ''UTC'' | Some z \<Rightarrow> z)"
    "validateScheduleTime (lib_zonedTimeToUtc sample_lib) (lib_addDays sample_lib) sample_now
       ''2024-01-02 2:30PM'' ''UTC'' = Inr 1704205800000"
    "lib_formatZoned sample_lib 1704205800000 ''UTC'' = Inr ''2024-01-02 02:30 PM''"
    "lib_format sample_lib 1704205800000 = Inr ''2024-01-02 14:30''"
    by code_simp+
  have m: "length (comments_of busy_world (''o'', ''r'', 7)) = 101"
    "length (marker_comments busy_world (''o'', ''r'', 7)) = 1" by code_simp+
  from C7_one_schedule_after_command[where getOctokit = "sample_getOctokit gh"
      and token = "''ghs_token''" and tr = "[]", OF t h] m
  show ?thesis by auto
qed

subsection \<open>What \<open>handleComment\<close> posts and throws\<close>

lemma rw_throw: "returns_with (throw e) Q"
  by (simp add: returns_with_def throw_def)

lemma rw_await: "(\<And>v. returns_with (f v) Q) \<Longrightarrow> returns_with (await m f) Q"
  unfolding returns_with_def await_def
  by (auto split: prod.splits sum.splits)

lemma rw_try: "returns_with m Q \<Longrightarrow> (\<And>e. returns_with (h e) Q) \<Longrightarrow> returns_with (try_catch m h) Q"
  unfolding returns_with_def try_catch_def
  by (auto split: prod.splits sum.splits)

lemma rw_createComment:
  "returns_with (createComment octokit owner repo n t) (accepted octokit owner repo n)"
  unfolding returns_with_def
proof (intro allI impI)
  fix s v s'
  assume a: "createComment octokit owner repo n t s = (Inr v, s')"
  obtain r w' where i: "issues_createComment octokit owner repo n t (fst s) = (r, w')"
    by (cases "issues_createComment octokit owner repo n t (fst s)")
  from createComment_apply[OF i, of "snd s"] a
  have "r = Inr v" "s' = (w', snd s @ [CreateComment owner repo n t])" by auto
  with i show "accepted octokit owner repo n s'"
    unfolding accepted_def by (intro exI[of _ t] exI[of _ "fst s"] exI[of _ "snd s"]) simp
qed

lemma rw_storeScheduleInfo:
  "returns_with (storeScheduleInfo L octokit owner repo n t lt ut tz) (accepted octokit owner repo n)"
  unfolding storeScheduleInfo_def
  by (intro rw_try rw_await rw_createComment rw_throw)

lemma rw_handle_body:
  "returns_with (handleComment_try L octokit now payload_comment_id owner repo prNumber commentBody)
     (accepted octokit owner repo prNumber)"
  unfolding handleComment_try_def Let_def
  by (intro rw_await rw_try)
     (auto intro!: rw_await rw_try rw_createComment rw_throw rw_storeScheduleInfo
           split: option.splits sum.splits prod.splits)

lemma handle_unfold:
  assumes "getOctokit token = Inr octokit" "split_repository repository = (owner, repo)"
  shows "handleComment L getOctokit now payload_comment_id token repository prNumber commentBody =
     try_catch
       (handleComment_try L octokit now payload_comment_id owner repo prNumber commentBody)
       (\<lambda>error. createComment octokit owner repo prNumber generic_failure)"
  using assms by (simp add: handleComment_def)

lemma handle_ends_with_comment:
  assumes "getOctokit token = Inr octokit" "split_repository repository = (owner, repo)"
  shows "\<exists>body r w0 w1 tr0.
           handleComment L getOctokit now payload_comment_id token repository prNumber commentBody s =
             (r, (w1, tr0 @ [CreateComment owner repo prNumber body])) \<and>
           issues_createComment octokit owner repo prNumber body w0 = (r, w1) \<and>
           (\<forall>e. r = Inl e \<longrightarrow> body = generic_failure)"
proof -
  note hu = handle_unfold[where getOctokit = getOctokit and token = token, OF assms]
  obtain r1 s1 where b: "handleComment_try L octokit now payload_comment_id owner repo prNumber
      commentBody s = (r1, s1)"
    by (cases "handleComment_try L octokit now payload_comment_id owner repo prNumber commentBody s")
  show ?thesis
  proof (cases r1)
    case (Inr v)
    then have run: "handleComment L getOctokit now payload_comment_id token repository prNumber
        commentBody s = (Inr (), s1)"
      using b by (simp add: hu try_catch_def)
    from rw_handle_body[of L octokit now payload_comment_id owner repo prNumber commentBody] b Inr
    have "accepted octokit owner repo prNumber s1" unfolding returns_with_def by blast
    then obtain body w0 tr0 where
      "issues_createComment octokit owner repo prNumber body w0 = (Inr (), fst s1)"
      "snd s1 = tr0 @ [CreateComment owner repo prNumber body]"
      unfolding accepted_def by blast
    with run show ?thesis
      by (intro exI[of _ body] exI[of _ "Inr ()"] exI[of _ w0] exI[of _ "fst s1"] exI[of _ tr0])
         (cases s1, simp)
  next
    case (Inl e)
    obtain r w' where i: "issues_createComment octokit owner repo prNumber generic_failure (fst s1) = (r, w')"
      by (cases "issues_createComment octokit owner repo prNumber generic_failure (fst s1)")
    have "handleComment L getOctokit now payload_comment_id token repository prNumber
        commentBody s = (r, (w', snd s1 @ [CreateComment owner repo prNumber generic_failure]))"
      using b Inl createComment_apply[OF i, of "snd s1"]
      by (simp add: hu try_catch_def)
    with i show ?thesis by blast
  qed
qed

lemma handle_lookup_fails:
  assumes "getOctokit token = Inr octokit" "split_repository repository = (owner, repo)"
      and "issues_getComment octokit owner repo cid (fst s) = (Inl e, w1)"
      and "issues_createComment octokit owner repo prNumber generic_failure w1 = (Inr (), w2)"
  shows "handleComment L getOctokit now cid token repository prNumber commentBody s =
           (Inr (), (w2, snd s @ [GetComment owner repo cid,
                                  CreateComment owner repo prNumber generic_failure]))"
  using assms(3,4)
  unfolding handle_unfold[where getOctokit = getOctokit and token = token, OF assms(1,2)]
    handleComment_try_def
  by (simp add: try_catch_def await_def request_def createComment_def throw_def)

lemma permission_refused:
  assumes "repos_getCollaboratorPermissionLevel octokit owner repo login w1 = (p, w2)"
      and "p \<noteq> Inr ''admin''" "p \<noteq> Inr ''write''"
  shows "hasWritePermission octokit owner repo login (w1, tr) =
           (Inr False, (w2, tr @ [GetCollaboratorPermissionLevel owner repo login]))"
  using assms
  by (cases p) (auto simp: hasWritePermission_def try_catch_def await_def request_def ret_def)

lemma permission_granted:
  assumes "repos_getCollaboratorPermissionLevel octokit owner repo login w1 = (Inr p, w2)"
      and "p = ''admin'' \<or> p = ''write''"
  shows "hasWritePermission octokit owner repo login (w1, tr) =
           (Inr True, (w2, tr @ [GetCollaboratorPermissionLevel owner repo login]))"
  using assms
  by (auto simp: hasWritePermission_def try_catch_def await_def request_def ret_def)

lemma handle_permission_fails:
  assumes "getOctokit token = Inr octokit" "split_repository repository = (owner, repo)"
      and "issues_getComment octokit owner repo cid (fst s) = (Inr c, w1)"
      and "repos_getCollaboratorPermissionLevel octokit owner repo (comment_login c) w1 = (p, w2)"
      and "p \<noteq> Inr ''admin''" "p \<noteq> Inr ''write''"
      and "issues_createComment octokit owner repo prNumber
             (cross_mark @ '' Only users with write permission can schedule PR merges.'') w2 =
             (Inr (), w3)"
  shows "handleComment L getOctokit now cid token repository prNumber commentBody s =
           (Inr (), (w3, snd s @ [GetComment owner repo cid,
                                  GetCollaboratorPermissionLevel owner repo (comment_login c),
                                  CreateComment owner repo prNumber
                                    (cross_mark @ '' Only users with write permission can schedule PR merges.'')]))"
  using assms(3,7) permission_refused[OF assms(4,5,6), of "snd s @ [GetComment owner repo cid]"]
  unfolding handle_unfold[where getOctokit = getOctokit and token = token, OF assms(1,2)]
    handleComment_try_def
  by (simp add: try_catch_def await_def request_def createComment_def throw_def)

lemma handle_no_command:
  assumes "getOctokit token = Inr octokit" "split_repository repository = (owner, repo)"
      and "issues_getComment octokit owner repo cid (fst s) = (Inr c, w1)"
      and "repos_getCollaboratorPermissionLevel octokit owner repo (comment_login c) w1 = (Inr p, w2)"
      and "p = ''admin'' \<or> p = ''write''"
      and "\<not> includes_str commentBody CANCEL_COMMAND"
      and "COMMAND_REGEX_exec commentBody = None"
      and "issues_createComment octokit owner repo prNumber
             (cross_mark @
              '' Invalid command format. Please use: @merge-at YYYY-MM-DD HH:mm[am|pm] [timezone]'')
             w2 = (Inr (), w3)"
  shows "handleComment L getOctokit now cid token repository prNumber commentBody s =
           (Inr (), (w3, snd s @ [GetComment owner repo cid,
                                  GetCollaboratorPermissionLevel owner repo (comment_login c),
                                  CreateComment owner repo prNumber
                                    (cross_mark @
                                     '' Invalid command format. Please use: @merge-at YYYY-MM-DD HH:mm[am|pm] [timezone]'')]))"
  using assms(3,6,7,8) permission_granted[OF assms(4,5), of "snd s @ [GetComment owner repo cid]"]
  unfolding handle_unfold[where getOctokit = getOctokit and token = token, OF assms(1,2)]
    handleComment_try_def
  by (simp add: try_catch_def await_def request_def createComment_def throw_def)

lemma handle_parse_fails:
  assumes "getOctokit token = Inr octokit" "split_repository repository = (owner, repo)"
      and "issues_getComment octokit owner repo cid (fst s) = (Inr c, w1)"
      and "repos_getCollaboratorPermissionLevel octokit owner repo (comment_login c) w1 = (Inr p, w2)"
      and "p = ''admin'' \<or> p = ''write''"
      and "\<not> includes_str commentBody CANCEL_COMMAND"
      and "COMMAND_REGEX_exec commentBody = Some (dateTimeStr, zone)"
      and "validateScheduleTime (lib_zonedTimeToUtc L) (lib_addDays L) now dateTimeStr
             (case zone of None \<Rightarrow> ''UTC'' | Some z \<Rightarrow> z) = Inl e"
      and "issues_createComment octokit owner repo prNumber (cross_mark @ '' '' @ message e) w2 =
             (Inr (), w3)"
  shows "handleComment L getOctokit now cid token repository prNumber commentBody s =
           (Inr (), (w3, snd s @ [GetComment owner repo cid,
                                  GetCollaboratorPermissionLevel owner repo (comment_login c),
                                  CreateComment owner repo prNumber
                                    (cross_mark @ '' '' @ message e)]))"
  using assms(3,6,7,8,9) permission_granted[OF assms(4,5), of "snd s @ [GetComment owner repo cid]"]
  unfolding handle_unfold[where getOctokit = getOctokit and token = token, OF assms(1,2)]
    handleComment_try_def
  by (simp add: try_catch_def await_def request_def createComment_def throw_def Let_def)

lemma handle_format_fails:
  assumes "getOctokit token = Inr octokit" "split_repository repository = (owner, repo)"
      and "issues_getComment octokit owner repo cid (fst s) = (Inr c, w1)"
      and "repos_getCollaboratorPermissionLevel octokit owner repo (comment_login c) w1 = (Inr p, w2)"
      and "p = ''admin'' \<or> p = ''write''"
      and "\<not> includes_str commentBody CANCEL_COMMAND"
      and "COMMAND_REGEX_exec commentBody = Some (dateTimeStr, zone)"
      and "timezone = (case zone of None \<Rightarrow> ''UTC'' | Some z \<Rightarrow> z)"
      and "validateScheduleTime (lib_zonedTimeToUtc L) (lib_addDays L) now dateTimeStr timezone =
             Inr scheduleDate"
      and "lib_formatZoned L scheduleDate timezone = Inl e \<or>
           (\<exists>localTime. lib_formatZoned L scheduleDate timezone = Inr localTime \<and>
                        lib_format L scheduleDate = Inl e)"
      and "issues_createComment octokit owner repo prNumber (cross_mark @ '' '' @ message e) w2 =
             (Inr (), w3)"
  shows "handleComment L getOctokit now cid token repository prNumber commentBody s =
           (Inr (), (w3, snd s @ [GetComment owner repo cid,
                                  GetCollaboratorPermissionLevel owner repo (comment_login c),
                                  CreateComment owner repo prNumber
                                    (cross_mark @ '' '' @ message e)]))"
  using assms(3,6,7,9,10,11) assms(8)[symmetric]
    permission_granted[OF assms(4,5), of "snd s @ [GetComment owner repo cid]"]
  unfolding handle_unfold[where getOctokit = getOctokit and token = token, OF assms(1,2)]
    handleComment_try_def
  by (auto simp add: try_catch_def await_def request_def createComment_def throw_def Let_def)

lemma handle_storage_fails:
  assumes "getOctokit token = Inr octokit" "split_repository repository = (owner, repo)"
      and "issues_getComment octokit owner repo cid (fst s) = (Inr c, w1)"
      and "repos_getCollaboratorPermissionLevel octokit owner repo (comment_login c) w1 = (Inr p, w2)"
      and "p = ''admin'' \<or> p = ''write''"
      and "\<not> includes_str commentBody CANCEL_COMMAND"
      and "COMMAND_REGEX_exec commentBody = Some (dateTimeStr, zone)"
      and "timezone = (case zone of None \<Rightarrow> ''UTC'' | Some z \<Rightarrow> z)"
      and "validateScheduleTime (lib_zonedTimeToUtc L) (lib_addDays L) now dateTimeStr timezone =
             Inr scheduleDate"
      and "lib_formatZoned L scheduleDate timezone = Inr localTime"
      and "lib_format L scheduleDate = Inr utcTime"
      and "removeScheduleInfo octokit owner repo prNumber
             (w2, snd s @ [GetComment owner repo cid,
                           GetCollaboratorPermissionLevel owner repo (comment_login c)]) =
             (Inl e, (w3, tr3)) \<or>
           (\<exists>s'. removeScheduleInfo octokit owner repo prNumber
                    (w2, snd s @ [GetComment owner repo cid,
                                  GetCollaboratorPermissionLevel owner repo (comment_login c)]) =
                    (Inr (), s') \<and>
                 storeScheduleInfo L octokit owner repo prNumber scheduleDate localTime utcTime
                   timezone s' = (Inl e, (w3, tr3)))"
      and "issues_createComment octokit owner repo prNumber (cross_mark @ '' '' @ message e) w3 =
             (Inr (), w4)"
  shows "handleComment L getOctokit now cid token repository prNumber commentBody s =
           (Inr (), (w4, tr3 @ [CreateComment owner repo prNumber (cross_mark @ '' '' @ message e)]))"
proof -
  let ?tr2 = "snd s @ [GetComment owner repo cid,
                       GetCollaboratorPermissionLevel owner repo (comment_login c)]"
  have st: "await (removeScheduleInfo octokit owner repo prNumber)
              (\<lambda>_. storeScheduleInfo L octokit owner repo prNumber scheduleDate localTime utcTime
                      timezone) (w2, ?tr2) = (Inl e, (w3, tr3))"
    using assms(12) by (auto simp: await_def)
  have inner: "try_catch
       (await (removeScheduleInfo octokit owner repo prNumber)
              (\<lambda>_. storeScheduleInfo L octokit owner repo prNumber scheduleDate localTime utcTime
                      timezone))
       (\<lambda>error. createComment octokit owner repo prNumber (cross_mark @ '' '' @ message error))
       (w2, ?tr2) =
     (Inr (), (w4, tr3 @ [CreateComment owner repo prNumber (cross_mark @ '' '' @ message e)]))"
    using st createComment_apply[OF assms(13), of tr3] by (simp add: try_catch_def)
  show ?thesis
    using assms(3,6,7,9,10,11) assms(8)[symmetric]
      permission_granted[OF assms(4,5), of "snd s @ [GetComment owner repo cid]"] inner
    unfolding handle_unfold[where getOctokit = getOctokit and token = token, OF assms(1,2)]
      handleComment_try_def
    by (simp add: await_Inr try_Inr request_def Let_def await_def[of "request _ _"] await_def[of "hasWritePermission _ _ _ _"])
qed

lemma handle_other_failure:
  assumes "getOctokit token = Inr octokit" "split_repository repository = (owner, repo)"
      and "handleComment_try L octokit now cid owner repo prNumber commentBody s = (Inl e, (w1, tr1))"
      and "issues_createComment octokit owner repo prNumber generic_failure w1 = (Inr (), w2)"
  shows "handleComment L getOctokit now cid token repository prNumber commentBody s =
           (Inr (), (w2, tr1 @ [CreateComment owner repo prNumber generic_failure]))"
  using assms(3) createComment_apply[OF assms(4), of tr1]
  unfolding handle_unfold[where getOctokit = getOctokit and token = token, OF assms(1,2)]
  by (simp add: try_catch_def)

text \<open>
  C9, as amended. When the client is created, every run of \<open>handleComment\<close> ends
  with a request to create a comment on the pull request and returns or throws as that
  request does; when it throws, the comment was the generic failure comment of the
  outer handler. The comment describes the failure, and when the host accepts it
  \<open>handleComment\<close> returns normally with its creation as the last request: a failed
  lookup of the author gives the generic comment; a permission check that fails, or
  that finds neither admin nor write permission, gives the comment about write
  permission; a text that the command pattern does not match gives the comment about
  the command format; a failure of the parser, or of the formatting of the instant,
  gives the cross mark followed by the message thrown; a failure of
  \<open>removeScheduleInfo\<close> or of
  \<open>storeScheduleInfo\<close> gives the cross mark followed by the message thrown; and
  whatever else the outer \<open>try\<close> block throws gives the generic comment.
\<close>

theorem C9_throws_only_when_comment_fails:
  assumes "getOctokit token = Inr octokit"
      and "split_repository repository = (owner, repo)"
  shows "(\<exists>body r w0 w1 tr0.
            handleComment L getOctokit now cid token repository prNumber commentBody s =
              (r, (w1, tr0 @ [CreateComment owner repo prNumber body])) \<and>
            issues_createComment octokit owner repo prNumber body w0 = (r, w1) \<and>
            (\<forall>e. r = Inl e \<longrightarrow> body = generic_failure)) \<and>
         (\<forall>e w1 w2.
            issues_getComment octokit owner repo cid (fst s) = (Inl e, w1) \<and>
            issues_createComment octokit owner repo prNumber generic_failure w1 = (Inr (), w2) \<longrightarrow>
            handleComment L getOctokit now cid token repository prNumber commentBody s =
              (Inr (), (w2, snd s @ [GetComment owner repo cid,
                                     CreateComment owner repo prNumber generic_failure]))) \<and>
         (\<forall>c w1 p w2 w3.
            issues_getComment octokit owner repo cid (fst s) = (Inr c, w1) \<and>
            repos_getCollaboratorPermissionLevel octokit owner repo (comment_login c) w1 = (p, w2) \<and>
            p \<noteq> Inr ''admin'' \<and> p \<noteq> Inr ''write'' \<and>
            issues_createComment octokit owner repo prNumber
              (cross_mark @ '' Only users with write permission can schedule PR merges.'') w2 =
              (Inr (), w3) \<longrightarrow>
            handleComment L getOctokit now cid token repository prNumber commentBody s =
              (Inr (), (w3, snd s @ [GetComment owner repo cid,
                                     GetCollaboratorPermissionLevel owner repo (comment_login c),
                                     CreateComment owner repo prNumber
                                       (cross_mark @
                                        '' Only users with write permission can schedule PR merges.'')]))) \<and>
         (\<forall>c w1 p w2 w3.
            issues_getComment octokit owner repo cid (fst s) = (Inr c, w1) \<and>
            repos_getCollaboratorPermissionLevel octokit owner repo (comment_login c) w1 =
              (Inr p, w2) \<and>
            (p = ''admin'' \<or> p = ''write'') \<and>
            \<not> includes_str commentBody CANCEL_COMMAND \<and>
            COMMAND_REGEX_exec commentBody = None \<and>
            issues_createComment octokit owner repo prNumber
              (cross_mark @
               '' Invalid command format. Please use: @merge-at YYYY-MM-DD HH:mm[am|pm] [timezone]'')
              w2 = (Inr (), w3) \<longrightarrow>
            handleComment L getOctokit now cid token repository prNumber commentBody s =
              (Inr (), (w3, snd s @ [GetComment owner repo cid,
                                     GetCollaboratorPermissionLevel owner repo (comment_login c),
                                     CreateComment owner repo prNumber
                                       (cross_mark @
                                        '' Invalid command format. Please use: @merge-at YYYY-MM-DD HH:mm[am|pm] [timezone]'')]))) \<and>
         (\<forall>c w1 p w2 dateTimeStr zone e w3.
            issues_getComment octokit owner repo cid (fst s) = (Inr c, w1) \<and>
            repos_getCollaboratorPermissionLevel octokit owner repo (comment_login c) w1 =
              (Inr p, w2) \<and>
            (p = ''admin'' \<or> p = ''write'') \<and>
            \<not> includes_str commentBody CANCEL_COMMAND \<and>
            COMMAND_REGEX_exec commentBody = Some (dateTimeStr, zone) \<and>
            validateScheduleTime (lib_zonedTimeToUtc L) (lib_addDays L) now dateTimeStr
              (case zone of None \<Rightarrow> ''UTC'' | Some z \<Rightarrow> z) = Inl e \<and>
            issues_createComment octokit owner repo prNumber (cross_mark @ '' '' @ message e) w2 =
              (Inr (), w3) \<longrightarrow>
            handleComment L getOctokit now cid token repository prNumber commentBody s =
              (Inr (), (w3, snd s @ [GetComment owner repo cid,
                                     GetCollaboratorPermissionLevel owner repo (comment_login c),
                                     CreateComment owner repo prNumber
                                       (cross_mark @ '' '' @ message e)]))) \<and>
         (\<forall>c w1 p w2 dateTimeStr zone scheduleDate e w3.
            issues_getComment octokit owner repo cid (fst s) = (Inr c, w1) \<and>
            repos_getCollaboratorPermissionLevel octokit owner repo (comment_login c) w1 =
              (Inr p, w2) \<and>
            (p = ''admin'' \<or> p = ''write'') \<and>
            \<not> includes_str commentBody CANCEL_COMMAND \<and>
            COMMAND_REGEX_exec commentBody = Some (dateTimeStr, zone) \<and>
            validateScheduleTime (lib_zonedTimeToUtc L) (lib_addDays L) now dateTimeStr
              (case zone of None \<Rightarrow> ''UTC'' | Some z \<Rightarrow> z) = Inr scheduleDate \<and>
            (lib_formatZoned L scheduleDate (case zone of None \<Rightarrow> ''UTC'' | Some z \<Rightarrow> z) =
               Inl e \<or>
             (\<exists>localTime.
                lib_formatZoned L scheduleDate (case zone of None \<Rightarrow> ''UTC'' | Some z \<Rightarrow> z) =
                  Inr localTime \<and>
                lib_format L scheduleDate = Inl e)) \<and>
            issues_createComment octokit owner repo prNumber (cross_mark @ '' '' @ message e) w2 =
              (Inr (), w3) \<longrightarrow>
            handleComment L getOctokit now cid token repository prNumber commentBody s =
              (Inr (), (w3, snd s @ [GetComment owner repo cid,
                                     GetCollaboratorPermissionLevel owner repo (comment_login c),
                                     CreateComment owner repo prNumber
                                       (cross_mark @ '' '' @ message e)]))) \<and>
         (\<forall>c w1 p w2 dateTimeStr zone scheduleDate localTime utcTime e w3 tr3 w4.
            issues_getComment octokit owner repo cid (fst s) = (Inr c, w1) \<and>
            repos_getCollaboratorPermissionLevel octokit owner repo (comment_login c) w1 =
              (Inr p, w2) \<and>
            (p = ''admin'' \<or> p = ''write'') \<and>
            \<not> includes_str commentBody CANCEL_COMMAND \<and>
            COMMAND_REGEX_exec commentBody = Some (dateTimeStr, zone) \<and>
            validateScheduleTime (lib_zonedTimeToUtc L) (lib_addDays L) now dateTimeStr
              (case zone of None \<Rightarrow> ''UTC'' | Some z \<Rightarrow> z) = Inr scheduleDate \<and>
            lib_formatZoned L scheduleDate (case zone of None \<Rightarrow> ''UTC'' | Some z \<Rightarrow> z) =
              Inr localTime \<and>
            lib_format L scheduleDate = Inr utcTime \<and>
            (removeScheduleInfo octokit owner repo prNumber
               (w2, snd s @ [GetComment owner repo cid,
                             GetCollaboratorPermissionLevel owner repo (comment_login c)]) =
               (Inl e, (w3, tr3)) \<or>
             (\<exists>s'. removeScheduleInfo octokit owner repo prNumber
                      (w2, snd s @ [GetComment owner repo cid,
                                    GetCollaboratorPermissionLevel owner repo (comment_login c)]) =
                      (Inr (), s') \<and>
                   storeScheduleInfo L octokit owner repo prNumber scheduleDate localTime utcTime
                     (case zone of None \<Rightarrow> ''UTC'' | Some z \<Rightarrow> z) s' = (Inl e, (w3, tr3)))) \<and>
            issues_createComment octokit owner repo prNumber (cross_mark @ '' '' @ message e) w3 =
              (Inr (), w4) \<longrightarrow>
            handleComment L getOctokit now cid token repository prNumber commentBody s =
              (Inr (), (w4, tr3 @ [CreateComment owner repo prNumber
                                     (cross_mark @ '' '' @ message e)]))) \<and>
         (\<forall>e w1 tr1 w2.
            handleComment_try L octokit now cid owner repo prNumber commentBody s =
              (Inl e, (w1, tr1)) \<and>
            issues_createComment octokit owner repo prNumber generic_failure w1 = (Inr (), w2) \<longrightarrow>
            handleComment L getOctokit now cid token repository prNumber commentBody s =
              (Inr (), (w2, tr1 @ [CreateComment owner repo prNumber generic_failure])))"
proof (intro conjI allI impI)
  show "\<exists>body r w0 w1 tr0.
            handleComment L getOctokit now cid token repository prNumber commentBody s =
              (r, (w1, tr0 @ [CreateComment owner repo prNumber body])) \<and>
            issues_createComment octokit owner repo prNumber body w0 = (r, w1) \<and>
            (\<forall>e. r = Inl e \<longrightarrow> body = generic_failure)"
    using assms by (rule handle_ends_with_comment[where getOctokit = getOctokit and token = token])
next
  fix e w1 w2
  assume "issues_getComment octokit owner repo cid (fst s) = (Inl e, w1) \<and>
            issues_createComment octokit owner repo prNumber generic_failure w1 = (Inr (), w2)"
  then show "handleComment L getOctokit now cid token repository prNumber commentBody s =
              (Inr (), (w2, snd s @ [GetComment owner repo cid,
                                     CreateComment owner repo prNumber generic_failure]))"
    using handle_lookup_fails[where getOctokit = getOctokit and token = token, OF assms] by blast
next
  fix c w1 p w2 w3
  assume "issues_getComment octokit owner repo cid (fst s) = (Inr c, w1) \<and>
            repos_getCollaboratorPermissionLevel octokit owner repo (comment_login c) w1 = (p, w2) \<and>
            p \<noteq> Inr ''admin'' \<and> p \<noteq> Inr ''write'' \<and>
            issues_createComment octokit owner repo prNumber
              (cross_mark @ '' Only users with write permission can schedule PR merges.'') w2 =
              (Inr (), w3)"
  then show "handleComment L getOctokit now cid token repository prNumber commentBody s =
              (Inr (), (w3, snd s @ [GetComment owner repo cid,
                                     GetCollaboratorPermissionLevel owner repo (comment_login c),
                                     CreateComment owner repo prNumber
                                       (cross_mark @
                                        '' Only users with write permission can schedule PR merges.'')]))"
    using handle_permission_fails[where getOctokit = getOctokit and token = token, OF assms]
    by blast
next
  fix c w1 p w2 w3
  assume "issues_getComment octokit owner repo cid (fst s) = (Inr c, w1) \<and>
            repos_getCollaboratorPermissionLevel octokit owner repo (comment_login c) w1 =
              (Inr p, w2) \<and>
            (p = ''admin'' \<or> p = ''write'') \<and>
            \<not> includes_str commentBody CANCEL_COMMAND \<and>
            COMMAND_REGEX_exec commentBody = None \<and>
            issues_createComment octokit owner repo prNumber
              (cross_mark @
               '' Invalid command format. Please use: @merge-at YYYY-MM-DD HH:mm[am|pm] [timezone]'')
              w2 = (Inr (), w3)"
  then show "handleComment L getOctokit now cid token repository prNumber commentBody s =
              (Inr (), (w3, snd s @ [GetComment owner repo cid,
                                     GetCollaboratorPermissionLevel owner repo (comment_login c),
                                     CreateComment owner repo prNumber
                                       (cross_mark @
                                        '' Invalid command format. Please use: @merge-at YYYY-MM-DD HH:mm[am|pm] [timezone]'')]))"
    using handle_no_command[where getOctokit = getOctokit and token = token, OF assms]
    by blast
next
  fix c w1 p w2 dateTimeStr zone e w3
  assume "issues_getComment octokit owner repo cid (fst s) = (Inr c, w1) \<and>
            repos_getCollaboratorPermissionLevel octokit owner repo (comment_login c) w1 =
              (Inr p, w2) \<and>
            (p = ''admin'' \<or> p = ''write'') \<and>
            \<not> includes_str commentBody CANCEL_COMMAND \<and>
            COMMAND_REGEX_exec commentBody = Some (dateTimeStr, zone) \<and>
            validateScheduleTime (lib_zonedTimeToUtc L) (lib_addDays L) now dateTimeStr
              (case zone of None \<Rightarrow> ''UTC'' | Some z \<Rightarrow> z) = Inl e \<and>
            issues_createComment octokit owner repo prNumber (cross_mark @ '' '' @ message e) w2 =
              (Inr (), w3)"
  then show "handleComment L getOctokit now cid token repository prNumber commentBody s =
              (Inr (), (w3, snd s @ [GetComment owner repo cid,
                                     GetCollaboratorPermissionLevel owner repo (comment_login c),
                                     CreateComment owner repo prNumber
                                       (cross_mark @ '' '' @ message e)]))"
    using handle_parse_fails[where getOctokit = getOctokit and token = token, OF assms]
    by blast
next
  fix c w1 p w2 dateTimeStr zone scheduleDate e w3
  assume a: "issues_getComment octokit owner repo cid (fst s) = (Inr c, w1) \<and>
            repos_getCollaboratorPermissionLevel octokit owner repo (comment_login c) w1 =
              (Inr p, w2) \<and>
            (p = ''admin'' \<or> p = ''write'') \<and>
            \<not> includes_str commentBody CANCEL_COMMAND \<and>
            COMMAND_REGEX_exec commentBody = Some (dateTimeStr, zone) \<and>
            validateScheduleTime (lib_zonedTimeToUtc L) (lib_addDays L) now dateTimeStr
              (case zone of None \<Rightarrow> ''UTC'' | Some z \<Rightarrow> z) = Inr scheduleDate \<and>
            (lib_formatZoned L scheduleDate (case zone of None \<Rightarrow> ''UTC'' | Some z \<Rightarrow> z) =
               Inl e \<or>
             (\<exists>localTime.
                lib_formatZoned L scheduleDate (case zone of None \<Rightarrow> ''UTC'' | Some z \<Rightarrow> z) =
                  Inr localTime \<and>
                lib_format L scheduleDate = Inl e)) \<and>
            issues_createComment octokit owner repo prNumber (cross_mark @ '' '' @ message e) w2 =
              (Inr (), w3)"
  show "handleComment L getOctokit now cid token repository prNumber commentBody s =
              (Inr (), (w3, snd s @ [GetComment owner repo cid,
                                     GetCollaboratorPermissionLevel owner repo (comment_login c),
                                     CreateComment owner repo prNumber
                                       (cross_mark @ '' '' @ message e)]))"
    by (rule handle_format_fails[where getOctokit = getOctokit and token = token
          and timezone = "case zone of None \<Rightarrow> ''UTC'' | Some z \<Rightarrow> z", OF assms])
       (use a in \<open>blast+\<close>)
next
  fix c w1 p w2 dateTimeStr zone scheduleDate localTime utcTime e w3 tr3 w4
  assume a: "issues_getComment octokit owner repo cid (fst s) = (Inr c, w1) \<and>
            repos_getCollaboratorPermissionLevel octokit owner repo (comment_login c) w1 =
              (Inr p, w2) \<and>
            (p = ''admin'' \<or> p = ''write'') \<and>
            \<not> includes_str commentBody CANCEL_COMMAND \<and>
            COMMAND_REGEX_exec commentBody = Some (dateTimeStr, zone) \<and>
            validateScheduleTime (lib_zonedTimeToUtc L) (lib_addDays L) now dateTimeStr
              (case zone of None \<Rightarrow> ''UTC'' | Some z \<Rightarrow> z) = Inr scheduleDate \<and>
            lib_formatZoned L scheduleDate (case zone of None \<Rightarrow> ''UTC'' | Some z \<Rightarrow> z) =
              Inr localTime \<and>
            lib_format L scheduleDate = Inr utcTime \<and>
            (removeScheduleInfo octokit owner repo prNumber
               (w2, snd s @ [GetComment owner repo cid,
                             GetCollaboratorPermissionLevel owner repo (comment_login c)]) =
               (Inl e, (w3, tr3)) \<or>
             (\<exists>s'. removeScheduleInfo octokit owner repo prNumber
                      (w2, snd s @ [GetComment owner repo cid,
                                    GetCollaboratorPermissionLevel owner repo (comment_login c)]) =
                      (Inr (), s') \<and>
                   storeScheduleInfo L octokit owner repo prNumber scheduleDate localTime utcTime
                     (case zone of None \<Rightarrow> ''UTC'' | Some z \<Rightarrow> z) s' = (Inl e, (w3, tr3)))) \<and>
            issues_createComment octokit owner repo prNumber (cross_mark @ '' '' @ message e) w3 =
              (Inr (), w4)"
  show "handleComment L getOctokit now cid token repository prNumber commentBody s =
              (Inr (), (w4, tr3 @ [CreateComment owner repo prNumber
                                     (cross_mark @ '' '' @ message e)]))"
    by (rule handle_storage_fails[where getOctokit = getOctokit and token = token
          and timezone = "case zone of None \<Rightarrow> ''UTC'' | Some z \<Rightarrow> z", OF assms])
       (use a in \<open>blast+\<close>)
next
  fix e w1 tr1 w2
  assume "handleComment_try L octokit now cid owner repo prNumber commentBody s =
              (Inl e, (w1, tr1)) \<and>
            issues_createComment octokit owner repo prNumber generic_failure w1 = (Inr (), w2)"
  then show "handleComment L getOctokit now cid token repository prNumber commentBody s =
              (Inr (), (w2, tr1 @ [CreateComment owner repo prNumber generic_failure]))"
    using handle_other_failure[where getOctokit = getOctokit and token = token, OF assms]
    by blast
qed

text \<open>
  The claim as stated fails in two ways. With an empty token the creation of the client,
  which is outside the \<open>try\<close> block, throws, and no comment is posted. On a host
  that fails every request the lookup of the author fails, the outer handler tries to
  post the generic comment, that fails too, and \<open>handleComment\<close> throws.
\<close>

theorem C9_counterexample_throws:
  "handleComment sample_lib (sample_getOctokit gh) sample_now 1 [] ''o/r'' 7
     ''@merge-at 2024-01-02 14:30'' (sample_world, []) =
     (Inl (Error ''Parameter token or opts.auth is required'' None), (sample_world, [])) \<and>
   handleComment sample_lib (sample_getOctokit host_down) sample_now 1 ''ghs_token'' ''o/r'' 7
     ''@merge-at 2024-01-02 14:30'' ((), []) =
     (Inl unavailable,
      ((), [GetComment ''o'' ''r'' 1, CreateComment ''o'' ''r'' 7 generic_failure]))"
  by code_simp

text \<open>
  On a host that fails every request but the creation of comments the lookup of the
  author fails and the generic comment is posted. On the reference host a command of
  the collaborator for an instant in the past is answered with the message of the
  parser.
\<close>

theorem C9_throws_only_when_comment_fails_witness:
  "handleComment sample_lib (sample_getOctokit host_comments_only) sample_now 1 ''ghs_token''
     ''o/r'' 7 ''@merge-at 2024-01-02 14:30'' ([], []) =
     (Inr (), ([generic_failure],
               [GetComment ''o'' ''r'' 1, CreateComment ''o'' ''r'' 7 generic_failure])) \<and>
   fst (handleComment sample_lib (sample_getOctokit gh) sample_now 1 ''ghs_token''
     ''o/r'' 7 ''@merge-at 2023-12-31 14:30'' (sample_world, [])) = Inr () \<and>
   snd (snd (handleComment sample_lib (sample_getOctokit gh) sample_now 1 ''ghs_token''
     ''o/r'' 7 ''@merge-at 2023-12-31 14:30'' (sample_world, []))) =
     [GetComment ''o'' ''r'' 1, GetCollaboratorPermissionLevel ''o'' ''r'' ''alice'',
      CreateComment ''o'' ''r'' 7
        (cross_mark @ '' Invalid date/time format: Scheduled time must be in the future'')]"
proof -
  have t: "sample_getOctokit host_comments_only ''ghs_token'' = Inr host_comments_only"
    "sample_getOctokit gh ''ghs_token'' = Inr gh"
    by (simp_all add: sample_getOctokit_def)
  have r: "split_repository ''o/r'' = (''o'', ''r'')" by code_simp
  have a: "issues_getComment host_comments_only ''o'' ''r'' 1 (fst ([], [] :: request list)) =
       (Inl unavailable, [])"
    "issues_createComment host_comments_only ''o'' ''r'' 7 generic_failure [] =
       (Inr (), [generic_failure])"
    by code_simp+
  let ?c = "\<lparr>comment_id = 1, comment_login = ''alice'',
             comment_body = ''@merge-at 2024-01-02 2:30PM''\<rparr>"
  let ?e = "Error ''Invalid date/time format: Scheduled time must be in the future'' None"
  let ?w3 = "snd (gh_createComment ''o'' ''r'' 7 (cross_mark @ '' '' @ message ?e) sample_world)"
  have b: "issues_getComment gh ''o'' ''r'' 1 (fst (sample_world, [] :: request list)) =
       (Inr ?c, sample_world)"
    "repos_getCollaboratorPermissionLevel gh ''o'' ''r'' (comment_login ?c) sample_world =
       (Inr ''write'', sample_world)"
    "''write'' = ''admin'' \<or> ''write'' = ''write''"
    "\<not> includes_str ''@merge-at 2023-12-31 14:30'' CANCEL_COMMAND"
    "COMMAND_REGEX_exec ''@merge-at 2023-12-31 14:30'' = Some (''2023-12-31 14:30'', None)"
    "validateScheduleTime (lib_zonedTimeToUtc sample_lib) (lib_addDays sample_lib) sample_now
       ''2023-12-31 14:30'' (case None of None \<Rightarrow> ''UTC'' | Some z \<Rightarrow> z) = Inl ?e"
    "issues_createComment gh ''o'' ''r'' 7 (cross_mark @ '' '' @ message ?e) sample_world =
       (Inr (), ?w3)"
    by code_simp+
  note on_stub = C9_throws_only_when_comment_fails[where getOctokit = "sample_getOctokit host_comments_only"
      and token = "''ghs_token''" and L = sample_lib and now = sample_now and cid = 1
      and prNumber = 7 and commentBody = "''@merge-at 2024-01-02 14:30''" and s = "([], [])", OF t(1) r]
  note on_gh = C9_throws_only_when_comment_fails[where getOctokit = "sample_getOctokit gh"
      and token = "''ghs_token''" and L = sample_lib and now = sample_now and cid = 1
      and prNumber = 7 and commentBody = "''@merge-at 2023-12-31 14:30''" and s = "(sample_world, [])",
      OF t(2) r]
  have 1: "handleComment sample_lib (sample_getOctokit host_comments_only) sample_now 1 ''ghs_token''
     ''o/r'' 7 ''@merge-at 2024-01-02 14:30'' ([], []) =
     (Inr (), ([generic_failure],
               [GetComment ''o'' ''r'' 1, CreateComment ''o'' ''r'' 7 generic_failure]))"
    using on_stub[THEN conjunct2, THEN conjunct1, rule_format, of unavailable "[]" "[generic_failure]"] a
    by simp
  have 2: "handleComment sample_lib (sample_getOctokit gh) sample_now 1 ''ghs_token''
     ''o/r'' 7 ''@merge-at 2023-12-31 14:30'' (sample_world, []) =
     (Inr (), (?w3, [GetComment ''o'' ''r'' 1,
        GetCollaboratorPermissionLevel ''o'' ''r'' (comment_login ?c),
        CreateComment ''o'' ''r'' 7 (cross_mark @ '' '' @ message ?e)]))"
    using on_gh[THEN conjunct2, THEN conjunct2, THEN conjunct2, THEN conjunct2,
          THEN conjunct1, rule_format, of ?c sample_world "''write''" sample_world
          "''2023-12-31 14:30''" None ?e ?w3] b
    by simp
  show ?thesis using 1 2 by simp
qed

end
